theory Spec2Isabelle
  imports Complex_Main
begin

section \<open>Strings\<close>

text \<open>
  Python \<open>str\<close> values are held as \<^typ>\<open>string\<close>, non-ASCII text as its UTF-8 bytes
  (equality, prefix and substring tests on well-formed UTF-8 agree with the same tests on
  code points). \<open>str.lower\<close> and \<open>str.strip\<close> follow the Unicode tables of the Python
  runtime; they are taken from the environment record below, so that every general
  theorem holds whatever these two functions are. \<open>ascii_lower\<close> is \<open>str.lower\<close> on
  ASCII text and is used for the concrete runs.
\<close>

fun startswith :: "string \<Rightarrow> string \<Rightarrow> bool" where
  "startswith s [] = True"
| "startswith [] (p # ps) = False"
| "startswith (c # cs) (p # ps) = (c = p \<and> startswith cs ps)"

text \<open>\<open>kw in s\<close> on strings: \<open>kw\<close> occurs in \<open>s\<close> as a contiguous run.\<close>

fun str_in :: "string \<Rightarrow> string \<Rightarrow> bool" where
  "str_in kw [] = (kw = [])"
| "str_in kw (c # cs) = (startswith (c # cs) kw \<or> str_in kw cs)"

text \<open>\<open>any(kw in s for kw in kws)\<close>\<close>

fun any_kw_in :: "string list \<Rightarrow> string \<Rightarrow> bool" where
  "any_kw_in [] s = False"
| "any_kw_in (kw # kws) s = (str_in kw s \<or> any_kw_in kws s)"

definition ascii_lower_char :: "char \<Rightarrow> char" where
  "ascii_lower_char c =
     (case map_of (zip ''ABCDEFGHIJKLMNOPQRSTUVWXYZ'' ''abcdefghijklmnopqrstuvwxyz'') c of
        Some d \<Rightarrow> d | None \<Rightarrow> c)"

definition ascii_lower :: "string \<Rightarrow> string" where
  "ascii_lower s = map ascii_lower_char s"

section \<open>The node graph of the host\<close>

record socket =
  sock_name :: string
  sock_type :: string
  bl_idname :: string

text \<open>
  A node: \<open>node_tree\<close> is the name of the group definition a group node is bound to
  (\<open>node.node_tree.name\<close>), \<open>None\<close> when \<open>node.node_tree\<close> is \<open>None\<close>.
\<close>

record node =
  node_name :: string
  node_label :: string
  node_type :: string
  node_tree :: "string option"
  location :: "rat \<times> rat"
  inputs :: "socket list"
  outputs :: "socket list"

text \<open>
  A link runs from output number \<open>from_socket\<close> of the node named \<open>from_node\<close> to input
  number \<open>to_socket\<close> of the node named \<open>to_node\<close>: node names are unique within one
  graph, and a socket is its position in its node.
\<close>

record link =
  from_node :: string
  from_socket :: nat
  to_node :: string
  to_socket :: nat

record graph =
  nodes :: "node list"
  links :: "link list"

text \<open>
  What the code takes from its runtime and from the host and cannot decide itself:
  the two Unicode string functions, whether \<open>links.new\<close> and \<open>nodes.remove\<close> return or
  raise, the node \<open>nodes.new(type=...)\<close> builds for a class name (\<open>None\<close> when it raises),
  and the name the host gives a node that asks for a name (the host keeps names unique).
\<close>

record env =
  str_lower :: "string \<Rightarrow> string"
  str_strip :: "string \<Rightarrow> string"
  link_ok :: "link list \<Rightarrow> link \<Rightarrow> bool"
  remove_ok :: "node list \<Rightarrow> string \<Rightarrow> bool"
  nodes_new :: "string \<Rightarrow> node option"
  unique_name :: "string list \<Rightarrow> string \<Rightarrow> string"

section \<open>Socket semantics (node\_config.py, class SocketSemantics)\<close>

datatype semantic =
  COLOR | NORMAL | ROUGHNESS | METALLIC | ALPHA | EMISSION | SPECULAR
  | SUBSURFACE | AO | DISPLACEMENT | UNKNOWN

definition NORMAL_KEYWORDS :: "string list" where
  "NORMAL_KEYWORDS = [''normal'', ''bump'',
     [CHR 0xE6, CHR 0xB3, CHR 0x95, CHR 0xE7, CHR 0xBA, CHR 0xBF],
     [CHR 0xE5, CHR 0x87, CHR 0xB9, CHR 0xE5, CHR 0x87, CHR 0xB8]]"

definition ROUGHNESS_KEYWORDS :: "string list" where
  "ROUGHNESS_KEYWORDS = [''roughness'', ''rough'', ''glossy'', ''gloss'',
     [CHR 0xE7, CHR 0xB2, CHR 0x97, CHR 0xE7, CHR 0xB3, CHR 0x99],
     [CHR 0xE5, CHR 0x85, CHR 0x89, CHR 0xE6, CHR 0xB3, CHR 0xBD]]"

definition METALLIC_KEYWORDS :: "string list" where
  "METALLIC_KEYWORDS = [''metallic'', ''metal'',
     [CHR 0xE9, CHR 0x87, CHR 0x91, CHR 0xE5, CHR 0xB1, CHR 0x9E]]"

definition ALPHA_KEYWORDS :: "string list" where
  "ALPHA_KEYWORDS = [''alpha'', ''opacity'', ''transparency'',
     [CHR 0xE9, CHR 0x80, CHR 0x8F, CHR 0xE6, CHR 0x98, CHR 0x8E],
     [CHR 0xE4, CHR 0xB8, CHR 0x8D, CHR 0xE9, CHR 0x80, CHR 0x8F, CHR 0xE6, CHR 0x98, CHR 0x8E],
     ''fac'']"

definition EMISSION_KEYWORDS :: "string list" where
  "EMISSION_KEYWORDS = [''emission'', ''emissive'', ''glow'',
     [CHR 0xE8, CHR 0x87, CHR 0xAA, CHR 0xE5, CHR 0x8F, CHR 0x91, CHR 0xE5, CHR 0x85, CHR 0x89],
     [CHR 0xE5, CHR 0x8F, CHR 0x91, CHR 0xE5, CHR 0x85, CHR 0x89]]"

definition SPECULAR_KEYWORDS :: "string list" where
  "SPECULAR_KEYWORDS = [''specular'', ''spec'', ''reflection'',
     [CHR 0xE9, CHR 0xAB, CHR 0x98, CHR 0xE5, CHR 0x85, CHR 0x89],
     [CHR 0xE5, CHR 0x8F, CHR 0x8D, CHR 0xE5, CHR 0xB0, CHR 0x84]]"

definition SUBSURFACE_KEYWORDS :: "string list" where
  "SUBSURFACE_KEYWORDS = [''subsurface'', ''sss'',
     [CHR 0xE6, CHR 0xAC, CHR 0xA1, CHR 0xE8, CHR 0xA1, CHR 0xA8, CHR 0xE9, CHR 0x9D, CHR 0xA2]]"

definition AO_KEYWORDS :: "string list" where
  "AO_KEYWORDS = [''ao'', ''ambient occlusion'', ''occlusion'',
     [CHR 0xE7, CHR 0x8E, CHR 0xAF, CHR 0xE5, CHR 0xA2, CHR 0x83, CHR 0xE5, CHR 0x85, CHR 0x89,
      CHR 0xE9, CHR 0x81, CHR 0xAE, CHR 0xE8, CHR 0x94, CHR 0xBD],
     [CHR 0xE9, CHR 0x81, CHR 0xAE, CHR 0xE8, CHR 0x94, CHR 0xBD]]"

definition DISPLACEMENT_KEYWORDS :: "string list" where
  "DISPLACEMENT_KEYWORDS = [''displacement'', ''height'', ''disp'',
     [CHR 0xE7, CHR 0xBD, CHR 0xAE, CHR 0xE6, CHR 0x8D, CHR 0xA2],
     [CHR 0xE9, CHR 0xAB, CHR 0x98, CHR 0xE5, CHR 0xBA, CHR 0xA6]]"

definition get_socket_semantic :: "env \<Rightarrow> string \<Rightarrow> semantic" where
  "get_socket_semantic h socket_name =
     (let name_lower = str_lower h socket_name in
      if str_in ''base color'' name_lower \<or> str_in ''basecolor'' name_lower then COLOR
      else if any_kw_in NORMAL_KEYWORDS name_lower then NORMAL
      else if any_kw_in ROUGHNESS_KEYWORDS name_lower then ROUGHNESS
      else if any_kw_in METALLIC_KEYWORDS name_lower then METALLIC
      else if any_kw_in ALPHA_KEYWORDS name_lower then ALPHA
      else if any_kw_in EMISSION_KEYWORDS name_lower then EMISSION
      else if any_kw_in SPECULAR_KEYWORDS name_lower then SPECULAR
      else if any_kw_in SUBSURFACE_KEYWORDS name_lower then SUBSURFACE
      else if any_kw_in AO_KEYWORDS name_lower then AO
      else if any_kw_in DISPLACEMENT_KEYWORDS name_lower then DISPLACEMENT
      else if str_in ''color'' name_lower
              \<or> str_in [CHR 0xE9, CHR 0xA2, CHR 0x9C, CHR 0xE8, CHR 0x89, CHR 0xB2] name_lower
           then COLOR
      else UNKNOWN)"

text \<open>The dictionary of \<open>are_semantically_compatible\<close>, in the order it is written.\<close>

definition compatibility :: "((semantic \<times> semantic) \<times> nat) list" where
  "compatibility =
     [((COLOR, COLOR), 100),
      ((COLOR, EMISSION), 80),
      ((NORMAL, NORMAL), 100),
      ((ROUGHNESS, ROUGHNESS), 100),
      ((ROUGHNESS, SPECULAR), 60),
      ((METALLIC, METALLIC), 100),
      ((ALPHA, ALPHA), 100),
      ((AO, ROUGHNESS), 40),
      ((AO, SPECULAR), 40)]"

definition are_semantically_compatible :: "semantic \<Rightarrow> semantic \<Rightarrow> nat" where
  "are_semantically_compatible output_semantic input_semantic =
     (if output_semantic = input_semantic then 100
      else (case map_of compatibility (output_semantic, input_semantic) of
              Some v \<Rightarrow> v | None \<Rightarrow> 0))"

section \<open>Node type tables (node\_config.py, class NodeTypeConfig)\<close>

definition SHADER_NODE_TYPES :: "string list" where
  "SHADER_NODE_TYPES =
     [''BSDF_PRINCIPLED'', ''BSDF_DIFFUSE'', ''BSDF_GLOSSY'', ''BSDF_TRANSPARENT'',
      ''BSDF_GLASS'', ''BSDF_TRANSLUCENT'', ''BSDF_ANISOTROPIC'', ''BSDF_VELVET'',
      ''BSDF_REFRACTION'', ''BSDF_TOON'', ''BSDF_SHEEN'',
      ''BSDF_HAIR'', ''BSDF_HAIR_PRINCIPLED'',
      ''SUBSURFACE_SCATTERING'',
      ''EMISSION'',
      ''VOLUME_ABSORPTION'', ''VOLUME_SCATTER'', ''VOLUME_PRINCIPLED'',
      ''MIX_SHADER'', ''ADD_SHADER'',
      ''HOLDOUT'', ''BACKGROUND'', ''EEVEE_SPECULAR'']"

definition TEXTURE_NODE_TYPES :: "string list" where
  "TEXTURE_NODE_TYPES =
     [''TEX_IMAGE'', ''TEX_ENVIRONMENT'', ''TEX_SKY'', ''TEX_NOISE'', ''TEX_VORONOI'',
      ''TEX_WAVE'', ''TEX_MAGIC'', ''TEX_CHECKER'', ''TEX_BRICK'', ''TEX_GRADIENT'',
      ''TEX_WHITE_NOISE'', ''TEX_GABOR'', ''TEX_MUSGRAVE'']"

definition SHADER_TYPE_TO_CLASS :: "(string \<times> string) list" where
  "SHADER_TYPE_TO_CLASS =
     [(''BSDF_PRINCIPLED'', ''ShaderNodeBsdfPrincipled''),
      (''BSDF_DIFFUSE'', ''ShaderNodeBsdfDiffuse''),
      (''BSDF_GLOSSY'', ''ShaderNodeBsdfGlossy''),
      (''BSDF_TRANSPARENT'', ''ShaderNodeBsdfTransparent''),
      (''BSDF_GLASS'', ''ShaderNodeBsdfGlass''),
      (''BSDF_TRANSLUCENT'', ''ShaderNodeBsdfTranslucent''),
      (''BSDF_ANISOTROPIC'', ''ShaderNodeBsdfAnisotropic''),
      (''BSDF_REFRACTION'', ''ShaderNodeBsdfRefraction''),
      (''BSDF_TOON'', ''ShaderNodeBsdfToon''),
      (''BSDF_SHEEN'', ''ShaderNodeBsdfSheen''),
      (''BSDF_HAIR'', ''ShaderNodeBsdfHair''),
      (''BSDF_HAIR_PRINCIPLED'', ''ShaderNodeBsdfHairPrincipled''),
      (''SUBSURFACE_SCATTERING'', ''ShaderNodeSubsurfaceScattering''),
      (''EMISSION'', ''ShaderNodeEmission''),
      (''HOLDOUT'', ''ShaderNodeHoldout''),
      (''BACKGROUND'', ''ShaderNodeBackground''),
      (''VOLUME_ABSORPTION'', ''ShaderNodeVolumeAbsorption''),
      (''VOLUME_SCATTER'', ''ShaderNodeVolumeScatter''),
      (''VOLUME_PRINCIPLED'', ''ShaderNodeVolumePrincipled''),
      (''MIX_SHADER'', ''ShaderNodeMixShader''),
      (''ADD_SHADER'', ''ShaderNodeAddShader'')]"

definition BUILTIN_SHADER_TYPES :: "string list" where
  "BUILTIN_SHADER_TYPES =
     [''BSDF_PRINCIPLED'', ''BSDF_DIFFUSE'', ''BSDF_GLOSSY'', ''BSDF_TRANSPARENT'',
      ''BSDF_GLASS'', ''EMISSION'', ''BSDF_ANISOTROPIC'', ''BSDF_HAIR'',
      ''SUBSURFACE_SCATTERING'', ''VOLUME_ABSORPTION'', ''VOLUME_SCATTER'',
      ''VOLUME_PRINCIPLED'', ''MIX_SHADER'', ''ADD_SHADER'', ''BSDF_SHEEN'',
      ''BSDF_TRANSLUCENT'', ''BSDF_REFRACTION'', ''BSDF_TOON'', ''HOLDOUT'',
      ''BSDF_HAIR_PRINCIPLED'', ''BACKGROUND'']"

definition SHADER_KEYWORDS :: "string list" where
  "SHADER_KEYWORDS = [''shader'', ''bsdf'', ''material'',
     [CHR 0xE7, CHR 0x9D, CHR 0x80, CHR 0xE8, CHR 0x89, CHR 0xB2],
     [CHR 0xE6, CHR 0x9D, CHR 0x90, CHR 0xE8, CHR 0xB4, CHR 0xA8],
     ''surface'']"

text \<open>\<open>any(out.type == 'SHADER' for out in node.outputs)\<close>\<close>

fun has_shader_output :: "socket list \<Rightarrow> bool" where
  "has_shader_output [] = False"
| "has_shader_output (out # outs) = (sock_type out = ''SHADER'' \<or> has_shader_output outs)"

definition is_shader_node :: "env \<Rightarrow> node \<Rightarrow> bool" where
  "is_shader_node h n =
     (if node_type n \<in> set SHADER_NODE_TYPES then True
      else (case node_tree n of
              Some tree_name \<Rightarrow>
                if node_type n = ''GROUP'' then
                  (if has_shader_output (outputs n) then True
                   else any_kw_in SHADER_KEYWORDS (str_lower h tree_name))
                else False
            | None \<Rightarrow> False))"

definition is_texture_node :: "node \<Rightarrow> bool" where
  "is_texture_node n = (node_type n \<in> set TEXTURE_NODE_TYPES)"

definition get_shader_class_name :: "string \<Rightarrow> string" where
  "get_shader_class_name shader_type =
     (case map_of SHADER_TYPE_TO_CLASS shader_type of
        Some c \<Rightarrow> c | None \<Rightarrow> ''ShaderNodeBsdfPrincipled'')"

definition is_valid_builtin_shader :: "string \<Rightarrow> bool" where
  "is_valid_builtin_shader shader_type = (shader_type \<in> set BUILTIN_SHADER_TYPES)"

section \<open>Graph operations of the host and their guarded forms (error\_handler.py)\<close>

text \<open>\<open>nodes.get(name)\<close>\<close>

definition nodes_get :: "graph \<Rightarrow> string \<Rightarrow> node option" where
  "nodes_get g nm = find (\<lambda>n. node_name n = nm) (nodes g)"

text \<open>Position of the first element that satisfies \<open>P\<close>, as a \<open>for ... break\<close> search finds it.\<close>

fun first_index :: "('a \<Rightarrow> bool) \<Rightarrow> 'a list \<Rightarrow> nat option" where
  "first_index P [] = None"
| "first_index P (x # xs) = (if P x then Some 0 else map_option Suc (first_index P xs))"

fun nth_opt :: "'a list \<Rightarrow> nat \<Rightarrow> 'a option" where
  "nth_opt [] i = None"
| "nth_opt (x # xs) 0 = Some x"
| "nth_opt (x # xs) (Suc i) = nth_opt xs i"

definition mk_link :: "string \<Rightarrow> nat \<Rightarrow> string \<Rightarrow> nat \<Rightarrow> link" where
  "mk_link fn fs tn ts = \<lparr>from_node = fn, from_socket = fs, to_node = tn, to_socket = ts\<rparr>"

text \<open>
  \<open>links.new(source_socket, target_socket)\<close>: \<open>None\<close> when the host raises. An input binds
  at most one link (the host enforces it), so a new link into an input replaces the link
  that input had; the new link goes to the end of the collection.
\<close>

definition links_new :: "env \<Rightarrow> graph \<Rightarrow> link \<Rightarrow> graph option" where
  "links_new h g l =
     (if link_ok h (links g) l
      then Some (g\<lparr>links :=
             filter (\<lambda>k. \<not> (to_node k = to_node l \<and> to_socket k = to_socket l)) (links g) @ [l]\<rparr>)
      else None)"

definition safe_link :: "env \<Rightarrow> graph \<Rightarrow> link \<Rightarrow> bool \<times> graph" where
  "safe_link h g l = (case links_new h g l of Some g' \<Rightarrow> (True, g') | None \<Rightarrow> (False, g))"

text \<open>\<open>nodes.remove(node)\<close> takes the node and every link at one of its sockets away.\<close>

definition nodes_remove :: "env \<Rightarrow> graph \<Rightarrow> string \<Rightarrow> graph option" where
  "nodes_remove h g nm =
     (if remove_ok h (nodes g) nm
      then Some \<lparr>nodes = filter (\<lambda>n. node_name n \<noteq> nm) (nodes g),
                 links = filter (\<lambda>k. from_node k \<noteq> nm \<and> to_node k \<noteq> nm) (links g)\<rparr>
      else None)"

definition safe_remove_node :: "env \<Rightarrow> graph \<Rightarrow> string \<Rightarrow> bool \<times> graph" where
  "safe_remove_node h g nm =
     (case nodes_remove h g nm of Some g' \<Rightarrow> (True, g') | None \<Rightarrow> (False, g))"

section \<open>Socket matching of the replacement engine (operators.py)\<close>

text \<open>The dictionary of \<open>_get_type_compatibility_score\<close>.\<close>

definition type_compatibility :: "((string \<times> string) \<times> nat) list" where
  "type_compatibility =
     [((''RGBA'', ''RGBA''), 100),
      ((''RGBA'', ''VECTOR''), 80),
      ((''RGBA'', ''VALUE''), 60),
      ((''VECTOR'', ''VECTOR''), 100),
      ((''VECTOR'', ''RGBA''), 80),
      ((''VALUE'', ''VALUE''), 100),
      ((''VALUE'', ''RGBA''), 60),
      ((''SHADER'', ''SHADER''), 100)]"

definition get_type_compatibility_score :: "string \<Rightarrow> string \<Rightarrow> nat" where
  "get_type_compatibility_score output_type input_type =
     (if output_type = input_type then 100
      else (case map_of type_compatibility (output_type, input_type) of
              Some v \<Rightarrow> v | None \<Rightarrow> 0))"

text \<open>
  The score \<open>_find_best_input_socket\<close> gives the input at position \<open>idx\<close>. The source adds
  \<open>semantic_score * 0.8\<close> and \<open>type_score * 0.6\<close> in binary floating point; the two scores
  only take the values 0, 40, 60, 80, 100, for which every product and every sum is a
  whole number that the floating-point operations return exactly, so the rational
  arithmetic here computes the same numbers.
\<close>

definition input_score :: "env \<Rightarrow> string \<Rightarrow> string \<Rightarrow> nat \<Rightarrow> socket \<Rightarrow> rat" where
  "input_score h original_name original_type idx inp =
     (let original_semantic = get_socket_semantic h original_name;
          score0 = (if sock_name inp = original_name then 100
                    else if str_lower h (sock_name inp) = str_lower h original_name then 90
                    else if str_in (str_lower h original_name) (str_lower h (sock_name inp))
                            \<or> str_in (str_lower h (sock_name inp)) (str_lower h original_name)
                         then 50
                    else 0);
          input_semantic = get_socket_semantic h (sock_name inp);
          semantic_score = are_semantically_compatible original_semantic input_semantic;
          score1 = score0 + of_nat semantic_score * (8 / 10);
          type_score = get_type_compatibility_score original_type (sock_type inp);
          score2 = score1 + of_nat type_score * (6 / 10);
          position_score = max 0 (10 - int idx);
          score3 = score2 + of_int position_score
      in score3)"

text \<open>
  The candidate list of \<open>_find_best_input_socket\<close>: the inputs from position \<open>idx\<close> on that
  are not in \<open>connected_inputs\<close>, each with its score. An input is named by its position;
  \<open>connected_inputs\<close> only ever holds inputs of this one node.
\<close>

fun candidates_from ::
  "env \<Rightarrow> string \<Rightarrow> string \<Rightarrow> nat list \<Rightarrow> nat \<Rightarrow> socket list \<Rightarrow> (nat \<times> rat) list" where
  "candidates_from h original_name original_type connected_inputs idx [] = []"
| "candidates_from h original_name original_type connected_inputs idx (inp # rest) =
     (if idx \<in> set connected_inputs
      then candidates_from h original_name original_type connected_inputs (Suc idx) rest
      else (idx, input_score h original_name original_type idx inp)
           # candidates_from h original_name original_type connected_inputs (Suc idx) rest)"

text \<open>
  \<open>candidates.sort(key=lambda x: x[1], reverse=True)\<close> is a stable sort by falling score:
  candidates of equal score keep their order. \<open>sort_key\<close> on the negated score is that sort.
\<close>

definition find_best_input_socket ::
  "env \<Rightarrow> socket list \<Rightarrow> string \<Rightarrow> string \<Rightarrow> nat list \<Rightarrow> nat option" where
  "find_best_input_socket h shader_inputs original_name original_type connected_inputs =
     (let candidates = candidates_from h original_name original_type connected_inputs 0 shader_inputs
      in case sort_key (\<lambda>c. - snd c) candidates of
           [] \<Rightarrow> None
         | (best_socket, best_score) # _ \<Rightarrow> if best_score \<ge> 30 then Some best_socket else None)"

definition find_best_output_socket ::
  "env \<Rightarrow> socket list \<Rightarrow> string \<Rightarrow> string \<Rightarrow> nat option" where
  "find_best_output_socket h shader_outputs original_name original_type =
     (case first_index (\<lambda>out. sock_name out = original_name) shader_outputs of
        Some i \<Rightarrow> Some i
      | None \<Rightarrow>
        (case first_index (\<lambda>out. str_lower h (sock_name out) = str_lower h original_name)
                shader_outputs of
           Some i \<Rightarrow> Some i
         | None \<Rightarrow>
           (case first_index (\<lambda>out. sock_type out = original_type) shader_outputs of
              Some i \<Rightarrow> Some i
            | None \<Rightarrow> if length shader_outputs > 0 then Some 0 else None)))"

definition find_shader_output :: "socket list \<Rightarrow> nat option" where
  "find_shader_output shader_outputs =
     (case first_index (\<lambda>out. sock_type out = ''SHADER'') shader_outputs of
        Some i \<Rightarrow> Some i
      | None \<Rightarrow> if length shader_outputs > 0 then Some 0 else None)"

text \<open>
  The surface input the replacement engine links to: \<open>inputs['Surface']\<close> when an input of
  that name exists, else \<open>inputs[0]\<close>, else none.
\<close>

definition surface_input_of :: "socket list \<Rightarrow> nat option" where
  "surface_input_of ins =
     (case first_index (\<lambda>i. sock_name i = ''Surface'') ins of
        Some i \<Rightarrow> Some i
      | None \<Rightarrow> if length ins > 0 then Some 0 else None)"

section \<open>Settings, snapshot records and the session state (properties.py, cache.py)\<close>

datatype replace_mode = MODE_ALL | MODE_SPECIFIC | MODE_MATERIAL | MODE_MATERIAL_SPECIFIC

record connection_rule =
  source_match_mode :: string
  source_node_label :: string
  source_node_type :: string
  source_socket_index :: nat
  target_match_mode :: string
  target_node_label :: string
  target_node_type :: string
  target_socket_index :: nat

record snapshot_item =
  material_name :: string
  from_node_name :: string
  from_node_type :: string
  from_socket_name :: string
  from_socket_index :: nat
  from_socket_type :: string
  to_node_name :: string
  to_node_type :: string
  to_socket_name :: string
  to_socket_index :: nat
  to_socket_type :: string
  snap_replace_mode :: string
  snap_shader_type :: string

text \<open>
  The settings the operators read. A pointer property (\<open>shader_nodegroup\<close>,
  \<open>target_material\<close>, ...) holds the name of the data block it points to, \<open>None\<close> when unset.
\<close>

record props =
  builtin_shader :: string
  shader_nodegroup :: "string option"
  specific_builtin_shader :: string
  specific_nodegroup :: "string option"
  material_specific_builtin_shader :: string
  material_specific_nodegroup :: "string option"
  replace_mode :: replace_mode
  target_material :: "string option"
  auto_connect :: bool
  connection_rules :: "connection_rule list"
  connection_snapshot :: "snapshot_item list"
  target_type :: string

text \<open>A node group of \<open>bpy.data.node_groups\<close>, with the sockets its instances expose.\<close>

record node_group =
  ng_name :: string
  ng_type :: string
  ng_inputs :: "socket list"
  ng_outputs :: "socket list"

record material =
  mat_name :: string
  use_nodes :: bool
  mat_node_tree :: graph

text \<open>An object; a material slot holds the name of its material, \<open>None\<close> when empty.\<close>

record object =
  obj_type :: string
  material_slots :: "string option list"

record bl_context =
  selected_objects :: "object list"
  collection :: "object list option"

text \<open>
  Everything the operators can change: the materials (by name) with their graphs, the
  class-level dictionary of \<open>MaterialCache\<close>, and the scene settings with the snapshot
  store; \<open>node_groups\<close> is read only.
\<close>

record world =
  materials :: "string \<Rightarrow> material option"
  node_groups :: "node_group list"
  processed_materials :: "string \<Rightarrow> nat option"
  scene_props :: props

definition slot_material :: "world \<Rightarrow> string option \<Rightarrow> material option" where
  "slot_material w slot = (case slot of None \<Rightarrow> None | Some nm \<Rightarrow> materials w nm)"

definition set_node_tree :: "world \<Rightarrow> material \<Rightarrow> graph \<Rightarrow> world" where
  "set_node_tree w mat g =
     w\<lparr>materials := (materials w)(mat_name mat := Some (mat\<lparr>mat_node_tree := g\<rparr>))\<rparr>"

definition MaterialCache_clear :: "world \<Rightarrow> world" where
  "MaterialCache_clear w = w\<lparr>processed_materials := (\<lambda>nm. None)\<rparr>"

definition is_processed :: "world \<Rightarrow> material \<Rightarrow> bool" where
  "is_processed w mat = (processed_materials w (mat_name mat) \<noteq> None)"

definition mark_processed :: "world \<Rightarrow> material \<Rightarrow> nat \<Rightarrow> world" where
  "mark_processed w mat result =
     w\<lparr>processed_materials := (processed_materials w)(mat_name mat := Some result)\<rparr>"

definition get_result :: "world \<Rightarrow> material \<Rightarrow> nat" where
  "get_result w mat = (case processed_materials w (mat_name mat) of Some r \<Rightarrow> r | None \<Rightarrow> 0)"

section \<open>The replacement engine (operators.py, MATERIAL\_OT\_batch\_replace\_shader)\<close>

text \<open>
  \<open>get_socket_index\<close>: the position of a socket in its collection, \<open>-1\<close> when it is
  not there.
\<close>

definition get_socket_index :: "socket list \<Rightarrow> nat \<Rightarrow> int" where
  "get_socket_index socket_collection target_socket =
     (if target_socket < length socket_collection then int target_socket else - 1)"

record in_conn =
  ic_from_node :: string
  ic_from_node_type :: string
  ic_from_socket :: string
  ic_from_socket_type :: string
  ic_from_socket_index :: int
  ic_to_socket_index :: int
  ic_to_socket_type :: string

record out_conn =
  oc_to_node :: string
  oc_to_node_type :: string
  oc_to_socket :: string
  oc_to_socket_type :: string
  oc_to_socket_index :: int
  oc_from_socket_index :: int
  oc_from_socket_type :: string

text \<open>
  \<open>input_links\<close> and \<open>output_links\<close> are dictionaries from a socket name to a list; a
  dictionary keeps its keys in the order they were first stored, which is the order
  \<open>items()\<close> walks them in.
\<close>

fun dict_ensure :: "(string \<times> 'a list) list \<Rightarrow> string \<Rightarrow> (string \<times> 'a list) list" where
  "dict_ensure [] k = [(k, [])]"
| "dict_ensure ((k', vs) # d) k = (if k' = k then (k', vs) # d else (k', vs) # dict_ensure d k)"

fun dict_append :: "(string \<times> 'a list) list \<Rightarrow> string \<Rightarrow> 'a \<Rightarrow> (string \<times> 'a list) list" where
  "dict_append [] k v = []"
| "dict_append ((k', vs) # d) k v =
     (if k' = k then (k', vs @ [v]) # d else (k', vs) # dict_append d k v)"

text \<open>
  One round of the two capture loops. A link whose socket or far node no longer
  resolves raises \<open>ReferenceError\<close> and is passed over; the key of its socket name is
  stored before the far end is read.
\<close>

definition capture_input_link ::
  "graph \<Rightarrow> node \<Rightarrow> (string \<times> in_conn list) list \<Rightarrow> link \<Rightarrow> (string \<times> in_conn list) list" where
  "capture_input_link g old_shader input_links l =
     (if to_node l = node_name old_shader then
        (case nth_opt (inputs old_shader) (to_socket l) of
           None \<Rightarrow> input_links
         | Some to_sock \<Rightarrow>
           (let socket_name = sock_name to_sock;
                socket_index = get_socket_index (inputs old_shader) (to_socket l);
                socket_type = sock_type to_sock;
                input_links1 = dict_ensure input_links socket_name
            in case nodes_get g (from_node l) of
                 None \<Rightarrow> input_links1
               | Some fnode \<Rightarrow>
                 (case nth_opt (outputs fnode) (from_socket l) of
                    None \<Rightarrow> input_links1
                  | Some from_sock \<Rightarrow>
                      dict_append input_links1 socket_name
                        \<lparr>ic_from_node = node_name fnode,
                         ic_from_node_type = node_type fnode,
                         ic_from_socket = sock_name from_sock,
                         ic_from_socket_type = sock_type from_sock,
                         ic_from_socket_index = get_socket_index (outputs fnode) (from_socket l),
                         ic_to_socket_index = socket_index,
                         ic_to_socket_type = socket_type\<rparr>)))
      else input_links)"

definition capture_output_link ::
  "graph \<Rightarrow> node \<Rightarrow> (string \<times> out_conn list) list \<Rightarrow> link \<Rightarrow> (string \<times> out_conn list) list" where
  "capture_output_link g old_shader output_links l =
     (if from_node l = node_name old_shader then
        (case nth_opt (outputs old_shader) (from_socket l) of
           None \<Rightarrow> output_links
         | Some from_sock \<Rightarrow>
           (let socket_name = sock_name from_sock;
                socket_index = get_socket_index (outputs old_shader) (from_socket l);
                socket_type = sock_type from_sock;
                output_links1 = dict_ensure output_links socket_name
            in case nodes_get g (to_node l) of
                 None \<Rightarrow> output_links1
               | Some tnode \<Rightarrow>
                 (case nth_opt (inputs tnode) (to_socket l) of
                    None \<Rightarrow> output_links1
                  | Some to_sock \<Rightarrow>
                      dict_append output_links1 socket_name
                        \<lparr>oc_to_node = node_name tnode,
                         oc_to_node_type = node_type tnode,
                         oc_to_socket = sock_name to_sock,
                         oc_to_socket_type = sock_type to_sock,
                         oc_to_socket_index = get_socket_index (inputs tnode) (to_socket l),
                         oc_from_socket_index = socket_index,
                         oc_from_socket_type = socket_type\<rparr>)))
      else output_links)"

text \<open>
  \<open>for socket_name, connections in d.items(): for conn in connections:\<close> visits these
  pairs in this order.
\<close>

definition dict_pairs :: "(string \<times> 'a list) list \<Rightarrow> (string \<times> 'a) list" where
  "dict_pairs d = concat (map (\<lambda>(k, vs). map (\<lambda>v. (k, v)) vs) d)"

text \<open>
  The socket of \<open>sockets\<close> a captured link names: the one at the recorded position when
  that position exists, else the first one of the recorded name.
\<close>

definition resolve_socket :: "socket list \<Rightarrow> int \<Rightarrow> string \<Rightarrow> nat option" where
  "resolve_socket sockets idx nm =
     (if 0 \<le> idx \<and> idx < int (length sockets) then Some (nat idx)
      else first_index (\<lambda>s. sock_name s = nm) sockets)"

text \<open>
  One round of the input loop: the state is the graph and \<open>connected_inputs\<close>, the inputs
  of the new node this loop has linked.
\<close>

definition reconnect_input ::
  "env \<Rightarrow> node \<Rightarrow> graph \<times> nat list \<Rightarrow> string \<times> in_conn \<Rightarrow> graph \<times> nat list" where
  "reconnect_input h new_shader st sc =
     (let (g, connected_inputs) = st; (socket_name, conn) = sc
      in case nodes_get g (ic_from_node conn) of
           None \<Rightarrow> (g, connected_inputs)
         | Some source_node \<Rightarrow>
           (case resolve_socket (outputs source_node) (ic_from_socket_index conn)
                   (ic_from_socket conn) of
              None \<Rightarrow> (g, connected_inputs)
            | Some source_socket \<Rightarrow>
              (case find_best_input_socket h (inputs new_shader) socket_name
                      (ic_to_socket_type conn) connected_inputs of
                 None \<Rightarrow> (g, connected_inputs)
               | Some target_socket \<Rightarrow>
                 (let (ok, g') = safe_link h g
                        (mk_link (node_name source_node) source_socket
                                 (node_name new_shader) target_socket)
                  in if ok then (g', connected_inputs @ [target_socket])
                     else (g, connected_inputs)))))"

definition reconnect_inputs ::
  "env \<Rightarrow> node \<Rightarrow> graph \<Rightarrow> (string \<times> in_conn list) list \<Rightarrow> graph \<times> nat list" where
  "reconnect_inputs h new_shader g input_links =
     foldl (reconnect_input h new_shader) (g, []) (dict_pairs input_links)"

text \<open>
  One round of the output loop: the state is the graph, \<open>connected_outputs\<close> and the flag
  \<open>output_connected_to_material\<close>. A captured link into a material output node is served,
  while the flag is unset, by the shader output of the new node and the surface input of
  that node; the round ends there whether the link was made or not. Every other case
  (and this one when the new node has no output or the target no input) takes the
  standard path.
\<close>

definition reconnect_output ::
  "env \<Rightarrow> node \<Rightarrow> graph \<times> nat list \<times> bool \<Rightarrow> string \<times> out_conn \<Rightarrow> graph \<times> nat list \<times> bool" where
  "reconnect_output h new_shader st sc =
     (let (g, connected_outputs, output_connected_to_material) = st;
          (socket_name, conn) = sc
      in case nodes_get g (oc_to_node conn) of
           None \<Rightarrow> (g, connected_outputs, output_connected_to_material)
         | Some target_node \<Rightarrow>
           (let special =
                  (if node_type target_node = ''OUTPUT_MATERIAL'' \<and> \<not> output_connected_to_material
                   then (case find_shader_output (outputs new_shader) of
                           None \<Rightarrow> None
                         | Some source_socket \<Rightarrow>
                           (case surface_input_of (inputs target_node) of
                              None \<Rightarrow> None
                            | Some surface_input \<Rightarrow> Some (source_socket, surface_input)))
                   else None)
            in case special of
                 Some (source_socket, surface_input) \<Rightarrow>
                   (let (ok, g') = safe_link h g
                          (mk_link (node_name new_shader) source_socket
                                   (node_name target_node) surface_input)
                    in if ok then (g', connected_outputs @ [source_socket], True)
                       else (g, connected_outputs, output_connected_to_material))
               | None \<Rightarrow>
                 (case resolve_socket (inputs target_node) (oc_to_socket_index conn)
                         (oc_to_socket conn) of
                    None \<Rightarrow> (g, connected_outputs, output_connected_to_material)
                  | Some target_socket \<Rightarrow>
                    (case find_best_output_socket h (outputs new_shader) socket_name
                            (oc_from_socket_type conn) of
                       None \<Rightarrow> (g, connected_outputs, output_connected_to_material)
                     | Some source_socket \<Rightarrow>
                       (let (ok, g') = safe_link h g
                              (mk_link (node_name new_shader) source_socket
                                       (node_name target_node) target_socket)
                        in if ok
                           then (g', connected_outputs @ [source_socket],
                                 output_connected_to_material)
                           else (g, connected_outputs, output_connected_to_material))))))"

definition reconnect_outputs ::
  "env \<Rightarrow> node \<Rightarrow> graph \<Rightarrow> (string \<times> out_conn list) list \<Rightarrow> graph \<times> nat list \<times> bool" where
  "reconnect_outputs h new_shader g output_links =
     foldl (reconnect_output h new_shader) (g, [], False) (dict_pairs output_links)"

text \<open>
  The fallback after the output loop: when the flag is still unset, the first material
  output node of the graph is looked up and the shader output of the new node is linked
  to its surface input.
\<close>

definition connect_to_material_output :: "env \<Rightarrow> node \<Rightarrow> graph \<times> bool \<Rightarrow> graph \<times> bool" where
  "connect_to_material_output h new_shader st =
     (let (g, output_connected_to_material) = st
      in if \<not> output_connected_to_material then
           (case find (\<lambda>n. node_type n = ''OUTPUT_MATERIAL'') (nodes g) of
              None \<Rightarrow> (g, output_connected_to_material)
            | Some output_node \<Rightarrow>
              (case find_shader_output (outputs new_shader) of
                 None \<Rightarrow> (g, output_connected_to_material)
               | Some source_socket \<Rightarrow>
                 (case surface_input_of (inputs output_node) of
                    None \<Rightarrow> (g, output_connected_to_material)
                  | Some surface_input \<Rightarrow>
                    (let (ok, g') = safe_link h g
                           (mk_link (node_name new_shader) source_socket
                                    (node_name output_node) surface_input)
                     in if ok then (g', True) else (g, output_connected_to_material)))))
         else (g, output_connected_to_material))"

text \<open>
  Creation of the new node: a group node bound to the shader node group of the wanted
  name when there is one (its sockets are those of the group), else a node of the class
  the table gives. \<open>None\<close> when \<open>nodes.new\<close> raises. The host appends the node to the graph
  and keeps its name unique among the other nodes.
\<close>

definition create_shader_node ::
  "env \<Rightarrow> node_group list \<Rightarrow> graph \<Rightarrow> string \<Rightarrow> rat \<times> rat \<Rightarrow> (node \<times> graph) option" where
  "create_shader_node h groups g target_shader_name old_location =
     (let made =
            (case find (\<lambda>ng. ng_type ng = ''SHADER'' \<and> ng_name ng = target_shader_name) groups of
               Some node_group \<Rightarrow>
                 (case nodes_new h ''ShaderNodeGroup'' of
                    None \<Rightarrow> None
                  | Some n \<Rightarrow> Some (n\<lparr>node_tree := Some (ng_name node_group),
                                      inputs := ng_inputs node_group,
                                      outputs := ng_outputs node_group\<rparr>))
             | None \<Rightarrow> nodes_new h (get_shader_class_name target_shader_name))
      in case made of
           None \<Rightarrow> None
         | Some n \<Rightarrow>
           (let new_shader = n\<lparr>node_name := unique_name h (map node_name (nodes g)) target_shader_name,
                                node_label := target_shader_name,
                                location := old_location\<rparr>
            in Some (new_shader, g\<lparr>nodes := nodes g @ [new_shader]\<rparr>)))"

text \<open>
  One round of the replacement loop, for the node name \<open>old_shader_name\<close>: capture, delete,
  create, reconnect. The state is the graph and \<open>replaced_count\<close>. When the node is gone,
  or its removal fails, the round changes nothing; when the creation raises, the old node
  stays deleted and the count stays.
\<close>

definition replace_shader ::
  "env \<Rightarrow> node_group list \<Rightarrow> props \<Rightarrow> string \<Rightarrow> graph \<times> nat \<Rightarrow> string \<Rightarrow> graph \<times> nat" where
  "replace_shader h groups p target_shader_name st old_shader_name =
     (let (g, replaced_count) = st
      in case nodes_get g old_shader_name of
           None \<Rightarrow> (g, replaced_count)
         | Some old_shader \<Rightarrow>
           (let old_location = location old_shader;
                input_links = foldl (capture_input_link g old_shader) [] (links g);
                output_links = foldl (capture_output_link g old_shader) [] (links g);
                (removed, g1) = safe_remove_node h g old_shader_name
            in if \<not> removed then (g, replaced_count)
               else (case create_shader_node h groups g1 target_shader_name old_location of
                       None \<Rightarrow> (g1, replaced_count)
                     | Some (new_shader, g2) \<Rightarrow>
                       (let g3 = (if auto_connect p
                                  then fst (reconnect_inputs h new_shader g2 input_links)
                                  else g2);
                            g4 = (if auto_connect p
                                  then (let (g', connected_outputs, flag) =
                                              reconnect_outputs h new_shader g3 output_links
                                        in fst (connect_to_material_output h new_shader (g', flag)))
                                  else g3)
                        in (g4, replaced_count + 1)))))"

text \<open>The names of the nodes that feed a material output node.\<close>

definition nodes_connected_to_output :: "graph \<Rightarrow> string list" where
  "nodes_connected_to_output g =
     map from_node
       (filter (\<lambda>l. case nodes_get g (to_node l) of
                       Some tn \<Rightarrow> node_type tn = ''OUTPUT_MATERIAL''
                     | None \<Rightarrow> False)
          (links g))"

text \<open>Whether the loop of the modes ALL and MATERIAL appends the node's name.\<close>

definition selected_in_all_mode :: "env \<Rightarrow> graph \<Rightarrow> string \<Rightarrow> node \<Rightarrow> bool" where
  "selected_in_all_mode h g target_shader_name n =
     (if node_type n \<in> set SHADER_NODE_TYPES then True
      else (case node_tree n of
              Some tree_name \<Rightarrow>
                if node_type n = ''GROUP'' then
                  (let should_replace =
                         (has_shader_output (outputs n)
                          \<or> node_name n \<in> set (nodes_connected_to_output g)
                          \<or> any_kw_in SHADER_KEYWORDS (str_lower h tree_name))
                   in should_replace \<and> tree_name \<noteq> target_shader_name)
                else False
            | None \<Rightarrow> False))"

text \<open>Whether the loop of the modes SPECIFIC and MATERIAL\_SPECIFIC appends the node's name.\<close>

definition selected_in_specific_mode :: "string \<Rightarrow> node \<Rightarrow> bool" where
  "selected_in_specific_mode specific_shader_name n =
     (case (if node_type n = ''GROUP'' then node_tree n else None) of
        Some tree_name \<Rightarrow> tree_name = specific_shader_name
      | None \<Rightarrow> node_type n = specific_shader_name)"

definition shaders_to_replace :: "env \<Rightarrow> props \<Rightarrow> graph \<Rightarrow> string \<Rightarrow> string \<Rightarrow> string list" where
  "shaders_to_replace h p g target_shader_name specific_shader_name =
     (if replace_mode p = MODE_ALL \<or> replace_mode p = MODE_MATERIAL
      then map node_name (filter (selected_in_all_mode h g target_shader_name) (nodes g))
      else map node_name (filter (selected_in_specific_mode specific_shader_name) (nodes g)))"

definition replace_material_shaders ::
  "env \<Rightarrow> node_group list \<Rightarrow> props \<Rightarrow> string \<Rightarrow> string \<Rightarrow> graph \<Rightarrow> graph \<times> nat" where
  "replace_material_shaders h groups p target_shader_name specific_shader_name g =
     (let to_replace = shaders_to_replace h p g target_shader_name specific_shader_name
      in if to_replace = [] then (g, 0)
         else foldl (replace_shader h groups p target_shader_name) (g, 0) to_replace)"

subsection \<open>The operator's \<open>execute\<close>\<close>

datatype status = FINISHED | CANCELLED

datatype level = INFO | WARNING | ERROR

text \<open>The texts \<open>self.report\<close> is called with, by the place of the call and its values.\<close>

datatype message =
    Select_target_shader
  | Shader_not_found string
  | Select_specific_shader
  | Select_target_material
  | Nodes_not_enabled string
  | Replaced_in_material string nat
  | Nothing_in_material string
  | Replaced_specific_in_material string nat string
  | Nothing_specific_in_material string string
  | No_target_objects
  | Processed_nothing nat
  | Replaced_total nat nat nat
  | No_selected_objects
  | Disconnected replace_mode nat
  | Reconnected bool bool nat nat nat
  | Snapshot_cleared

definition get_target_objects :: "bl_context \<Rightarrow> string \<Rightarrow> object list" where
  "get_target_objects ctx tt =
     (if tt = ''OBJECTS'' then selected_objects ctx
      else if tt = ''COLLECTION'' then (case collection ctx of Some objs \<Rightarrow> objs | None \<Rightarrow> [])
      else [])"

text \<open>
  The material slots the loops over objects and slots visit, in order: those of the mesh
  objects.
\<close>

definition mesh_slots :: "object list \<Rightarrow> string option list" where
  "mesh_slots objs = concat (map material_slots (filter (\<lambda>obj. obj_type obj = ''MESH'') objs))"

text \<open>
  One round of the loop of the modes ALL and SPECIFIC, for one slot: the state is the
  world and the three counters.
\<close>

definition replace_in_slot ::
  "env \<Rightarrow> string \<Rightarrow> string \<Rightarrow> world \<times> nat \<times> nat \<times> nat \<Rightarrow> string option
     \<Rightarrow> world \<times> nat \<times> nat \<times> nat" where
  "replace_in_slot h target_shader_name specific_shader_name st slot =
     (let (w, total_materials, replaced_materials, replaced_shaders) = st
      in case slot_material w slot of
           None \<Rightarrow> st
         | Some mat \<Rightarrow>
           if \<not> use_nodes mat then st
           else
             (let (result, w') =
                    (if is_processed w mat then (get_result w mat, w)
                     else (let (g', r) = replace_material_shaders h (node_groups w) (scene_props w)
                                           target_shader_name specific_shader_name
                                           (mat_node_tree mat)
                           in (r, mark_processed (set_node_tree w mat g') mat r)))
              in if result > 0
                 then (w', total_materials + 1, replaced_materials + 1, replaced_shaders + result)
                 else (w', total_materials + 1, replaced_materials, replaced_shaders)))"

definition batch_replace_execute ::
  "env \<Rightarrow> bl_context \<Rightarrow> world \<Rightarrow> (status \<times> level \<times> message) \<times> world" where
  "batch_replace_execute h ctx w =
     (let p = scene_props w;
          target_shader_name =
            (if builtin_shader p \<noteq> [] \<and> builtin_shader p \<noteq> ''NONE'' then builtin_shader p
             else (case shader_nodegroup p of Some nm \<Rightarrow> nm | None \<Rightarrow> []))
      in if target_shader_name = [] then ((CANCELLED, ERROR, Select_target_shader), w)
         else
           (let node_group_exists =
                  (find (\<lambda>ng. ng_type ng = ''SHADER'' \<and> ng_name ng = target_shader_name)
                     (node_groups w) \<noteq> None)
            in if \<not> node_group_exists \<and> \<not> is_valid_builtin_shader target_shader_name
               then ((CANCELLED, ERROR, Shader_not_found target_shader_name), w)
               else
                 (let specific_shader_name =
                        (if replace_mode p = MODE_SPECIFIC then
                           (if specific_builtin_shader p \<noteq> []
                               \<and> specific_builtin_shader p \<noteq> ''NONE''
                            then specific_builtin_shader p
                            else (case specific_nodegroup p of Some nm \<Rightarrow> nm | None \<Rightarrow> []))
                         else [])
                  in if replace_mode p = MODE_SPECIFIC \<and> specific_shader_name = []
                     then ((CANCELLED, ERROR, Select_specific_shader), w)
                     else if replace_mode p = MODE_MATERIAL then
                       (case slot_material w (target_material p) of
                          None \<Rightarrow> ((CANCELLED, ERROR, Select_target_material), w)
                        | Some mat \<Rightarrow>
                          if \<not> use_nodes mat
                          then ((CANCELLED, WARNING, Nodes_not_enabled (mat_name mat)), w)
                          else
                            (let w1 = MaterialCache_clear w;
                                 (g', result) = replace_material_shaders h (node_groups w1) p
                                                  target_shader_name [] (mat_node_tree mat);
                                 w2 = set_node_tree w1 mat g'
                             in if result > 0
                                then ((FINISHED, INFO, Replaced_in_material (mat_name mat) result), w2)
                                else ((FINISHED, WARNING, Nothing_in_material (mat_name mat)), w2)))
                     else if replace_mode p = MODE_MATERIAL_SPECIFIC then
                       (case slot_material w (target_material p) of
                          None \<Rightarrow> ((CANCELLED, ERROR, Select_target_material), w)
                        | Some mat \<Rightarrow>
                          if \<not> use_nodes mat
                          then ((CANCELLED, WARNING, Nodes_not_enabled (mat_name mat)), w)
                          else
                            (let material_specific_shader_name =
                                   (if material_specific_builtin_shader p \<noteq> []
                                       \<and> material_specific_builtin_shader p \<noteq> ''NONE''
                                    then material_specific_builtin_shader p
                                    else (case material_specific_nodegroup p of
                                            Some nm \<Rightarrow> nm | None \<Rightarrow> []));
                                 w1 = MaterialCache_clear w;
                                 (g', result) = replace_material_shaders h (node_groups w1) p
                                                  target_shader_name material_specific_shader_name
                                                  (mat_node_tree mat);
                                 w2 = set_node_tree w1 mat g'
                             in if result > 0 then
                                  (if material_specific_shader_name \<noteq> []
                                   then ((FINISHED, INFO,
                                          Replaced_specific_in_material (mat_name mat) result
                                            material_specific_shader_name), w2)
                                   else ((FINISHED, INFO,
                                          Replaced_in_material (mat_name mat) result), w2))
                                else
                                  (if material_specific_shader_name \<noteq> []
                                   then ((FINISHED, WARNING,
                                          Nothing_specific_in_material (mat_name mat)
                                            material_specific_shader_name), w2)
                                   else ((FINISHED, WARNING,
                                          Nothing_in_material (mat_name mat)), w2))))
                     else
                       (let target_objects = get_target_objects ctx (target_type p)
                        in if target_objects = []
                           then ((CANCELLED, WARNING, No_target_objects), w)
                           else
                             (let w1 = MaterialCache_clear w;
                                  (w2, total_materials, replaced_materials, replaced_shaders) =
                                    foldl (replace_in_slot h target_shader_name specific_shader_name)
                                      (w1, 0, 0, 0) (mesh_slots target_objects)
                              in if replaced_shaders = 0
                                 then ((FINISHED, WARNING, Processed_nothing total_materials), w2)
                                 else ((FINISHED, INFO,
                                        Replaced_total replaced_materials total_materials
                                          replaced_shaders), w2))))))"

section \<open>The auto-connection engine (node\_config.py, AutoConnectionRules)\<close>

text \<open>
  The state of \<open>apply_auto_connections\<close>: the graph, \<open>connect_count\<close>, and a record of the
  calls of \<open>links.new\<close> the engine has made, each with whether it returned (\<open>True\<close>) or
  raised. The record is not a variable of the source; it is kept so that statements about
  what the engine attempts can be made.
\<close>

record conn_state =
  cs_graph :: graph
  connect_count :: nat
  calls :: "(link \<times> bool) list"

text \<open>\<open>try: links.new(a, b); ...; connect_count += 1 except: pass\<close>\<close>

definition try_link :: "env \<Rightarrow> conn_state \<Rightarrow> link \<Rightarrow> bool \<times> conn_state" where
  "try_link h s l =
     (case links_new h (cs_graph s) l of
        Some g' \<Rightarrow> (True, s\<lparr>cs_graph := g', connect_count := connect_count s + 1,
                           calls := calls s @ [(l, True)]\<rparr>)
      | None \<Rightarrow> (False, s\<lparr>calls := calls s @ [(l, False)]\<rparr>))"

definition surface_names :: "string list" where
  "surface_names = [''Surface'', ''surface'',
     [CHR 0xE8, CHR 0xA1, CHR 0xA8, CHR 0xE9, CHR 0x9D, CHR 0xA2],
     [CHR 0xE6, CHR 0x9B, CHR 0xB2, CHR 0xE9, CHR 0x9D, CHR 0xA2],
     [CHR 0xE8, CHR 0xA1, CHR 0xA8, CHR 0xEF, CHR 0xBC, CHR 0x88, CHR 0xE6, CHR 0x9B, CHR 0xB2,
      CHR 0xEF, CHR 0xBC, CHR 0x89, CHR 0xE9, CHR 0x9D, CHR 0xA2]]"

text \<open>\<open>for name in names: if name in sockets: found = sockets[name]; break\<close>\<close>

fun first_named :: "string list \<Rightarrow> socket list \<Rightarrow> nat option" where
  "first_named [] sockets = None"
| "first_named (nm # nms) sockets =
     (case first_index (\<lambda>s. sock_name s = nm) sockets of
        Some i \<Rightarrow> Some i
      | None \<Rightarrow> first_named nms sockets)"

definition surface_input_auto :: "socket list \<Rightarrow> nat option" where
  "surface_input_auto ins =
     (case first_named surface_names ins of
        Some i \<Rightarrow> Some i
      | None \<Rightarrow> if length ins > 0 then Some 0 else None)"

text \<open>
  The loop of the first pass over the shader nodes. The \<open>break\<close> stands at the end of the
  branch \<open>if shader_output:\<close>, after the attempt: the loop ends at the first shader node
  that has an output.
\<close>

fun shader_to_output :: "env \<Rightarrow> node \<Rightarrow> node list \<Rightarrow> conn_state \<Rightarrow> conn_state" where
  "shader_to_output h output_node [] s = s"
| "shader_to_output h output_node (shader_node # rest) s =
     (case find_shader_output (outputs shader_node) of
        None \<Rightarrow> shader_to_output h output_node rest s
      | Some shader_output \<Rightarrow>
        (case surface_input_auto (inputs output_node) of
           None \<Rightarrow> s
         | Some surface_input \<Rightarrow>
             snd (try_link h s (mk_link (node_name shader_node) shader_output
                                        (node_name output_node) surface_input))))"

text \<open>\<open>any(get_socket_semantic(inp.name) == 'ALPHA' for inp in shader_node.inputs)\<close>\<close>

fun has_alpha_input :: "env \<Rightarrow> socket list \<Rightarrow> bool" where
  "has_alpha_input h [] = False"
| "has_alpha_input h (inp # rest) =
     (if get_socket_semantic h (sock_name inp) = ALPHA then True else has_alpha_input h rest)"

definition color_keywords :: "string list" where
  "color_keywords = [''base color'', ''basecolor'', ''color'',
     [CHR 0xE9, CHR 0xA2, CHR 0x9C, CHR 0xE8, CHR 0x89, CHR 0xB2],
     ''diffuse'',
     [CHR 0xE6, CHR 0xBC, CHR 0xAB, CHR 0xE5, CHR 0x8F, CHR 0x8D, CHR 0xE5, CHR 0xB0, CHR 0x84],
     ''albedo'',
     [CHR 0xE5, CHR 0x8F, CHR 0x8D, CHR 0xE7, CHR 0x85, CHR 0xA7, CHR 0xE7, CHR 0x8E, CHR 0x87],
     [CHR 0xE5, CHR 0x9F, CHR 0xBA, CHR 0xE7, CHR 0xA1, CHR 0x80, CHR 0xE8, CHR 0x89, CHR 0xB2]]"

definition alpha_keywords :: "string list" where
  "alpha_keywords = [''alpha'', ''opacity'', ''transparency'',
     [CHR 0xE9, CHR 0x80, CHR 0x8F, CHR 0xE6, CHR 0x98, CHR 0x8E]]"

text \<open>
  \<open>matching_inputs\<close>: the unconnected inputs that satisfy \<open>P\<close>, each with its position;
  sorted by position, the head is taken.
\<close>

definition matching_inputs :: "(socket \<Rightarrow> bool) \<Rightarrow> nat list \<Rightarrow> socket list \<Rightarrow> (nat \<times> socket) list" where
  "matching_inputs P connected_inputs ins =
     filter (\<lambda>(idx, inp). idx \<notin> set connected_inputs \<and> P inp) (enumerate 0 ins)"

definition lowest_match :: "(nat \<times> socket) list \<Rightarrow> nat option" where
  "lowest_match ms = (case sort_key fst ms of [] \<Rightarrow> None | (idx, inp) # _ \<Rightarrow> Some idx)"

fun color_target_input :: "env \<Rightarrow> string list \<Rightarrow> nat list \<Rightarrow> socket list \<Rightarrow> nat option" where
  "color_target_input h [] connected_inputs ins = None"
| "color_target_input h (keyword # kws) connected_inputs ins =
     (case lowest_match (matching_inputs (\<lambda>inp. str_in keyword (str_lower h (sock_name inp)))
                           connected_inputs ins) of
        Some idx \<Rightarrow> Some idx
      | None \<Rightarrow> color_target_input h kws connected_inputs ins)"

text \<open>
  The best-score search of the second and third pass: the first unconnected input whose
  compatibility with \<open>sem\<close> is strictly above every earlier one's, and that score.
\<close>

definition better_input ::
  "env \<Rightarrow> semantic \<Rightarrow> nat list \<Rightarrow> nat option \<times> nat \<Rightarrow> nat \<times> socket \<Rightarrow> nat option \<times> nat" where
  "better_input h sem connected_inputs best ii =
     (let (best_input, best_score) = best; (idx, inp) = ii
      in if idx \<in> set connected_inputs then best
         else (let input_semantic = get_socket_semantic h (sock_name inp);
                   score = are_semantically_compatible sem input_semantic
               in if score > best_score then (Some idx, score) else best))"

definition best_semantic_input ::
  "env \<Rightarrow> semantic \<Rightarrow> nat list \<Rightarrow> socket list \<Rightarrow> nat option \<times> nat" where
  "best_semantic_input h sem connected_inputs ins =
     foldl (better_input h sem connected_inputs) (None, 0) (enumerate 0 ins)"

text \<open>The semantic the second pass reads from the name of a texture node that is no image.\<close>

definition texture_semantic :: "string \<Rightarrow> semantic" where
  "texture_semantic tex_name =
     (if any_kw_in [''normal'', ''norm'',
           [CHR 0xE6, CHR 0xB3, CHR 0x95, CHR 0xE7, CHR 0xBA, CHR 0xBF]] tex_name then NORMAL
      else if any_kw_in [''rough'', ''gloss'',
           [CHR 0xE7, CHR 0xB2, CHR 0x97, CHR 0xE7, CHR 0xB3, CHR 0x99],
           [CHR 0xE5, CHR 0x85, CHR 0x89, CHR 0xE6, CHR 0xB3, CHR 0xBD]] tex_name then ROUGHNESS
      else if any_kw_in [''metal'',
           [CHR 0xE9, CHR 0x87, CHR 0x91, CHR 0xE5, CHR 0xB1, CHR 0x9E]] tex_name then METALLIC
      else if any_kw_in [''ao'', ''ambient'',
           [CHR 0xE9, CHR 0x81, CHR 0xAE, CHR 0xE8, CHR 0x94, CHR 0xBD]] tex_name then AO
      else if any_kw_in [''emit'', ''glow'',
           [CHR 0xE5, CHR 0x8F, CHR 0x91, CHR 0xE5, CHR 0x85, CHR 0x89]] tex_name then EMISSION
      else if any_kw_in [''alpha'', ''opacity'',
           [CHR 0xE9, CHR 0x80, CHR 0x8F, CHR 0xE6, CHR 0x98, CHR 0x8E]] tex_name then ALPHA
      else COLOR)"

definition texture_color_output :: "env \<Rightarrow> socket list \<Rightarrow> nat option" where
  "texture_color_output h outs =
     (case first_index (\<lambda>out. sock_type out \<in> set [''RGBA'', ''VECTOR'']
                              \<and> str_in ''color'' (str_lower h (sock_name out))) outs of
        Some i \<Rightarrow> Some i
      | None \<Rightarrow> first_index (\<lambda>out. sock_type out \<in> set [''RGBA'', ''VECTOR'']) outs)"

text \<open>
  One round of the inner loop of the second pass, for the shader node \<open>shader_node\<close> and
  the texture node \<open>tex_node\<close>; the state is the engine's state and \<open>connected_inputs\<close>.
\<close>

definition connect_texture ::
  "env \<Rightarrow> node \<Rightarrow> bool \<Rightarrow> conn_state \<times> nat list \<Rightarrow> node \<Rightarrow> conn_state \<times> nat list" where
  "connect_texture h shader_node alpha_input_present st tex_node =
     (let (s, connected_inputs) = st
      in if outputs tex_node = [] then st
         else if node_type tex_node = ''TEX_IMAGE'' then
           (let (s1, connected1) =
                  (case color_target_input h color_keywords connected_inputs (inputs shader_node) of
                     None \<Rightarrow> (s, connected_inputs)
                   | Some target_input \<Rightarrow>
                     (let (ok, s') = try_link h s
                            (mk_link (node_name tex_node) 0 (node_name shader_node) target_input)
                      in if ok then (s', connected_inputs @ [target_input])
                         else (s', connected_inputs)))
            in if alpha_input_present \<and> length (outputs tex_node) > 1 then
                 (case lowest_match
                         (matching_inputs
                            (\<lambda>inp. any_kw_in alpha_keywords (str_lower h (sock_name inp)))
                            connected1 (inputs shader_node)) of
                    None \<Rightarrow> (s1, connected1)
                  | Some alpha_input \<Rightarrow>
                    (let (ok, s') = try_link h s1
                           (mk_link (node_name tex_node) 1 (node_name shader_node) alpha_input)
                     in if ok then (s', connected1 @ [alpha_input]) else (s', connected1)))
               else (s1, connected1))
         else
           (let tex_name = str_lower h (if node_label tex_node \<noteq> [] then node_label tex_node
                                        else node_name tex_node);
                tex_semantic = texture_semantic tex_name
            in case texture_color_output h (outputs tex_node) of
                 None \<Rightarrow> st
               | Some color_output \<Rightarrow>
                 (let (best_input, best_score) =
                        best_semantic_input h tex_semantic connected_inputs (inputs shader_node)
                  in case best_input of
                       None \<Rightarrow> st
                     | Some bi \<Rightarrow>
                       if best_score \<ge> 50 then
                         (let (ok, s') = try_link h s
                                (mk_link (node_name tex_node) color_output
                                         (node_name shader_node) bi)
                          in if ok then (s', connected_inputs @ [bi]) else (s', connected_inputs))
                       else st)))"

text \<open>One round of the outer loop of the second pass: one shader node, all texture nodes.\<close>

definition textures_to_shader :: "env \<Rightarrow> node list \<Rightarrow> conn_state \<Rightarrow> node \<Rightarrow> conn_state" where
  "textures_to_shader h texture_nodes s shader_node =
     fst (foldl (connect_texture h shader_node (has_alpha_input h (inputs shader_node)))
            (s, []) texture_nodes)"

text \<open>
  The semantic the third pass gives an output of another node: that of the output's
  name, and when that is unknown the one read from the node's name.
\<close>

definition other_output_semantic :: "env \<Rightarrow> string \<Rightarrow> socket \<Rightarrow> semantic" where
  "other_output_semantic h node_name_lower out =
     (let output_semantic = get_socket_semantic h (sock_name out)
      in if output_semantic = UNKNOWN then
           (if any_kw_in [''normal'', ''norm'',
                 [CHR 0xE6, CHR 0xB3, CHR 0x95, CHR 0xE7, CHR 0xBA, CHR 0xBF]] node_name_lower
            then NORMAL
            else if any_kw_in [''rough'',
                 [CHR 0xE7, CHR 0xB2, CHR 0x97, CHR 0xE7, CHR 0xB3, CHR 0x99]] node_name_lower
            then ROUGHNESS
            else if any_kw_in [''metal'',
                 [CHR 0xE9, CHR 0x87, CHR 0x91, CHR 0xE5, CHR 0xB1, CHR 0x9E]] node_name_lower
            then METALLIC
            else if any_kw_in [''ao'',
                 [CHR 0xE9, CHR 0x81, CHR 0xAE, CHR 0xE8, CHR 0x94, CHR 0xBD]] node_name_lower
            then AO
            else if any_kw_in [''bump'',
                 [CHR 0xE5, CHR 0x87, CHR 0xB9, CHR 0xE5, CHR 0x87, CHR 0xB8]] node_name_lower
            then NORMAL
            else if any_kw_in [''alpha'',
                 [CHR 0xE9, CHR 0x80, CHR 0x8F, CHR 0xE6, CHR 0x98, CHR 0x8E]] node_name_lower
            then ALPHA
            else COLOR)
         else output_semantic)"

text \<open>
  The loop of the third pass over the outputs of one other node: it ends at the first
  output whose link is made.
\<close>

fun connect_other_outputs ::
  "env \<Rightarrow> node \<Rightarrow> node \<Rightarrow> string \<Rightarrow> (nat \<times> socket) list \<Rightarrow> conn_state \<times> nat list
     \<Rightarrow> conn_state \<times> nat list" where
  "connect_other_outputs h shader_node other_node node_name_lower [] st = st"
| "connect_other_outputs h shader_node other_node node_name_lower ((oi, out) # rest) st =
     (let (s, connected_inputs) = st
      in if sock_type out \<notin> set [''RGBA'', ''VECTOR'', ''VALUE'']
         then connect_other_outputs h shader_node other_node node_name_lower rest st
         else
           (let output_semantic = other_output_semantic h node_name_lower out;
                (best_input, best_score) =
                  best_semantic_input h output_semantic connected_inputs (inputs shader_node)
            in case best_input of
                 None \<Rightarrow> connect_other_outputs h shader_node other_node node_name_lower rest st
               | Some bi \<Rightarrow>
                 if best_score \<ge> 40 then
                   (let (ok, s') = try_link h s
                          (mk_link (node_name other_node) oi (node_name shader_node) bi)
                    in if ok then (s', connected_inputs @ [bi])
                       else connect_other_outputs h shader_node other_node node_name_lower rest
                              (s', connected_inputs))
                 else connect_other_outputs h shader_node other_node node_name_lower rest st))"

definition connect_other :: "env \<Rightarrow> node \<Rightarrow> conn_state \<times> nat list \<Rightarrow> node \<Rightarrow> conn_state \<times> nat list" where
  "connect_other h shader_node st other_node =
     (if outputs other_node = [] then st
      else connect_other_outputs h shader_node other_node
             (str_lower h (if node_label other_node \<noteq> [] then node_label other_node
                           else node_name other_node))
             (enumerate 0 (outputs other_node)) st)"

definition others_to_shader :: "env \<Rightarrow> node list \<Rightarrow> conn_state \<Rightarrow> node \<Rightarrow> conn_state" where
  "others_to_shader h other_nodes s shader_node =
     fst (foldl (connect_other h shader_node) (s, []) other_nodes)"

text \<open>The three node lists the engine collects.\<close>

definition auto_shader_nodes :: "env \<Rightarrow> graph \<Rightarrow> node list" where
  "auto_shader_nodes h g =
     filter (\<lambda>n. if node_type n \<in> set SHADER_NODE_TYPES then True
                 else if node_type n = ''GROUP'' \<and> node_tree n \<noteq> None then is_shader_node h n
                 else False) (nodes g)"

definition auto_texture_nodes :: "graph \<Rightarrow> node list" where
  "auto_texture_nodes g = filter is_texture_node (nodes g)"

definition auto_other_nodes :: "graph \<Rightarrow> node list" where
  "auto_other_nodes g =
     filter (\<lambda>n. node_type n \<notin> set TEXTURE_NODE_TYPES
                 \<and> node_type n \<notin> set SHADER_NODE_TYPES
                 \<and> node_type n \<noteq> ''OUTPUT_MATERIAL''
                 \<and> node_type n \<noteq> ''GROUP'') (nodes g)"

text \<open>The three passes.\<close>

definition shader_output_pass :: "env \<Rightarrow> graph \<Rightarrow> conn_state \<Rightarrow> conn_state" where
  "shader_output_pass h g s =
     (case find (\<lambda>n. node_type n = ''OUTPUT_MATERIAL'') (nodes g) of
        None \<Rightarrow> s
      | Some output_node \<Rightarrow>
          if auto_shader_nodes h g \<noteq> [] then shader_to_output h output_node (auto_shader_nodes h g) s
          else s)"

definition texture_pass :: "env \<Rightarrow> graph \<Rightarrow> conn_state \<Rightarrow> conn_state" where
  "texture_pass h g s =
     (if auto_shader_nodes h g \<noteq> [] \<and> auto_texture_nodes g \<noteq> []
      then foldl (textures_to_shader h (auto_texture_nodes g)) s (auto_shader_nodes h g)
      else s)"

definition other_pass :: "env \<Rightarrow> graph \<Rightarrow> conn_state \<Rightarrow> conn_state" where
  "other_pass h g s =
     (if auto_shader_nodes h g \<noteq> [] \<and> auto_other_nodes g \<noteq> []
      then foldl (others_to_shader h (auto_other_nodes g)) s (auto_shader_nodes h g)
      else s)"

definition apply_auto_connections :: "env \<Rightarrow> props \<Rightarrow> graph \<Rightarrow> conn_state" where
  "apply_auto_connections h p g =
     (let s0 = \<lparr>cs_graph = g, connect_count = 0, calls = []\<rparr>
      in if \<not> auto_connect p then s0
         else other_pass h g (texture_pass h g (shader_output_pass h g s0)))"

section \<open>Rule matching (node\_config.py)\<close>

text \<open>The display names of the node types, in the order the dictionary is written.\<close>

definition NODE_TYPE_NAMES :: "(string \<times> string) list" where
  "NODE_TYPE_NAMES =
     [(''BSDF_PRINCIPLED'',
       [CHR 0xE5, CHR 0x8E, CHR 0x9F, CHR 0xE7, CHR 0x90, CHR 0x86, CHR 0xE5, CHR 0x8C, CHR 0x96,
        CHR 0x42, CHR 0x53, CHR 0x44, CHR 0x46]),
      (''BSDF_DIFFUSE'',
       [CHR 0xE6, CHR 0xBC, CHR 0xAB, CHR 0xE5, CHR 0xB0, CHR 0x84, CHR 0x42, CHR 0x53, CHR 0x44,
        CHR 0x46]),
      (''BSDF_GLOSSY'',
       [CHR 0xE5, CHR 0x85, CHR 0x89, CHR 0xE6, CHR 0xB3, CHR 0xBD, CHR 0x42, CHR 0x53, CHR 0x44,
        CHR 0x46]),
      (''BSDF_TRANSPARENT'',
       [CHR 0xE9, CHR 0x80, CHR 0x8F, CHR 0xE6, CHR 0x98, CHR 0x8E, CHR 0x42, CHR 0x53, CHR 0x44,
        CHR 0x46]),
      (''BSDF_GLASS'',
       [CHR 0xE7, CHR 0x8E, CHR 0xBB, CHR 0xE7, CHR 0x92, CHR 0x83, CHR 0x42, CHR 0x53, CHR 0x44,
        CHR 0x46]),
      (''BSDF_TRANSLUCENT'',
       [CHR 0xE5, CHR 0x8D, CHR 0x8A, CHR 0xE9, CHR 0x80, CHR 0x8F, CHR 0xE6, CHR 0x98, CHR 0x8E,
        CHR 0x42, CHR 0x53, CHR 0x44, CHR 0x46]),
      (''BSDF_ANISOTROPIC'',
       [CHR 0xE5, CHR 0x90, CHR 0x84, CHR 0xE5, CHR 0x90, CHR 0x91, CHR 0xE5, CHR 0xBC, CHR 0x82,
        CHR 0xE6, CHR 0x80, CHR 0xA7, CHR 0x42, CHR 0x53, CHR 0x44, CHR 0x46]),
      (''BSDF_VELVET'',
       [CHR 0xE5, CHR 0xA4, CHR 0xA9, CHR 0xE9, CHR 0xB9, CHR 0x85, CHR 0xE7, CHR 0xBB, CHR 0x92,
        CHR 0x42, CHR 0x53, CHR 0x44, CHR 0x46]),
      (''BSDF_REFRACTION'',
       [CHR 0xE6, CHR 0x8A, CHR 0x98, CHR 0xE5, CHR 0xB0, CHR 0x84, CHR 0x42, CHR 0x53, CHR 0x44,
        CHR 0x46]),
      (''BSDF_TOON'',
       [CHR 0xE5, CHR 0x8D, CHR 0xA1, CHR 0xE9, CHR 0x80, CHR 0x9A, CHR 0x42, CHR 0x53, CHR 0x44,
        CHR 0x46]),
      (''BSDF_SHEEN'',
       [CHR 0xE5, CHR 0x85, CHR 0x89, CHR 0xE6, CHR 0xB3, CHR 0xBD, CHR 0x42, CHR 0x53, CHR 0x44,
        CHR 0x46]),
      (''BSDF_HAIR'',
       [CHR 0xE6, CHR 0xAF, CHR 0x9B, CHR 0xE5, CHR 0x8F, CHR 0x91, CHR 0x42, CHR 0x53, CHR 0x44,
        CHR 0x46]),
      (''BSDF_HAIR_PRINCIPLED'',
       [CHR 0xE5, CHR 0x8E, CHR 0x9F, CHR 0xE7, CHR 0x90, CHR 0x86, CHR 0xE5, CHR 0x8C, CHR 0x96,
        CHR 0xE6, CHR 0xAF, CHR 0x9B, CHR 0xE5, CHR 0x8F, CHR 0x91, CHR 0x42, CHR 0x53, CHR 0x44,
        CHR 0x46]),
      (''SUBSURFACE_SCATTERING'',
       [CHR 0xE6, CHR 0xAC, CHR 0xA1, CHR 0xE8, CHR 0xA1, CHR 0xA8, CHR 0xE9, CHR 0x9D, CHR 0xA2,
        CHR 0xE6, CHR 0x95, CHR 0xA3, CHR 0xE5, CHR 0xB0, CHR 0x84]),
      (''EMISSION'',
       [CHR 0xE8, CHR 0x87, CHR 0xAA, CHR 0xE5, CHR 0x8F, CHR 0x91, CHR 0xE5, CHR 0x85, CHR 0x89]),
      (''VOLUME_ABSORPTION'',
       [CHR 0xE4, CHR 0xBD, CHR 0x93, CHR 0xE7, CHR 0xA7, CHR 0xAF, CHR 0xE5, CHR 0x90, CHR 0xB8,
        CHR 0xE6, CHR 0x94, CHR 0xB6]),
      (''VOLUME_SCATTER'',
       [CHR 0xE4, CHR 0xBD, CHR 0x93, CHR 0xE7, CHR 0xA7, CHR 0xAF, CHR 0xE6, CHR 0x95, CHR 0xA3,
        CHR 0xE5, CHR 0xB0, CHR 0x84]),
      (''VOLUME_PRINCIPLED'',
       [CHR 0xE5, CHR 0x8E, CHR 0x9F, CHR 0xE7, CHR 0x90, CHR 0x86, CHR 0xE5, CHR 0x8C, CHR 0x96,
        CHR 0xE4, CHR 0xBD, CHR 0x93, CHR 0xE7, CHR 0xA7, CHR 0xAF]),
      (''EEVEE_SPECULAR'',
       [CHR 0x45, CHR 0x65, CHR 0x76, CHR 0x65, CHR 0x65, CHR 0xE9, CHR 0xAB, CHR 0x98, CHR 0xE5,
        CHR 0x85, CHR 0x89]),
      (''ADD_SHADER'',
       [CHR 0xE6, CHR 0xB7, CHR 0xB7, CHR 0xE5, CHR 0x90, CHR 0x88, CHR 0xE7, CHR 0x9D, CHR 0x80,
        CHR 0xE8, CHR 0x89, CHR 0xB2, CHR 0xE5, CHR 0x99, CHR 0xA8, CHR 0x28, CHR 0xE7, CHR 0x9B,
        CHR 0xB8, CHR 0xE5, CHR 0x8A, CHR 0xA0, CHR 0x29]),
      (''MIX_SHADER'',
       [CHR 0xE6, CHR 0xB7, CHR 0xB7, CHR 0xE5, CHR 0x90, CHR 0x88, CHR 0xE7, CHR 0x9D, CHR 0x80,
        CHR 0xE8, CHR 0x89, CHR 0xB2, CHR 0xE5, CHR 0x99, CHR 0xA8]),
      (''HOLDOUT'',
       [CHR 0xE9, CHR 0x98, CHR 0xBB, CHR 0xE9, CHR 0x9A, CHR 0x94]),
      (''BACKGROUND'',
       [CHR 0xE8, CHR 0x83, CHR 0x8C, CHR 0xE6, CHR 0x99, CHR 0xAF]),
      (''TEX_IMAGE'',
       [CHR 0xE5, CHR 0x9B, CHR 0xBE, CHR 0xE5, CHR 0x83, CHR 0x8F, CHR 0xE7, CHR 0xBA, CHR 0xB9,
        CHR 0xE7, CHR 0x90, CHR 0x86]),
      (''TEX_ENVIRONMENT'',
       [CHR 0xE7, CHR 0x8E, CHR 0xAF, CHR 0xE5, CHR 0xA2, CHR 0x83, CHR 0xE7, CHR 0xBA, CHR 0xB9,
        CHR 0xE7, CHR 0x90, CHR 0x86]),
      (''TEX_SKY'',
       [CHR 0xE5, CHR 0xA4, CHR 0xA9, CHR 0xE7, CHR 0xA9, CHR 0xBA, CHR 0xE7, CHR 0xBA, CHR 0xB9,
        CHR 0xE7, CHR 0x90, CHR 0x86]),
      (''TEX_NOISE'',
       [CHR 0xE5, CHR 0x99, CHR 0xAA, CHR 0xE6, CHR 0xB3, CHR 0xA2, CHR 0xE7, CHR 0xBA, CHR 0xB9,
        CHR 0xE7, CHR 0x90, CHR 0x86]),
      (''TEX_VORONOI'',
       [CHR 0xE6, CHR 0xB2, CHR 0x83, CHR 0xE7, CHR 0xBD, CHR 0x97, CHR 0xE8, CHR 0xAF, CHR 0xBA,
        CHR 0xE4, CHR 0xBC, CHR 0x8A, CHR 0xE7, CHR 0xBA, CHR 0xB9, CHR 0xE7, CHR 0x90, CHR 0x86]),
      (''TEX_MUSGRAVE'',
       [CHR 0x4D, CHR 0x75, CHR 0x73, CHR 0x67, CHR 0x72, CHR 0x61, CHR 0x76, CHR 0x65, CHR 0xE7,
        CHR 0xBA, CHR 0xB9, CHR 0xE7, CHR 0x90, CHR 0x86]),
      (''TEX_WAVE'',
       [CHR 0xE6, CHR 0xB3, CHR 0xA2, CHR 0xE6, CHR 0xB5, CHR 0xAA, CHR 0xE7, CHR 0xBA, CHR 0xB9,
        CHR 0xE7, CHR 0x90, CHR 0x86]),
      (''TEX_MAGIC'',
       [CHR 0xE9, CHR 0xAD, CHR 0x94, CHR 0xE6, CHR 0xB3, CHR 0x95, CHR 0xE7, CHR 0xBA, CHR 0xB9,
        CHR 0xE7, CHR 0x90, CHR 0x86]),
      (''TEX_CHECKER'',
       [CHR 0xE6, CHR 0xA3, CHR 0x8B, CHR 0xE7, CHR 0x9B, CHR 0x98, CHR 0xE6, CHR 0xA0, CHR 0xBC,
        CHR 0xE7, CHR 0xBA, CHR 0xB9, CHR 0xE7, CHR 0x90, CHR 0x86]),
      (''TEX_BRICK'',
       [CHR 0xE7, CHR 0xA0, CHR 0x96, CHR 0xE5, CHR 0x9D, CHR 0x97, CHR 0xE7, CHR 0xBA, CHR 0xB9,
        CHR 0xE7, CHR 0x90, CHR 0x86]),
      (''TEX_GRADIENT'',
       [CHR 0xE6, CHR 0xB8, CHR 0x90, CHR 0xE5, CHR 0x8F, CHR 0x98, CHR 0xE7, CHR 0xBA, CHR 0xB9,
        CHR 0xE7, CHR 0x90, CHR 0x86]),
      (''TEX_POINTDENSITY'',
       [CHR 0xE7, CHR 0x82, CHR 0xB9, CHR 0xE5, CHR 0xAF, CHR 0x86, CHR 0xE5, CHR 0xBA, CHR 0xA6]),
      (''TEX_IES'',
       [CHR 0x49, CHR 0x45, CHR 0x53, CHR 0xE7, CHR 0xBA, CHR 0xB9, CHR 0xE7, CHR 0x90, CHR 0x86]),
      (''TEX_WHITE_NOISE'',
       [CHR 0xE7, CHR 0x99, CHR 0xBD, CHR 0xE5, CHR 0x99, CHR 0xAA, CHR 0xE6, CHR 0xB3, CHR 0xA2,
        CHR 0xE7, CHR 0xBA, CHR 0xB9, CHR 0xE7, CHR 0x90, CHR 0x86]),
      (''TEX_GABOR'',
       [CHR 0x47, CHR 0x61, CHR 0x62, CHR 0x6F, CHR 0x72, CHR 0xE7, CHR 0xBA, CHR 0xB9, CHR 0xE7,
        CHR 0x90, CHR 0x86]),
      (''MIX'',
       [CHR 0xE6, CHR 0xB7, CHR 0xB7, CHR 0xE5, CHR 0x90, CHR 0x88]),
      (''MIX_RGB'',
       [CHR 0xE6, CHR 0xB7, CHR 0xB7, CHR 0xE5, CHR 0x90, CHR 0x88, CHR 0x52, CHR 0x47, CHR 0x42]),
      (''CURVE_RGB'',
       [CHR 0x52, CHR 0x47, CHR 0x42, CHR 0xE6, CHR 0x9B, CHR 0xB2, CHR 0xE7, CHR 0xBA, CHR 0xBF]),
      (''CURVE_VEC'',
       [CHR 0xE7, CHR 0x9F, CHR 0xA2, CHR 0xE9, CHR 0x87, CHR 0x8F, CHR 0xE6, CHR 0x9B, CHR 0xB2,
        CHR 0xE7, CHR 0xBA, CHR 0xBF]),
      (''INVERT'',
       [CHR 0xE5, CHR 0x8F, CHR 0x8D, CHR 0xE8, CHR 0xBD, CHR 0xAC]),
      (''HUE_SAT'',
       [CHR 0xE8, CHR 0x89, CHR 0xB2, CHR 0xE7, CHR 0x9B, CHR 0xB8, CHR 0x2F, CHR 0xE9, CHR 0xA5,
        CHR 0xB1, CHR 0xE5, CHR 0x92, CHR 0x8C, CHR 0xE5, CHR 0xBA, CHR 0xA6]),
      (''GAMMA'',
       [CHR 0xE4, CHR 0xBC, CHR 0xBD, CHR 0xE9, CHR 0xA9, CHR 0xAC]),
      (''BRIGHTCONTRAST'',
       [CHR 0xE4, CHR 0xBA, CHR 0xAE, CHR 0xE5, CHR 0xBA, CHR 0xA6, CHR 0x2F, CHR 0xE5, CHR 0xAF,
        CHR 0xB9, CHR 0xE6, CHR 0xAF, CHR 0x94, CHR 0xE5, CHR 0xBA, CHR 0xA6]),
      (''LIGHT_FALLOFF'',
       [CHR 0xE7, CHR 0x81, CHR 0xAF, CHR 0xE5, CHR 0x85, CHR 0x89, CHR 0xE8, CHR 0xA1, CHR 0xB0,
        CHR 0xE5, CHR 0x87, CHR 0x8F]),
      (''BUMP'',
       [CHR 0xE5, CHR 0x87, CHR 0xB9, CHR 0xE5, CHR 0x87, CHR 0xB8]),
      (''NORMAL'',
       [CHR 0xE6, CHR 0xB3, CHR 0x95, CHR 0xE5, CHR 0x90, CHR 0x91]),
      (''NORMAL_MAP'',
       [CHR 0xE6, CHR 0xB3, CHR 0x95, CHR 0xE5, CHR 0x90, CHR 0x91, CHR 0xE8, CHR 0xB4, CHR 0xB4,
        CHR 0xE5, CHR 0x9B, CHR 0xBE]),
      (''DISPLACEMENT'',
       [CHR 0xE7, CHR 0xBD, CHR 0xAE, CHR 0xE6, CHR 0x8D, CHR 0xA2]),
      (''VECTOR_DISPLACEMENT'',
       [CHR 0xE7, CHR 0x9F, CHR 0xA2, CHR 0xE9, CHR 0x87, CHR 0x8F, CHR 0xE7, CHR 0xBD, CHR 0xAE,
        CHR 0xE6, CHR 0x8D, CHR 0xA2]),
      (''MAPPING'',
       [CHR 0xE6, CHR 0x98, CHR 0xA0, CHR 0xE5, CHR 0xB0, CHR 0x84]),
      (''VECT_TRANSFORM'',
       [CHR 0xE7, CHR 0x9F, CHR 0xA2, CHR 0xE9, CHR 0x87, CHR 0x8F, CHR 0xE5, CHR 0x8F, CHR 0x98,
        CHR 0xE6, CHR 0x8D, CHR 0xA2]),
      (''VECTOR_ROTATE'',
       [CHR 0xE7, CHR 0x9F, CHR 0xA2, CHR 0xE9, CHR 0x87, CHR 0x8F, CHR 0xE6, CHR 0x97, CHR 0x8B,
        CHR 0xE8, CHR 0xBD, CHR 0xAC]),
      (''VECTOR_MATH'',
       [CHR 0xE7, CHR 0x9F, CHR 0xA2, CHR 0xE9, CHR 0x87, CHR 0x8F, CHR 0xE8, CHR 0xBF, CHR 0x90,
        CHR 0xE7, CHR 0xAE, CHR 0x97]),
      (''VALTORGB'',
       [CHR 0xE9, CHR 0xA2, CHR 0x9C, CHR 0xE8, CHR 0x89, CHR 0xB2, CHR 0xE6, CHR 0xB8, CHR 0x90,
        CHR 0xE5, CHR 0x8F, CHR 0x98]),
      (''RGBTOBW'',
       [CHR 0x52, CHR 0x47, CHR 0x42, CHR 0xE8, CHR 0xBD, CHR 0xAC, CHR 0x42, CHR 0x57]),
      (''SEPARATE_COLOR'',
       [CHR 0xE5, CHR 0x88, CHR 0x86, CHR 0xE7, CHR 0xA6, CHR 0xBB, CHR 0xE9, CHR 0xA2, CHR 0x9C,
        CHR 0xE8, CHR 0x89, CHR 0xB2]),
      (''COMBINE_COLOR'',
       [CHR 0xE5, CHR 0x90, CHR 0x88, CHR 0xE5, CHR 0xB9, CHR 0xB6, CHR 0xE9, CHR 0xA2, CHR 0x9C,
        CHR 0xE8, CHR 0x89, CHR 0xB2]),
      (''SEPRGB'',
       [CHR 0xE5, CHR 0x88, CHR 0x86, CHR 0xE7, CHR 0xA6, CHR 0xBB, CHR 0x52, CHR 0x47, CHR 0x42]),
      (''COMBRGB'',
       [CHR 0xE5, CHR 0x90, CHR 0x88, CHR 0xE5, CHR 0xB9, CHR 0xB6, CHR 0x52, CHR 0x47, CHR 0x42]),
      (''SEPXYZ'',
       [CHR 0xE5, CHR 0x88, CHR 0x86, CHR 0xE7, CHR 0xA6, CHR 0xBB, CHR 0x58, CHR 0x59, CHR 0x5A]),
      (''COMBXYZ'',
       [CHR 0xE5, CHR 0x90, CHR 0x88, CHR 0xE5, CHR 0xB9, CHR 0xB6, CHR 0x58, CHR 0x59, CHR 0x5A]),
      (''SEPHSV'',
       [CHR 0xE5, CHR 0x88, CHR 0x86, CHR 0xE7, CHR 0xA6, CHR 0xBB, CHR 0x48, CHR 0x53, CHR 0x56]),
      (''COMBHSV'',
       [CHR 0xE5, CHR 0x90, CHR 0x88, CHR 0xE5, CHR 0xB9, CHR 0xB6, CHR 0x48, CHR 0x53, CHR 0x56]),
      (''WAVELENGTH'',
       [CHR 0xE6, CHR 0xB3, CHR 0xA2, CHR 0xE9, CHR 0x95, CHR 0xBF]),
      (''BLACKBODY'',
       [CHR 0xE9, CHR 0xBB, CHR 0x91, CHR 0xE4, CHR 0xBD, CHR 0x93]),
      (''TEX_COORD'',
       [CHR 0xE7, CHR 0xBA, CHR 0xB9, CHR 0xE7, CHR 0x90, CHR 0x86, CHR 0xE5, CHR 0x9D, CHR 0x90,
        CHR 0xE6, CHR 0xA0, CHR 0x87]),
      (''UVMAP'',
       [CHR 0x55, CHR 0x56, CHR 0xE8, CHR 0xB4, CHR 0xB4, CHR 0xE5, CHR 0x9B, CHR 0xBE]),
      (''GEOMETRY'',
       [CHR 0xE5, CHR 0x87, CHR 0xA0, CHR 0xE4, CHR 0xBD, CHR 0x95, CHR 0xE6, CHR 0x95, CHR 0xB0,
        CHR 0xE6, CHR 0x8D, CHR 0xAE]),
      (''OBJECT_INFO'',
       [CHR 0xE7, CHR 0x89, CHR 0xA9, CHR 0xE4, CHR 0xBD, CHR 0x93, CHR 0xE4, CHR 0xBF, CHR 0xA1,
        CHR 0xE6, CHR 0x81, CHR 0xAF]),
      (''PARTICLE_INFO'',
       [CHR 0xE7, CHR 0xB2, CHR 0x92, CHR 0xE5, CHR 0xAD, CHR 0x90, CHR 0xE4, CHR 0xBF, CHR 0xA1,
        CHR 0xE6, CHR 0x81, CHR 0xAF]),
      (''HAIR_INFO'',
       [CHR 0xE6, CHR 0xAF, CHR 0x9B, CHR 0xE5, CHR 0x8F, CHR 0x91, CHR 0xE4, CHR 0xBF, CHR 0xA1,
        CHR 0xE6, CHR 0x81, CHR 0xAF]),
      (''POINT_INFO'',
       [CHR 0xE7, CHR 0x82, CHR 0xB9, CHR 0xE4, CHR 0xBF, CHR 0xA1, CHR 0xE6, CHR 0x81, CHR 0xAF]),
      (''VOLUME_INFO'',
       [CHR 0xE4, CHR 0xBD, CHR 0x93, CHR 0xE7, CHR 0xA7, CHR 0xAF, CHR 0xE4, CHR 0xBF, CHR 0xA1,
        CHR 0xE6, CHR 0x81, CHR 0xAF]),
      (''ATTRIBUTE'',
       [CHR 0xE5, CHR 0xB1, CHR 0x9E, CHR 0xE6, CHR 0x80, CHR 0xA7]),
      (''TANGENT'',
       [CHR 0xE5, CHR 0x88, CHR 0x87, CHR 0xE5, CHR 0x90, CHR 0x91]),
      (''LAYER_WEIGHT'',
       [CHR 0xE5, CHR 0xB1, CHR 0x82, CHR 0xE6, CHR 0x9D, CHR 0x83, CHR 0xE9, CHR 0x87, CHR 0x8D]),
      (''FRESNEL'',
       [CHR 0xE8, CHR 0x8F, CHR 0xB2, CHR 0xE6, CHR 0xB6, CHR 0x85, CHR 0xE5, CHR 0xB0, CHR 0x94]),
      (''AMBIENT_OCCLUSION'',
       [CHR 0xE7, CHR 0x8E, CHR 0xAF, CHR 0xE5, CHR 0xA2, CHR 0x83, CHR 0xE5, CHR 0x85, CHR 0x89,
        CHR 0xE9, CHR 0x81, CHR 0xAE, CHR 0xE8, CHR 0x94, CHR 0xBD]),
      (''BEVEL'',
       [CHR 0xE5, CHR 0x80, CHR 0x92, CHR 0xE8, CHR 0xA7, CHR 0x92]),
      (''WIREFRAME'',
       [CHR 0xE7, CHR 0xBA, CHR 0xBF, CHR 0xE6, CHR 0xA1, CHR 0x86]),
      (''VALUE'',
       [CHR 0xE6, CHR 0x95, CHR 0xB0, CHR 0xE5, CHR 0x80, CHR 0xBC]),
      (''RGB'',
       ''RGB''),
      (''VERTEX_COLOR'',
       [CHR 0xE9, CHR 0xA1, CHR 0xB6, CHR 0xE7, CHR 0x82, CHR 0xB9, CHR 0xE9, CHR 0xA2, CHR 0x9C,
        CHR 0xE8, CHR 0x89, CHR 0xB2]),
      (''CAMERA'',
       [CHR 0xE7, CHR 0x9B, CHR 0xB8, CHR 0xE6, CHR 0x9C, CHR 0xBA, CHR 0xE6, CHR 0x95, CHR 0xB0,
        CHR 0xE6, CHR 0x8D, CHR 0xAE]),
      (''LIGHT_PATH'',
       [CHR 0xE5, CHR 0x85, CHR 0x89, CHR 0xE7, CHR 0xA8, CHR 0x8B]),
      (''OUTPUT_MATERIAL'',
       [CHR 0xE6, CHR 0x9D, CHR 0x90, CHR 0xE8, CHR 0xB4, CHR 0xA8, CHR 0xE8, CHR 0xBE, CHR 0x93,
        CHR 0xE5, CHR 0x87, CHR 0xBA]),
      (''OUTPUT_WORLD'',
       [CHR 0xE4, CHR 0xB8, CHR 0x96, CHR 0xE7, CHR 0x95, CHR 0x8C, CHR 0xE8, CHR 0xBE, CHR 0x93,
        CHR 0xE5, CHR 0x87, CHR 0xBA]),
      (''OUTPUT_LIGHT'',
       [CHR 0xE7, CHR 0x81, CHR 0xAF, CHR 0xE5, CHR 0x85, CHR 0x89, CHR 0xE8, CHR 0xBE, CHR 0x93,
        CHR 0xE5, CHR 0x87, CHR 0xBA]),
      (''OUTPUT_AOV'',
       [CHR 0x41, CHR 0x4F, CHR 0x56, CHR 0xE8, CHR 0xBE, CHR 0x93, CHR 0xE5, CHR 0x87, CHR 0xBA]),
      (''MATH'',
       [CHR 0xE6, CHR 0x95, CHR 0xB0, CHR 0xE5, CHR 0xAD, CHR 0xA6, CHR 0xE8, CHR 0xBF, CHR 0x90,
        CHR 0xE7, CHR 0xAE, CHR 0x97]),
      (''CLAMP'',
       [CHR 0xE9, CHR 0x92, CHR 0xB3, CHR 0xE5, CHR 0x88, CHR 0xB6]),
      (''MAP_RANGE'',
       [CHR 0xE6, CHR 0x98, CHR 0xA0, CHR 0xE5, CHR 0xB0, CHR 0x84, CHR 0xE8, CHR 0x8C, CHR 0x83,
        CHR 0xE5, CHR 0x9B, CHR 0xB4]),
      (''GROUP'',
       [CHR 0xE8, CHR 0x8A, CHR 0x82, CHR 0xE7, CHR 0x82, CHR 0xB9, CHR 0xE7, CHR 0xBB, CHR 0x84]),
      (''GROUP_INPUT'',
       [CHR 0xE7, CHR 0xBB, CHR 0x84, CHR 0xE8, CHR 0xBE, CHR 0x93, CHR 0xE5, CHR 0x85, CHR 0xA5]),
      (''GROUP_OUTPUT'',
       [CHR 0xE7, CHR 0xBB, CHR 0x84, CHR 0xE8, CHR 0xBE, CHR 0x93, CHR 0xE5, CHR 0x87, CHR 0xBA]),
      (''FRAME'',
       [CHR 0xE6, CHR 0xA1, CHR 0x86, CHR 0xE6, CHR 0x9E, CHR 0xB6]),
      (''REROUTE'',
       [CHR 0xE9, CHR 0x87, CHR 0x8D, CHR 0xE5, CHR 0xAE, CHR 0x9A, CHR 0xE5, CHR 0x90, CHR 0x91]),
      (''SCRIPT'',
       [CHR 0x4F, CHR 0x53, CHR 0x4C, CHR 0xE8, CHR 0x84, CHR 0x9A, CHR 0xE6, CHR 0x9C, CHR 0xAC])]"

text \<open>
  \<open>NODE_TYPE_NAMES_REVERSE = {v: k for k, v in NODE_TYPE_NAMES.items()}\<close>: where two
  types share a display name the later one is kept.
\<close>

definition NODE_TYPE_NAMES_REVERSE :: "string \<Rightarrow> string option" where
  "NODE_TYPE_NAMES_REVERSE = map_of (rev (map (\<lambda>(k, v). (v, k)) NODE_TYPE_NAMES))"

definition match_node_by_label_or_name :: "env \<Rightarrow> node \<Rightarrow> string \<Rightarrow> bool" where
  "match_node_by_label_or_name h n target_name =
     (if target_name = [] then False
      else (let target_name_lower = str_strip h (str_lower h target_name)
            in if node_label n \<noteq> [] \<and> str_strip h (str_lower h (node_label n)) = target_name_lower
               then True
               else if str_strip h (str_lower h (node_name n)) = target_name_lower then True
               else if node_label n \<noteq> [] \<and> str_in target_name_lower (str_lower h (node_label n))
               then True
               else if str_in target_name_lower (str_lower h (node_name n)) then True
               else False))"

definition match_node_by_type :: "node \<Rightarrow> string \<Rightarrow> bool" where
  "match_node_by_type n wanted_type =
     (if wanted_type = [] then False
      else if node_type n = wanted_type then True
      else if wanted_type = ''GROUP'' \<and> node_type n = ''GROUP'' then True
      else (case NODE_TYPE_NAMES_REVERSE wanted_type of
              Some english_type \<Rightarrow> node_type n = english_type
            | None \<Rightarrow> False))"

section \<open>Disconnect and reconnect (operators.py)\<close>

definition mode_name :: "replace_mode \<Rightarrow> string" where
  "mode_name m = (case m of MODE_ALL \<Rightarrow> ''ALL'' | MODE_SPECIFIC \<Rightarrow> ''SPECIFIC''
                  | MODE_MATERIAL \<Rightarrow> ''MATERIAL'' | MODE_MATERIAL_SPECIFIC \<Rightarrow> ''MATERIAL_SPECIFIC'')"

text \<open>
  \<open>get_shader_types_to_disconnect\<close> and \<open>get_shader_types_to_reconnect\<close> have the same
  body.
\<close>

definition get_shader_types :: "props \<Rightarrow> string list" where
  "get_shader_types p =
     (case replace_mode p of
        MODE_SPECIFIC \<Rightarrow>
          (if specific_builtin_shader p \<noteq> [] \<and> specific_builtin_shader p \<noteq> ''NONE''
           then [specific_builtin_shader p] else [])
          @ (case specific_nodegroup p of
               Some nm \<Rightarrow> if nm \<noteq> [] then [''GROUP:'' @ nm] else []
             | None \<Rightarrow> [])
      | MODE_MATERIAL_SPECIFIC \<Rightarrow>
          (if material_specific_builtin_shader p \<noteq> []
              \<and> material_specific_builtin_shader p \<noteq> ''NONE''
           then [material_specific_builtin_shader p] else [])
          @ (case material_specific_nodegroup p of
               Some nm \<Rightarrow> if nm \<noteq> [] then [''GROUP:'' @ nm] else []
             | None \<Rightarrow> [])
      | MODE_MATERIAL \<Rightarrow> (if target_material p \<noteq> None then [''ALL''] else [])
      | MODE_ALL \<Rightarrow> [''ALL''])"

text \<open>\<open>','.join(xs)\<close>\<close>

fun join_comma :: "string list \<Rightarrow> string" where
  "join_comma [] = []"
| "join_comma [x] = x"
| "join_comma (x # y # ys) = x @ '','' @ join_comma (y # ys)"

text \<open>
  The position \<open>_record_connection\<close> stores for socket number \<open>k\<close> of \<open>sockets\<close>: that of the
  first socket that is this socket or has its name; 0 when the socket does not resolve.
\<close>

definition record_index :: "socket list \<Rightarrow> nat \<Rightarrow> nat" where
  "record_index sockets k =
     (case nth_opt sockets k of
        None \<Rightarrow> 0
      | Some sk \<Rightarrow>
        (case first_index (\<lambda>(i, s). i = k \<or> sock_name s = sock_name sk) (enumerate 0 sockets) of
           Some i \<Rightarrow> i
         | None \<Rightarrow> 0))"

definition record_connection :: "graph \<Rightarrow> link \<Rightarrow> string \<Rightarrow> string \<Rightarrow> string \<Rightarrow> snapshot_item" where
  "record_connection g l mat_nm mode shader_type =
     (let fnode = nodes_get g (from_node l);
          tnode = nodes_get g (to_node l);
          fsock = (case fnode of Some n \<Rightarrow> nth_opt (outputs n) (from_socket l) | None \<Rightarrow> None);
          tsock = (case tnode of Some n \<Rightarrow> nth_opt (inputs n) (to_socket l) | None \<Rightarrow> None)
      in \<lparr>material_name = mat_nm,
          from_node_name = (case fnode of Some n \<Rightarrow> node_name n | None \<Rightarrow> []),
          from_node_type = (case fnode of Some n \<Rightarrow> node_type n | None \<Rightarrow> []),
          from_socket_name = (case fsock of Some s \<Rightarrow> sock_name s | None \<Rightarrow> []),
          from_socket_index =
            (case fnode of Some n \<Rightarrow> record_index (outputs n) (from_socket l) | None \<Rightarrow> 0),
          from_socket_type = (case fsock of Some s \<Rightarrow> bl_idname s | None \<Rightarrow> []),
          to_node_name = (case tnode of Some n \<Rightarrow> node_name n | None \<Rightarrow> []),
          to_node_type = (case tnode of Some n \<Rightarrow> node_type n | None \<Rightarrow> []),
          to_socket_name = (case tsock of Some s \<Rightarrow> sock_name s | None \<Rightarrow> []),
          to_socket_index =
            (case tnode of Some n \<Rightarrow> record_index (inputs n) (to_socket l) | None \<Rightarrow> 0),
          to_socket_type = (case tsock of Some s \<Rightarrow> bl_idname s | None \<Rightarrow> []),
          snap_replace_mode = mode,
          snap_shader_type = shader_type\<rparr>)"

text \<open>Whether the inner loop over \<open>shader_types\<close> sets \<open>should_remove\<close> for a link.\<close>

definition type_selects_link :: "graph \<Rightarrow> link \<Rightarrow> string \<Rightarrow> bool" where
  "type_selects_link g l shader_type =
     (let fnode = nodes_get g (from_node l); tnode = nodes_get g (to_node l)
      in if startswith shader_type ''GROUP:'' then
           (let group_name = drop 6 shader_type
            in (case fnode of
                  Some n \<Rightarrow> node_type n = ''GROUP'' \<and> node_tree n = Some group_name
                | None \<Rightarrow> False)
               \<or> (case tnode of
                     Some n \<Rightarrow> node_type n = ''GROUP'' \<and> node_tree n = Some group_name
                   | None \<Rightarrow> False))
         else (case fnode of Some n \<Rightarrow> node_type n = shader_type | None \<Rightarrow> False)
              \<or> (case tnode of Some n \<Rightarrow> node_type n = shader_type | None \<Rightarrow> False))"

definition links_to_remove :: "string list \<Rightarrow> graph \<Rightarrow> link list" where
  "links_to_remove shader_types g =
     (if ''ALL'' \<in> set shader_types then links g
      else filter (\<lambda>l. list_ex (type_selects_link g l) shader_types) (links g))"

text \<open>
  \<open>should_process\<close> of both operators: in the two material modes, with a target material
  set, only that material is processed.
\<close>

definition should_process :: "props \<Rightarrow> material \<Rightarrow> bool" where
  "should_process p mat =
     (if replace_mode p = MODE_MATERIAL \<or> replace_mode p = MODE_MATERIAL_SPECIFIC then
        (case target_material p of Some nm \<Rightarrow> mat_name mat = nm | None \<Rightarrow> True)
      else True)"

text \<open>
  One round of the disconnect loop, for one slot: the state is the world (with the
  snapshot in its settings) and \<open>disconnected_count\<close>. The selected links are recorded
  first, then removed one by one.
\<close>

definition disconnect_slot ::
  "string list \<Rightarrow> world \<times> nat \<Rightarrow> string option \<Rightarrow> world \<times> nat" where
  "disconnect_slot shader_types st slot =
     (let (w, disconnected_count) = st; p = scene_props w
      in case slot_material w slot of
           None \<Rightarrow> st
         | Some mat \<Rightarrow>
           if \<not> use_nodes mat then st
           else if \<not> should_process p mat then st
           else
             (let g = mat_node_tree mat;
                  to_remove = links_to_remove shader_types g;
                  shader_type_str = (if shader_types \<noteq> [] then join_comma shader_types else ''ALL'');
                  recorded = map (\<lambda>l. record_connection g l (mat_name mat)
                                         (mode_name (replace_mode p)) shader_type_str) to_remove;
                  w1 = w\<lparr>scene_props := p\<lparr>connection_snapshot := connection_snapshot p @ recorded\<rparr>\<rparr>;
                  g' = g\<lparr>links := foldl (\<lambda>ls l. remove1 l ls) (links g) to_remove\<rparr>
              in (set_node_tree w1 mat g', disconnected_count + length to_remove)))"

definition clear_snapshot :: "world \<Rightarrow> world" where
  "clear_snapshot w = w\<lparr>scene_props := (scene_props w)\<lparr>connection_snapshot := []\<rparr>\<rparr>"

definition disconnect_execute :: "bl_context \<Rightarrow> world \<Rightarrow> (status \<times> level \<times> message) \<times> world" where
  "disconnect_execute ctx w =
     (if selected_objects ctx = [] then ((CANCELLED, WARNING, No_selected_objects), w)
      else
        (let p = scene_props w; shader_types = get_shader_types p
         in if replace_mode p = MODE_MATERIAL \<and> target_material p = None
            then ((CANCELLED, WARNING, Select_target_material), w)
            else
              (let (w', disconnected_count) =
                     foldl (disconnect_slot shader_types) (clear_snapshot w, 0)
                       (mesh_slots (selected_objects ctx))
               in ((FINISHED, INFO, Disconnected (replace_mode p) disconnected_count), w'))))"

text \<open>
  \<open>_restore_connections_from_snapshot\<close>: one round for one snapshot record; the state is
  the graph and \<open>restored_count\<close>.
\<close>

definition restore_connection ::
  "env \<Rightarrow> string \<Rightarrow> graph \<times> nat \<Rightarrow> snapshot_item \<Rightarrow> graph \<times> nat" where
  "restore_connection h mat_nm st snapshot_item =
     (let (g, restored_count) = st
      in if material_name snapshot_item \<noteq> mat_nm then st
         else if from_node_name snapshot_item = [] \<or> to_node_name snapshot_item = [] then st
         else (case (nodes_get g (from_node_name snapshot_item),
                     nodes_get g (to_node_name snapshot_item)) of
                 (Some fnode, Some tnode) \<Rightarrow>
                   if from_socket_index snapshot_item < length (outputs fnode)
                      \<and> to_socket_index snapshot_item < length (inputs tnode)
                   then (let (ok, g') = safe_link h g
                               (mk_link (node_name fnode) (from_socket_index snapshot_item)
                                        (node_name tnode) (to_socket_index snapshot_item))
                         in if ok then (g', restored_count + 1) else (g, restored_count))
                   else st
               | _ \<Rightarrow> st))"

definition restore_connections_from_snapshot ::
  "env \<Rightarrow> props \<Rightarrow> graph \<Rightarrow> string \<Rightarrow> graph \<times> nat" where
  "restore_connections_from_snapshot h p g mat_nm =
     foldl (restore_connection h mat_nm) (g, 0) (connection_snapshot p)"

text \<open>The nodes a connection rule names as sources and as targets.\<close>

definition rule_source_nodes :: "env \<Rightarrow> connection_rule \<Rightarrow> graph \<Rightarrow> node list" where
  "rule_source_nodes h rule g =
     (if source_match_mode rule = ''LABEL'' then
        (if source_node_label rule \<noteq> []
         then filter (\<lambda>n. match_node_by_label_or_name h n (source_node_label rule)) (nodes g)
         else [])
      else
        (if source_node_type rule \<noteq> [] \<and> \<not> startswith (source_node_type rule) ''__''
         then filter (\<lambda>n. match_node_by_type n (source_node_type rule)) (nodes g)
         else []))"

definition rule_target_nodes :: "env \<Rightarrow> connection_rule \<Rightarrow> graph \<Rightarrow> node list" where
  "rule_target_nodes h rule g =
     (if target_match_mode rule = ''LABEL'' then
        (if target_node_label rule \<noteq> []
         then filter (\<lambda>n. match_node_by_label_or_name h n (target_node_label rule)) (nodes g)
         else [])
      else
        (if target_node_type rule \<noteq> [] \<and> \<not> startswith (target_node_type rule) ''__''
         then filter (\<lambda>n. match_node_by_type n (target_node_type rule)) (nodes g)
         else []))"

text \<open>One round of the two loops over source and target nodes of a rule.\<close>

definition connect_rule_pair ::
  "env \<Rightarrow> connection_rule \<Rightarrow> graph \<times> nat \<Rightarrow> node \<times> node \<Rightarrow> graph \<times> nat" where
  "connect_rule_pair h rule st pair =
     (let (g, custom_rule_count) = st; (source_node, target_node) = pair
      in if node_name source_node = node_name target_node then st
         else if source_socket_index rule < length (outputs source_node)
                 \<and> target_socket_index rule < length (inputs target_node)
         then (let (ok, g') = safe_link h g
                     (mk_link (node_name source_node) (source_socket_index rule)
                              (node_name target_node) (target_socket_index rule))
               in if ok then (g', custom_rule_count + 1) else (g, custom_rule_count))
         else st)"

definition apply_rule :: "env \<Rightarrow> graph \<times> nat \<Rightarrow> connection_rule \<Rightarrow> graph \<times> nat" where
  "apply_rule h st rule =
     (let g = fst st
      in foldl (connect_rule_pair h rule) st
           (concat (map (\<lambda>source_node. map (\<lambda>target_node. (source_node, target_node))
                                          (rule_target_nodes h rule g))
                        (rule_source_nodes h rule g))))"

text \<open>
  What the reconnect operator does with one material: auto-connection when enabled, every
  rule in order, then the restoration from the snapshot when there was one. The state is
  the world and the three counters.
\<close>

definition reconnect_material ::
  "env \<Rightarrow> bool \<Rightarrow> world \<times> nat \<times> nat \<times> nat \<Rightarrow> material \<Rightarrow> world \<times> nat \<times> nat \<times> nat" where
  "reconnect_material h has_snapshot st mat =
     (let (w, auto_connect_count, custom_rule_count, restored_count) = st;
          p = scene_props w;
          g = mat_node_tree mat;
          (g1, auto_made) =
            (if auto_connect p
             then (let s = apply_auto_connections h p g in (cs_graph s, connect_count s))
             else (g, 0));
          (g2, custom_rule_count') = foldl (apply_rule h) (g1, custom_rule_count) (connection_rules p);
          (g3, restored) =
            (if has_snapshot then restore_connections_from_snapshot h p g2 (mat_name mat)
             else (g2, 0))
      in (set_node_tree w mat g3, auto_connect_count + auto_made, custom_rule_count',
          restored_count + restored))"

text \<open>
  One round of the reconnect loop, for one slot; \<open>processed_materials\<close> is the set of the
  names of the materials already processed in this run.
\<close>

definition reconnect_slot ::
  "env \<Rightarrow> bool \<Rightarrow> (world \<times> nat \<times> nat \<times> nat) \<times> string list \<Rightarrow> string option
     \<Rightarrow> (world \<times> nat \<times> nat \<times> nat) \<times> string list" where
  "reconnect_slot h has_snapshot st slot =
     (let (ws, processed) = st; w = fst ws
      in case slot_material w slot of
           None \<Rightarrow> st
         | Some mat \<Rightarrow>
           if \<not> use_nodes mat then st
           else if mat_name mat \<in> set processed then st
           else if \<not> should_process (scene_props w) mat then st
           else (reconnect_material h has_snapshot ws mat, processed @ [mat_name mat]))"

definition reconnect_execute ::
  "env \<Rightarrow> bl_context \<Rightarrow> world \<Rightarrow> (status \<times> level \<times> message) \<times> world" where
  "reconnect_execute h ctx w =
     (if selected_objects ctx = [] then ((CANCELLED, WARNING, No_selected_objects), w)
      else
        (let p = scene_props w;
             has_snapshot = (length (connection_snapshot p) > 0);
             ((w', auto_connect_count, custom_rule_count, restored_count), processed) =
               foldl (reconnect_slot h has_snapshot) ((w, 0, 0, 0), [])
                 (mesh_slots (selected_objects ctx))
         in ((FINISHED, INFO,
              Reconnected has_snapshot (auto_connect p) auto_connect_count custom_rule_count
                restored_count), w')))"

section \<open>The statements of the specification, and concrete data\<close>

text \<open>
  The classifier as the specification words it: keyword groups in priority order, the
  category of the first group with a keyword in the lower-cased name, \<open>UNKNOWN\<close> when
  there is none.
\<close>

definition generic_color_keywords :: "string list" where
  "generic_color_keywords = [''color'',
     [CHR 0xE9, CHR 0xA2, CHR 0x9C, CHR 0xE8, CHR 0x89, CHR 0xB2]]"

definition keyword_groups :: "(string list \<times> semantic) list" where
  "keyword_groups =
     [([''base color'', ''basecolor''], COLOR),
      (NORMAL_KEYWORDS, NORMAL),
      (ROUGHNESS_KEYWORDS, ROUGHNESS),
      (METALLIC_KEYWORDS, METALLIC),
      (ALPHA_KEYWORDS, ALPHA),
      (EMISSION_KEYWORDS, EMISSION),
      (SPECULAR_KEYWORDS, SPECULAR),
      (SUBSURFACE_KEYWORDS, SUBSURFACE),
      (AO_KEYWORDS, AO),
      (DISPLACEMENT_KEYWORDS, DISPLACEMENT),
      (generic_color_keywords, COLOR)]"

fun first_matching_group :: "(string list \<times> semantic) list \<Rightarrow> string \<Rightarrow> semantic" where
  "first_matching_group [] s = UNKNOWN"
| "first_matching_group ((kws, cat) # groups) s =
     (if any_kw_in kws s then cat else first_matching_group groups s)"

text \<open>
  The compatibility score as the specification words it: 100 for identical semantics,
  the four listed ordered pairs, 0 for every other ordered pair.
\<close>

definition spec_compatibility :: "semantic \<Rightarrow> semantic \<Rightarrow> nat" where
  "spec_compatibility a b =
     (if a = b then 100
      else if (a, b) = (COLOR, EMISSION) then 80
      else if (a, b) = (ROUGHNESS, SPECULAR) then 60
      else if (a, b) = (AO, ROUGHNESS) then 40
      else if (a, b) = (AO, SPECULAR) then 40
      else 0)"

text \<open>
  An environment for the concrete runs: ASCII names, a host that accepts every link and
  every removal, knows no node class, and keeps node names unique (a name that is taken
  gets a suffix that makes it longer than every name present).
\<close>

definition keep_unique :: "string list \<Rightarrow> string \<Rightarrow> string" where
  "keep_unique ns nm =
     (if nm \<in> set ns
      then nm @ ''.'' @ replicate (sum_list (map length ns)) (CHR ''0'') @ ''1''
      else nm)"

definition ascii_env :: env where
  "ascii_env = \<lparr>str_lower = ascii_lower, str_strip = (\<lambda>s. s), link_ok = (\<lambda>ls l. True),
     remove_ok = (\<lambda>ns nm. True), nodes_new = (\<lambda>c. None), unique_name = keep_unique\<rparr>"



text \<open>Nodes of a small material, with the sockets the host gives nodes of these types.\<close>

definition principled_inputs :: "socket list" where
  "principled_inputs =
     [\<lparr>sock_name = ''Base Color'', sock_type = ''RGBA'', bl_idname = ''NodeSocketColor''\<rparr>,
      \<lparr>sock_name = ''Metallic'', sock_type = ''VALUE'', bl_idname = ''NodeSocketFloat''\<rparr>,
      \<lparr>sock_name = ''Roughness'', sock_type = ''VALUE'', bl_idname = ''NodeSocketFloat''\<rparr>,
      \<lparr>sock_name = ''Alpha'', sock_type = ''VALUE'', bl_idname = ''NodeSocketFloat''\<rparr>,
      \<lparr>sock_name = ''Normal'', sock_type = ''VECTOR'', bl_idname = ''NodeSocketVector''\<rparr>]"

definition bsdf_output :: socket where
  "bsdf_output = \<lparr>sock_name = ''BSDF'', sock_type = ''SHADER'', bl_idname = ''NodeSocketShader''\<rparr>"

definition ex_principled :: node where
  "ex_principled =
     \<lparr>node_name = ''BSDF_PRINCIPLED'', node_label = ''BSDF_PRINCIPLED'',
      node_type = ''BSDF_PRINCIPLED'', node_tree = None, location = (0, 0),
      inputs = principled_inputs, outputs = [bsdf_output]\<rparr>"

definition ex_image :: node where
  "ex_image =
     \<lparr>node_name = ''Image Texture'', node_label = [], node_type = ''TEX_IMAGE'',
      node_tree = None, location = (- 300, 0),
      inputs = [\<lparr>sock_name = ''Vector'', sock_type = ''VECTOR'', bl_idname = ''NodeSocketVector''\<rparr>],
      outputs = [\<lparr>sock_name = ''Color'', sock_type = ''RGBA'', bl_idname = ''NodeSocketColor''\<rparr>,
                 \<lparr>sock_name = ''Alpha'', sock_type = ''VALUE'', bl_idname = ''NodeSocketFloat''\<rparr>]\<rparr>"


text \<open>
  The destination the settings select, and the four validation failures of the batch
  replacement as the specification lists them: no destination selected; the destination
  neither a shader node group nor a valid built-in type; SPECIFIC mode without a node to
  replace; MATERIAL or MATERIAL\_SPECIFIC mode without a target material.
\<close>

definition destination_shader :: "props \<Rightarrow> string" where
  "destination_shader p =
     (if builtin_shader p \<noteq> [] \<and> builtin_shader p \<noteq> ''NONE'' then builtin_shader p
      else (case shader_nodegroup p of Some nm \<Rightarrow> nm | None \<Rightarrow> []))"

definition validation_fails :: "world \<Rightarrow> bool" where
  "validation_fails w =
     (let p = scene_props w in
        ((builtin_shader p = [] \<or> builtin_shader p = ''NONE'') \<and> shader_nodegroup p = None)
      \<or> (list_all (\<lambda>ng. \<not> (ng_type ng = ''SHADER'' \<and> ng_name ng = destination_shader p))
            (node_groups w)
          \<and> \<not> is_valid_builtin_shader (destination_shader p))
      \<or> (replace_mode p = MODE_SPECIFIC
          \<and> (specific_builtin_shader p = [] \<or> specific_builtin_shader p = ''NONE'')
          \<and> specific_nodegroup p = None)
      \<or> ((replace_mode p = MODE_MATERIAL \<or> replace_mode p = MODE_MATERIAL_SPECIFIC)
          \<and> target_material p = None))"

text \<open>
  The material M1 of the specification's scenario: an image texture feeds the colour of
  a diffuse shader, which feeds the surface of the material output. \<open>host_env\<close> is a host
  that can build a Principled BSDF node.
\<close>

definition ex_diffuse :: node where
  "ex_diffuse =
     \<lparr>node_name = ''Diffuse BSDF'', node_label = [], node_type = ''BSDF_DIFFUSE'',
      node_tree = None, location = (0, 0),
      inputs = [\<lparr>sock_name = ''Color'', sock_type = ''RGBA'', bl_idname = ''NodeSocketColor''\<rparr>,
                \<lparr>sock_name = ''Roughness'', sock_type = ''VALUE'', bl_idname = ''NodeSocketFloat''\<rparr>,
                \<lparr>sock_name = ''Normal'', sock_type = ''VECTOR'', bl_idname = ''NodeSocketVector''\<rparr>],
      outputs = [bsdf_output]\<rparr>"

definition ex_output :: node where
  "ex_output =
     \<lparr>node_name = ''Material Output'', node_label = [], node_type = ''OUTPUT_MATERIAL'',
      node_tree = None, location = (300, 0),
      inputs = [\<lparr>sock_name = ''Surface'', sock_type = ''SHADER'', bl_idname = ''NodeSocketShader''\<rparr>,
                \<lparr>sock_name = ''Volume'', sock_type = ''SHADER'', bl_idname = ''NodeSocketShader''\<rparr>,
                \<lparr>sock_name = ''Displacement'', sock_type = ''VECTOR'', bl_idname = ''NodeSocketVector''\<rparr>],
      outputs = []\<rparr>"

definition m1_graph :: graph where
  "m1_graph =
     \<lparr>nodes = [ex_image, ex_diffuse, ex_output],
      links = [mk_link ''Image Texture'' 0 ''Diffuse BSDF'' 0,
               mk_link ''Diffuse BSDF'' 0 ''Material Output'' 0]\<rparr>"

definition host_env :: env where
  "host_env = ascii_env\<lparr>nodes_new :=
     (\<lambda>c. if c = ''ShaderNodeBsdfPrincipled''
          then Some (ex_principled\<lparr>node_name := ''Principled BSDF'', node_label := []\<rparr>)
          else None)\<rparr>"

definition default_props :: props where
  "default_props =
     \<lparr>builtin_shader = ''NONE'', shader_nodegroup = None,
      specific_builtin_shader = ''NONE'', specific_nodegroup = None,
      material_specific_builtin_shader = ''NONE'', material_specific_nodegroup = None,
      replace_mode = MODE_ALL, target_material = None, auto_connect = True,
      connection_rules = [], connection_snapshot = [], target_type = ''OBJECTS''\<rparr>"

definition m1_world :: "props \<Rightarrow> world" where
  "m1_world p =
     \<lparr>materials = (\<lambda>nm. if nm = ''M1''
                          then Some \<lparr>mat_name = ''M1'', use_nodes = True, mat_node_tree = m1_graph\<rparr>
                          else None),
      node_groups = [], processed_materials = (\<lambda>nm. None), scene_props = p\<rparr>"

definition m1_context :: bl_context where
  "m1_context =
     \<lparr>selected_objects = [\<lparr>obj_type = ''MESH'', material_slots = [Some ''M1'']\<rparr>],
      collection = None\<rparr>"

text \<open>
  The first pass as one attempt: the first shader node that has an output is linked,
  once, to the surface input of the first material output node.
\<close>

definition single_attempt_pass :: "env \<Rightarrow> graph \<Rightarrow> conn_state \<Rightarrow> conn_state" where
  "single_attempt_pass h g s =
     (case find (\<lambda>n. node_type n = ''OUTPUT_MATERIAL'') (nodes g) of
        None \<Rightarrow> s
      | Some out \<Rightarrow>
        (case find (\<lambda>n. outputs n \<noteq> []) (auto_shader_nodes h g) of
           None \<Rightarrow> s
         | Some sh \<Rightarrow>
           (case (find_shader_output (outputs sh), surface_input_auto (inputs out)) of
              (Some shader_output, Some surface_input) \<Rightarrow>
                snd (try_link h s (mk_link (node_name sh) shader_output
                                           (node_name out) surface_input))
            | _ \<Rightarrow> s)))"

text \<open>
  A graph with two shader nodes and a material output, no links yet, and a host that
  refuses every link that starts at the diffuse shader.
\<close>

definition two_shader_graph :: graph where
  "two_shader_graph = \<lparr>nodes = [ex_diffuse, ex_principled, ex_output], links = []\<rparr>"

definition picky_env :: env where
  "picky_env = ascii_env\<lparr>link_ok := (\<lambda>ls l. from_node l \<noteq> ''Diffuse BSDF'')\<rparr>"

definition fresh_state :: "graph \<Rightarrow> conn_state" where
  "fresh_state g = \<lparr>cs_graph = g, connect_count = 0, calls = []\<rparr>"

text \<open>
  Processing the material of a given name once; and the host's invariant that a material
  is stored under its own name.
\<close>

definition process_named ::
  "env \<Rightarrow> bool \<Rightarrow> world \<times> nat \<times> nat \<times> nat \<Rightarrow> string \<Rightarrow> world \<times> nat \<times> nat \<times> nat" where
  "process_named h has_snapshot ws nm =
     (case materials (fst ws) nm of
        Some mat \<Rightarrow> reconnect_material h has_snapshot ws mat
      | None \<Rightarrow> ws)"

definition wf_world :: "world \<Rightarrow> bool" where
  "wf_world w = (\<forall>nm mat. materials w nm = Some mat \<longrightarrow> mat_name mat = nm)"

text \<open>Two selected mesh objects that share the material M1, one of them in two slots.\<close>

definition shared_context :: bl_context where
  "shared_context =
     \<lparr>selected_objects = [\<lparr>obj_type = ''MESH'', material_slots = [Some ''M1'', Some ''M1'']\<rparr>,
                           \<lparr>obj_type = ''MESH'', material_slots = [Some ''M1'']\<rparr>],
      collection = None\<rparr>"

text \<open>
  The node named \<open>nm\<close> drives a surface: some link runs from it into the surface input
  (the input named Surface, else the first input) of a material output node of the graph.
\<close>

definition drives_surface :: "graph \<Rightarrow> string \<Rightarrow> bool" where
  "drives_surface g nm =
     list_ex (\<lambda>l. from_node l = nm
                 \<and> list_ex (\<lambda>out. node_type out = ''OUTPUT_MATERIAL''
                               \<and> to_node l = node_name out
                               \<and> surface_input_of (inputs out) = Some (to_socket l))
                      (nodes g))
       (links g)"

text \<open>The graph of M1 after its diffuse shader was replaced by a Principled BSDF.\<close>

definition m1_replaced :: graph where
  "m1_replaced =
     \<lparr>nodes = [ex_image, ex_output, ex_principled],
      links = [mk_link ''Image Texture'' 0 ''BSDF_PRINCIPLED'' 0,
               mk_link ''BSDF_PRINCIPLED'' 0 ''Material Output'' 0]\<rparr>"

text \<open>
  A world with the one material M1 of a given graph; the links of a material; a graph
  whose only shader already is a Principled BSDF; and a graph with a Mix Shader node,
  whose two shader inputs have the same name, fed at its second shader input.
\<close>

definition world_of :: "graph \<Rightarrow> props \<Rightarrow> world" where
  "world_of g p =
     \<lparr>materials = (\<lambda>nm. if nm = ''M1''
                          then Some \<lparr>mat_name = ''M1'', use_nodes = True, mat_node_tree = g\<rparr>
                          else None),
      node_groups = [], processed_materials = (\<lambda>nm. None), scene_props = p\<rparr>"

definition material_links :: "world \<Rightarrow> string \<Rightarrow> link list" where
  "material_links w nm = (case materials w nm of Some m \<Rightarrow> links (mat_node_tree m) | None \<Rightarrow> [])"

definition same_type_graph :: graph where
  "same_type_graph =
     \<lparr>nodes = [ex_principled, ex_output],
      links = [mk_link ''BSDF_PRINCIPLED'' 0 ''Material Output'' 0]\<rparr>"

definition ex_mix :: node where
  "ex_mix =
     \<lparr>node_name = ''Mix Shader'', node_label = [], node_type = ''MIX_SHADER'',
      node_tree = None, location = (150, 0),
      inputs = [\<lparr>sock_name = ''Fac'', sock_type = ''VALUE'', bl_idname = ''NodeSocketFloatFactor''\<rparr>,
                \<lparr>sock_name = ''Shader'', sock_type = ''SHADER'', bl_idname = ''NodeSocketShader''\<rparr>,
                \<lparr>sock_name = ''Shader'', sock_type = ''SHADER'', bl_idname = ''NodeSocketShader''\<rparr>],
      outputs = [\<lparr>sock_name = ''Shader'', sock_type = ''SHADER'', bl_idname = ''NodeSocketShader''\<rparr>]\<rparr>"

definition mix_graph :: graph where
  "mix_graph =
     \<lparr>nodes = [ex_diffuse, ex_mix, ex_output],
      links = [mk_link ''Diffuse BSDF'' 0 ''Mix Shader'' 2,
               mk_link ''Mix Shader'' 0 ''Material Output'' 0]\<rparr>"

definition mix_world :: world where
  "mix_world = world_of mix_graph (default_props\<lparr>auto_connect := False\<rparr>)"

text \<open>
  A glossy shader, and a graph with a diffuse shader that drives the surface and a glossy
  shader that is linked to nothing; a shader node group without sockets and a host that
  can build group nodes; a host that refuses every link into the material output node; a
  material output node without inputs.
\<close>

definition ex_glossy :: node where
  "ex_glossy =
     \<lparr>node_name = ''Glossy BSDF'', node_label = [], node_type = ''BSDF_GLOSSY'',
      node_tree = None, location = (0, - 200),
      inputs = [\<lparr>sock_name = ''Color'', sock_type = ''RGBA'', bl_idname = ''NodeSocketColor''\<rparr>,
                \<lparr>sock_name = ''Roughness'', sock_type = ''VALUE'', bl_idname = ''NodeSocketFloat''\<rparr>,
                \<lparr>sock_name = ''Normal'', sock_type = ''VECTOR'', bl_idname = ''NodeSocketVector''\<rparr>],
      outputs = [bsdf_output]\<rparr>"

definition two_bsdf_graph :: graph where
  "two_bsdf_graph =
     \<lparr>nodes = [ex_diffuse, ex_glossy, ex_output],
      links = [mk_link ''Diffuse BSDF'' 0 ''Material Output'' 0]\<rparr>"

definition flat_group :: node_group where
  "flat_group = \<lparr>ng_name = ''Flat'', ng_type = ''SHADER'', ng_inputs = [], ng_outputs = []\<rparr>"

definition group_env :: env where
  "group_env = ascii_env\<lparr>nodes_new :=
     (\<lambda>c. if c = ''ShaderNodeGroup''
          then Some \<lparr>node_name = ''Group'', node_label = [], node_type = ''GROUP'',
                     node_tree = None, location = (0, 0), inputs = [], outputs = []\<rparr>
          else None)\<rparr>"

definition refusing_env :: env where
  "refusing_env = host_env\<lparr>link_ok := (\<lambda>ls l. to_node l \<noteq> ''Material Output'')\<rparr>"

definition bare_output :: node where
  "bare_output = ex_output\<lparr>inputs := []\<rparr>"

section \<open>Evaluation lemmas\<close>

lemma ascii_lower_simps:
  "ascii_lower [] = []"
  "ascii_lower (c # cs) = ascii_lower_char c # ascii_lower cs"
  by (simp_all add: ascii_lower_def)

lemmas keyword_defs =
  NORMAL_KEYWORDS_def ROUGHNESS_KEYWORDS_def METALLIC_KEYWORDS_def ALPHA_KEYWORDS_def
  EMISSION_KEYWORDS_def SPECULAR_KEYWORDS_def SUBSURFACE_KEYWORDS_def AO_KEYWORDS_def
  DISPLACEMENT_KEYWORDS_def

lemmas eval_simps = ascii_env_def ascii_lower_simps ascii_lower_char_def keyword_defs
  get_socket_semantic_def are_semantically_compatible_def compatibility_def
  get_type_compatibility_score_def type_compatibility_def input_score_def

section \<open>Socket semantics\<close>

text \<open>
  C7. The classifier lower-cases the name and returns the category of the first keyword
  group, in the fixed priority order (base color first, then NORMAL, ROUGHNESS, METALLIC,
  ALPHA, EMISSION, SPECULAR, SUBSURFACE, AO, DISPLACEMENT, generic color last), that has
  a keyword in the name, and UNKNOWN when no group matches. So "Base Color" is COLOR,
  and a name that matches both an earlier group and "color" gets the earlier category
  ("Normal Color" is NORMAL, "Emission Color" is EMISSION); "Strength" is UNKNOWN.
\<close>

theorem get_socket_semantic_first_group:
  "get_socket_semantic h socket_name
     = first_matching_group keyword_groups (str_lower h socket_name)
   \<and> map snd keyword_groups
     = [COLOR, NORMAL, ROUGHNESS, METALLIC, ALPHA, EMISSION, SPECULAR, SUBSURFACE, AO,
        DISPLACEMENT, COLOR]
   \<and> get_socket_semantic ascii_env ''Base Color'' = COLOR
   \<and> get_socket_semantic ascii_env ''Normal Color'' = NORMAL
   \<and> get_socket_semantic ascii_env ''Emission Color'' = EMISSION
   \<and> get_socket_semantic ascii_env ''Color'' = COLOR
   \<and> get_socket_semantic ascii_env ''Strength'' = UNKNOWN"
proof -
  have general: "get_socket_semantic h socket_name
     = first_matching_group keyword_groups (str_lower h socket_name)"
    by (simp add: get_socket_semantic_def keyword_groups_def generic_color_keywords_def Let_def)
  have order: "map snd keyword_groups
     = [COLOR, NORMAL, ROUGHNESS, METALLIC, ALPHA, EMISSION, SPECULAR, SUBSURFACE, AO,
        DISPLACEMENT, COLOR]"
    by (simp add: keyword_groups_def)
  have e1: "get_socket_semantic ascii_env ''Base Color'' = COLOR"
    by (simp add: get_socket_semantic_def ascii_env_def ascii_lower_simps ascii_lower_char_def)
  have e2: "get_socket_semantic ascii_env ''Normal Color'' = NORMAL"
    by (simp add: get_socket_semantic_def ascii_env_def ascii_lower_simps ascii_lower_char_def
        keyword_defs)
  have e3: "get_socket_semantic ascii_env ''Emission Color'' = EMISSION"
    by (simp add: get_socket_semantic_def ascii_env_def ascii_lower_simps ascii_lower_char_def
        keyword_defs)
  have e4: "get_socket_semantic ascii_env ''Color'' = COLOR"
    by (simp add: get_socket_semantic_def ascii_env_def ascii_lower_simps ascii_lower_char_def
        keyword_defs)
  have e5: "get_socket_semantic ascii_env ''Strength'' = UNKNOWN"
    by (simp add: get_socket_semantic_def ascii_env_def ascii_lower_simps ascii_lower_char_def
        keyword_defs)
  from general order e1 e2 e3 e4 e5 show ?thesis by blast
qed

text \<open>
  C8. The semantic compatibility score is 100 for identical semantics, 80 for COLOR to
  EMISSION, 60 for ROUGHNESS to SPECULAR, 40 for AO to ROUGHNESS and for AO to SPECULAR,
  and 0 for every other ordered pair. It is not symmetric: COLOR to EMISSION scores 80,
  EMISSION to COLOR scores 0. It is a function of its two arguments alone.
\<close>

theorem are_semantically_compatible_table:
  "are_semantically_compatible a b = spec_compatibility a b
   \<and> are_semantically_compatible x x = 100
   \<and> are_semantically_compatible COLOR EMISSION = 80
   \<and> are_semantically_compatible ROUGHNESS SPECULAR = 60
   \<and> are_semantically_compatible AO ROUGHNESS = 40
   \<and> are_semantically_compatible AO SPECULAR = 40
   \<and> are_semantically_compatible EMISSION COLOR = 0"
proof -
  have "are_semantically_compatible a b = spec_compatibility a b"
    by (cases a; cases b;
        simp add: are_semantically_compatible_def spec_compatibility_def compatibility_def)
  moreover have "are_semantically_compatible x x = 100"
    by (simp add: are_semantically_compatible_def)
  moreover have "are_semantically_compatible COLOR EMISSION = 80"
    "are_semantically_compatible ROUGHNESS SPECULAR = 60"
    "are_semantically_compatible AO ROUGHNESS = 40"
    "are_semantically_compatible AO SPECULAR = 40"
    "are_semantically_compatible EMISSION COLOR = 0"
    by (simp_all add: are_semantically_compatible_def compatibility_def)
  ultimately show ?thesis by blast
qed

section \<open>The weighted choice of an input socket\<close>













section \<open>Validation of the batch replacement\<close>

lemma find_None_list_all: "(find P xs = None) = list_all (\<lambda>x. \<not> P x) xs"
  by (induction xs) auto

text \<open>
  C9. When the destination shader is unresolved (none selected, or the selected name is
  neither a shader node group nor a valid built-in type), or SPECIFIC mode has no node to
  replace, or MATERIAL or MATERIAL\_SPECIFIC mode has no target material, the batch
  replacement reports an error, is cancelled, and returns the world as it was: no graph,
  no cache entry and no snapshot record has changed.
\<close>

theorem batch_replace_validation_aborts:
  assumes "validation_fails w"
  shows "\<exists>msg. batch_replace_execute h ctx w = ((CANCELLED, ERROR, msg), w)"
proof -
  let ?p = "scene_props w"
  let ?t = "destination_shader ?p"
  let ?missing = "find (\<lambda>ng. ng_type ng = ''SHADER'' \<and> ng_name ng = ?t) (node_groups w) = None
                  \<and> \<not> is_valid_builtin_shader ?t"
  let ?spec = "(if specific_builtin_shader ?p \<noteq> [] \<and> specific_builtin_shader ?p \<noteq> ''NONE''
                  then specific_builtin_shader ?p
                  else (case specific_nodegroup ?p of Some nm \<Rightarrow> nm | None \<Rightarrow> []))"
  note unfold = batch_replace_execute_def destination_shader_def[symmetric] Let_def
  show ?thesis
  proof (cases "?t = []")
    case True
    then show ?thesis unfolding unfold by simp
  next
    case t: False
    show ?thesis
    proof (cases ?missing)
      case True
      with t show ?thesis unfolding unfold by simp
    next
      case m: False
      have d1: "\<not> ((builtin_shader ?p = [] \<or> builtin_shader ?p = ''NONE'') \<and> shader_nodegroup ?p = None)"
        using t by (auto simp: destination_shader_def)
      have d2: "\<not> (list_all (\<lambda>ng. \<not> (ng_type ng = ''SHADER'' \<and> ng_name ng = ?t)) (node_groups w)
          \<and> \<not> is_valid_builtin_shader ?t)"
        using m by (simp add: find_None_list_all)
      from assms d1 d2 consider
          (c) "replace_mode ?p = MODE_SPECIFIC"
              "specific_builtin_shader ?p = [] \<or> specific_builtin_shader ?p = ''NONE''"
              "specific_nodegroup ?p = None"
        | (d) "replace_mode ?p = MODE_MATERIAL \<or> replace_mode ?p = MODE_MATERIAL_SPECIFIC"
              "target_material ?p = None"
        unfolding validation_fails_def Let_def by fastforce
      then show ?thesis
      proof cases
        case c
        then have "?spec = []" by auto
        with c(1) t m show ?thesis unfolding unfold by simp
      next
        case d
        with t m show ?thesis unfolding unfold by (auto simp: slot_material_def)
      qed
    qed
  qed
qed

theorem batch_replace_validation_aborts_witness:
  "validation_fails (m1_world default_props)
   \<and> batch_replace_execute host_env m1_context (m1_world default_props)
       = ((CANCELLED, ERROR, Select_target_shader), m1_world default_props)
   \<and> validation_fails (m1_world (default_props\<lparr>shader_nodegroup := Some ''Toon''\<rparr>))
   \<and> (\<exists>msg. batch_replace_execute host_env m1_context
                 (m1_world (default_props\<lparr>shader_nodegroup := Some ''Toon''\<rparr>))
               = ((CANCELLED, ERROR, msg),
                  m1_world (default_props\<lparr>shader_nodegroup := Some ''Toon''\<rparr>)))
   \<and> validation_fails
        (m1_world (default_props\<lparr>builtin_shader := ''BSDF_PRINCIPLED'', replace_mode := MODE_SPECIFIC\<rparr>))
   \<and> (\<exists>msg. batch_replace_execute host_env m1_context
                 (m1_world (default_props\<lparr>builtin_shader := ''BSDF_PRINCIPLED'',
                                           replace_mode := MODE_SPECIFIC\<rparr>))
               = ((CANCELLED, ERROR, msg),
                  m1_world (default_props\<lparr>builtin_shader := ''BSDF_PRINCIPLED'',
                                            replace_mode := MODE_SPECIFIC\<rparr>)))
   \<and> validation_fails
        (m1_world (default_props\<lparr>builtin_shader := ''BSDF_PRINCIPLED'', replace_mode := MODE_MATERIAL\<rparr>))
   \<and> (\<exists>msg. batch_replace_execute host_env m1_context
                 (m1_world (default_props\<lparr>builtin_shader := ''BSDF_PRINCIPLED'',
                                           replace_mode := MODE_MATERIAL\<rparr>))
               = ((CANCELLED, ERROR, msg),
                  m1_world (default_props\<lparr>builtin_shader := ''BSDF_PRINCIPLED'',
                                            replace_mode := MODE_MATERIAL\<rparr>)))"
proof -
  have v1: "validation_fails (m1_world default_props)"
    by (simp add: validation_fails_def m1_world_def default_props_def)
  have v2: "validation_fails (m1_world (default_props\<lparr>shader_nodegroup := Some ''Toon''\<rparr>))"
    by (simp add: validation_fails_def m1_world_def default_props_def destination_shader_def
        is_valid_builtin_shader_def BUILTIN_SHADER_TYPES_def)
  have v3: "validation_fails
        (m1_world (default_props\<lparr>builtin_shader := ''BSDF_PRINCIPLED'', replace_mode := MODE_SPECIFIC\<rparr>))"
    by (simp add: validation_fails_def m1_world_def default_props_def)
  have v4: "validation_fails
        (m1_world (default_props\<lparr>builtin_shader := ''BSDF_PRINCIPLED'', replace_mode := MODE_MATERIAL\<rparr>))"
    by (simp add: validation_fails_def m1_world_def default_props_def)
  have e1: "batch_replace_execute host_env m1_context (m1_world default_props)
       = ((CANCELLED, ERROR, Select_target_shader), m1_world default_props)"
    by (simp add: batch_replace_execute_def m1_world_def default_props_def)
  from v1 e1 v2 v3 v4
    batch_replace_validation_aborts[OF v2, of host_env m1_context]
    batch_replace_validation_aborts[OF v3, of host_env m1_context]
    batch_replace_validation_aborts[OF v4, of host_env m1_context]
  show ?thesis by blast
qed

section \<open>The shader-to-output pass\<close>

lemma find_shader_output_None: "find_shader_output outs = None \<longleftrightarrow> outs = []"
  by (auto simp: find_shader_output_def split: option.splits)

lemma shader_to_output_find:
  "shader_to_output h out shs s =
     (case find (\<lambda>n. outputs n \<noteq> []) shs of
        None \<Rightarrow> s
      | Some sh \<Rightarrow>
        (case (find_shader_output (outputs sh), surface_input_auto (inputs out)) of
           (Some so, Some si) \<Rightarrow> snd (try_link h s (mk_link (node_name sh) so (node_name out) si))
         | _ \<Rightarrow> s))"
proof (induction shs)
  case Nil
  then show ?case by simp
next
  case (Cons sh shs)
  show ?case
  proof (cases "outputs sh = []")
    case True
    then have "find_shader_output (outputs sh) = None" by (simp add: find_shader_output_None)
    with True Cons show ?thesis by simp
  next
    case False
    then obtain so where "find_shader_output (outputs sh) = Some so"
      using find_shader_output_None[of "outputs sh"] by (cases "find_shader_output (outputs sh)") auto
    with False show ?thesis by (simp split: option.splits)
  qed
qed

lemma shader_output_pass_eq: "shader_output_pass h g s = single_attempt_pass h g s"
  by (auto simp: shader_output_pass_def single_attempt_pass_def shader_to_output_find
           split: option.splits)

lemma try_link_calls:
  "calls (snd (try_link h s l)) = calls s @ [(l, fst (try_link h s l))]"
  "fst (try_link h s l) = link_ok h (links (cs_graph s)) l"
  "connect_count (snd (try_link h s l)) = connect_count s + (if fst (try_link h s l) then 1 else 0)"
  "nodes (cs_graph (snd (try_link h s l))) = nodes (cs_graph s)"
  by (auto simp: try_link_def links_new_def split: option.splits)

lemma try_link_accepted:
  "link_ok h (links (cs_graph s)) l \<Longrightarrow>
     try_link h s l =
       (True, s\<lparr>cs_graph := (cs_graph s)\<lparr>links :=
                     filter (\<lambda>k. \<not> (to_node k = to_node l \<and> to_socket k = to_socket l))
                       (links (cs_graph s)) @ [l]\<rparr>,
                 connect_count := connect_count s + 1, calls := calls s @ [(l, True)]\<rparr>)"
  by (simp add: try_link_def links_new_def)

lemma try_link_refused:
  "\<not> link_ok h (links (cs_graph s)) l \<Longrightarrow>
     try_link h s l = (False, s\<lparr>calls := calls s @ [(l, False)]\<rparr>)"
  by (simp add: try_link_def links_new_def)

lemmas ex_node_defs = ex_diffuse_def ex_principled_def ex_output_def ex_image_def bsdf_output_def
  principled_inputs_def

lemmas table_defs = SHADER_NODE_TYPES_def TEXTURE_NODE_TYPES_def surface_names_def

text \<open>
  C6 (as amended). The first pass equals one attempt: it looks up the first material
  output node and the first shader node that has an output, and calls \<open>links.new\<close> once,
  from that node's shader output to the surface input; the loop ends there whether the
  call returned or raised. So the pass makes at most one call and at most one link, no
  later shader node is linked by it, and when the host accepts the call exactly one link
  is made.
\<close>

theorem shader_output_pass_one_attempt:
  "shader_output_pass h g s = single_attempt_pass h g s
   \<and> length (calls (shader_output_pass h g s)) \<le> Suc (length (calls s))
   \<and> connect_count (shader_output_pass h g s) \<le> Suc (connect_count s)
   \<and> (find (\<lambda>n. node_type n = ''OUTPUT_MATERIAL'') (nodes g) = Some out
        \<and> find (\<lambda>n. outputs n \<noteq> []) (auto_shader_nodes h g) = Some sh
        \<and> find_shader_output (outputs sh) = Some so
        \<and> surface_input_auto (inputs out) = Some si
        \<and> link_ok h (links (cs_graph s)) (mk_link (node_name sh) so (node_name out) si)
       \<longrightarrow> connect_count (shader_output_pass h g s) = Suc (connect_count s)
           \<and> calls (shader_output_pass h g s)
               = calls s @ [(mk_link (node_name sh) so (node_name out) si, True)]
           \<and> links (cs_graph (shader_output_pass h g s))
               = filter (\<lambda>k. \<not> (to_node k = node_name out \<and> to_socket k = si))
                   (links (cs_graph s)) @ [mk_link (node_name sh) so (node_name out) si])"
proof -
  have a: "length (calls (single_attempt_pass h g s)) \<le> Suc (length (calls s))"
    by (auto simp: single_attempt_pass_def try_link_calls split: option.splits)
  have b: "connect_count (single_attempt_pass h g s) \<le> Suc (connect_count s)"
    by (auto simp: single_attempt_pass_def try_link_calls split: option.splits)
  have c: "find (\<lambda>n. node_type n = ''OUTPUT_MATERIAL'') (nodes g) = Some out
        \<and> find (\<lambda>n. outputs n \<noteq> []) (auto_shader_nodes h g) = Some sh
        \<and> find_shader_output (outputs sh) = Some so
        \<and> surface_input_auto (inputs out) = Some si
        \<and> link_ok h (links (cs_graph s)) (mk_link (node_name sh) so (node_name out) si)
       \<longrightarrow> connect_count (single_attempt_pass h g s) = Suc (connect_count s)
           \<and> calls (single_attempt_pass h g s)
               = calls s @ [(mk_link (node_name sh) so (node_name out) si, True)]
           \<and> links (cs_graph (single_attempt_pass h g s))
               = filter (\<lambda>k. \<not> (to_node k = node_name out \<and> to_socket k = si))
                   (links (cs_graph s)) @ [mk_link (node_name sh) so (node_name out) si]"
    by (auto simp: single_attempt_pass_def try_link_accepted mk_link_def)
  show ?thesis using a b c unfolding shader_output_pass_eq by blast
qed

theorem shader_output_pass_one_attempt_witness:
  "find (\<lambda>n. node_type n = ''OUTPUT_MATERIAL'') (nodes two_shader_graph) = Some ex_output
   \<and> find (\<lambda>n. outputs n \<noteq> []) (auto_shader_nodes ascii_env two_shader_graph) = Some ex_diffuse
   \<and> find_shader_output (outputs ex_diffuse) = Some 0
   \<and> surface_input_auto (inputs ex_output) = Some 0
   \<and> link_ok ascii_env (links (cs_graph (fresh_state two_shader_graph)))
        (mk_link (node_name ex_diffuse) 0 (node_name ex_output) 0)
   \<and> connect_count (shader_output_pass ascii_env two_shader_graph (fresh_state two_shader_graph)) = 1
   \<and> links (cs_graph (shader_output_pass ascii_env two_shader_graph (fresh_state two_shader_graph)))
       = [mk_link ''Diffuse BSDF'' 0 ''Material Output'' 0]"
proof -
  have h1: "find (\<lambda>n. node_type n = ''OUTPUT_MATERIAL'') (nodes two_shader_graph) = Some ex_output"
    by (simp add: two_shader_graph_def ex_node_defs)
  have h2: "find (\<lambda>n. outputs n \<noteq> []) (auto_shader_nodes ascii_env two_shader_graph) = Some ex_diffuse"
    by (simp add: two_shader_graph_def auto_shader_nodes_def ex_node_defs table_defs)
  have h3: "find_shader_output (outputs ex_diffuse) = Some 0"
    by (simp add: find_shader_output_def ex_node_defs)
  have h4: "surface_input_auto (inputs ex_output) = Some 0"
    by (simp add: surface_input_auto_def ex_node_defs table_defs)
  have h5: "link_ok ascii_env (links (cs_graph (fresh_state two_shader_graph)))
        (mk_link (node_name ex_diffuse) 0 (node_name ex_output) 0)"
    by (simp add: ascii_env_def)
  have n: "node_name ex_diffuse = ''Diffuse BSDF''" "node_name ex_output = ''Material Output''"
    by (simp_all add: ex_node_defs)
  have l: "links (cs_graph (fresh_state two_shader_graph)) = []"
    "connect_count (fresh_state two_shader_graph) = 0"
    by (simp_all add: fresh_state_def two_shader_graph_def)
  from shader_output_pass_one_attempt
         [of ascii_env two_shader_graph "fresh_state two_shader_graph" ex_output ex_diffuse 0 0]
       h1 h2 h3 h4 h5
  have "connect_count (shader_output_pass ascii_env two_shader_graph (fresh_state two_shader_graph))
          = Suc (connect_count (fresh_state two_shader_graph))
        \<and> links (cs_graph (shader_output_pass ascii_env two_shader_graph (fresh_state two_shader_graph)))
          = filter (\<lambda>k. \<not> (to_node k = node_name ex_output \<and> to_socket k = 0))
              (links (cs_graph (fresh_state two_shader_graph)))
            @ [mk_link (node_name ex_diffuse) 0 (node_name ex_output) 0]"
    by blast
  then show ?thesis using h1 h2 h3 h4 h5 by (simp add: n l)
qed

text \<open>
  The claim as stated fails: with a host that refuses the link from the first shader
  node, the pass ends after that one refused call. Nothing is linked to the material
  output, although the host would accept the same link from the second shader node.
\<close>

theorem shader_output_pass_stops_after_failure:
  "shader_output_pass picky_env two_shader_graph (fresh_state two_shader_graph)
     = \<lparr>cs_graph = two_shader_graph, connect_count = 0,
        calls = [(mk_link ''Diffuse BSDF'' 0 ''Material Output'' 0, False)]\<rparr>
   \<and> links two_shader_graph = []
   \<and> link_ok picky_env [] (mk_link ''BSDF_PRINCIPLED'' 0 ''Material Output'' 0)"
proof -
  have f1: "find (\<lambda>n. node_type n = ''OUTPUT_MATERIAL'') (nodes two_shader_graph) = Some ex_output"
    by (simp add: two_shader_graph_def ex_node_defs)
  have f2: "auto_shader_nodes picky_env two_shader_graph = [ex_diffuse, ex_principled]"
    by (simp add: two_shader_graph_def auto_shader_nodes_def ex_node_defs table_defs)
  have f3: "find_shader_output (outputs ex_diffuse) = Some 0"
    by (simp add: find_shader_output_def ex_node_defs)
  have f4: "surface_input_auto (inputs ex_output) = Some 0"
    by (simp add: surface_input_auto_def ex_node_defs table_defs)
  have f5: "\<not> link_ok picky_env (links (cs_graph (fresh_state two_shader_graph)))
               (mk_link (node_name ex_diffuse) 0 (node_name ex_output) 0)"
    by (simp add: picky_env_def mk_link_def ex_node_defs)
  have e: "shader_output_pass picky_env two_shader_graph (fresh_state two_shader_graph)
     = \<lparr>cs_graph = two_shader_graph, connect_count = 0,
        calls = [(mk_link ''Diffuse BSDF'' 0 ''Material Output'' 0, False)]\<rparr>"
    by (simp add: shader_output_pass_def f1 f2 f3 f4 try_link_refused[OF f5])
       (simp add: fresh_state_def ex_node_defs)
  have l: "links two_shader_graph = []" by (simp add: two_shader_graph_def)
  have o: "link_ok picky_env [] (mk_link ''BSDF_PRINCIPLED'' 0 ''Material Output'' 0)"
    by (simp add: picky_env_def mk_link_def)
  from e l o show ?thesis by blast
qed

section \<open>The texture-to-shader pass\<close>

lemma connect_texture_calls:
  assumes "connect_texture h sh a (s, ci) tex = (s', ci')"
  shows "\<exists>new. calls s' = calls s @ new
           \<and> (\<forall>c \<in> set new. from_node (fst c) = node_name tex \<and> to_node (fst c) = node_name sh)
           \<and> (node_type tex = ''TEX_IMAGE'' \<longrightarrow>
                 (\<forall>c \<in> set new. from_socket (fst c) = 0 \<or> (from_socket (fst c) = 1 \<and> a))
                 \<and> (\<not> a \<longrightarrow> length new \<le> 1))"
proof (cases "outputs tex = []")
  case True
  with assms show ?thesis by (simp add: connect_texture_def)
next
  case ne: False
  show ?thesis
  proof (cases "node_type tex = ''TEX_IMAGE''")
    case img: True
    obtain s1 c1 where col:
      "(case color_target_input h color_keywords ci (inputs sh) of
          None \<Rightarrow> (s, ci)
        | Some target_input \<Rightarrow>
            (let (ok, s') = try_link h s (mk_link (node_name tex) 0 (node_name sh) target_input)
             in if ok then (s', ci @ [target_input]) else (s', ci))) = (s1, c1)"
      by fastforce
    have n1: "\<exists>new1. calls s1 = calls s @ new1 \<and> length new1 \<le> 1
        \<and> (\<forall>c \<in> set new1. from_node (fst c) = node_name tex \<and> to_node (fst c) = node_name sh
               \<and> from_socket (fst c) = 0)"
      using col
      by (auto simp: try_link_def mk_link_def Let_def split: option.splits prod.splits if_splits)
    show ?thesis
    proof (cases "a \<and> length (outputs tex) > 1")
      case False
      then have "s' = s1" using assms ne img col
        by (auto simp: connect_texture_def Let_def split: prod.splits)
      with n1 False show ?thesis using img by auto
    next
      case True
      have "\<exists>new2. calls s' = calls s1 @ new2
        \<and> (\<forall>c \<in> set new2. from_node (fst c) = node_name tex \<and> to_node (fst c) = node_name sh
               \<and> from_socket (fst c) = 1)"
        using assms ne img col True
        by (auto simp: connect_texture_def try_link_def mk_link_def Let_def
                 split: option.splits prod.splits if_splits)
      with n1 True show ?thesis using img by auto
    qed
  next
    case False
    with assms ne show ?thesis
      by (auto simp: connect_texture_def try_link_def mk_link_def Let_def
               split: option.splits prod.splits if_splits)
  qed
qed

lemma foldl_connect_texture_calls:
  assumes "distinct (map node_name texs)"
    and "foldl (connect_texture h sh a) (s, ci) texs = (s', ci')"
  shows "\<exists>new. calls s' = calls s @ new
           \<and> (\<forall>c \<in> set new. to_node (fst c) = node_name sh
                 \<and> (\<exists>t \<in> set texs. from_node (fst c) = node_name t
                       \<and> (node_type t = ''TEX_IMAGE'' \<longrightarrow>
                             from_socket (fst c) = 0 \<or> (from_socket (fst c) = 1 \<and> a))))
           \<and> (\<forall>t \<in> set texs. node_type t = ''TEX_IMAGE'' \<and> \<not> a \<longrightarrow>
                 length (filter (\<lambda>c. from_node (fst c) = node_name t) new) \<le> 1)"
  using assms
proof (induction texs arbitrary: s ci)
  case Nil
  then show ?case by simp
next
  case (Cons tex texs)
  obtain s1 c1 where st: "connect_texture h sh a (s, ci) tex = (s1, c1)"
    by (cases "connect_texture h sh a (s, ci) tex")
  from connect_texture_calls[OF st] obtain new1 where n1:
    "calls s1 = calls s @ new1"
    "\<forall>c \<in> set new1. from_node (fst c) = node_name tex \<and> to_node (fst c) = node_name sh"
    "node_type tex = ''TEX_IMAGE'' \<longrightarrow>
       (\<forall>c \<in> set new1. from_socket (fst c) = 0 \<or> (from_socket (fst c) = 1 \<and> a))
       \<and> (\<not> a \<longrightarrow> length new1 \<le> 1)"
    by blast
  have d: "distinct (map node_name texs)" and nt: "node_name tex \<notin> node_name ` set texs"
    using Cons.prems(1) by auto
  have f: "foldl (connect_texture h sh a) (s1, c1) texs = (s', ci')"
    using Cons.prems(2) st by simp
  from Cons.IH[OF d f] obtain new2 where n2:
    "calls s' = calls s1 @ new2"
    "\<forall>c \<in> set new2. to_node (fst c) = node_name sh
        \<and> (\<exists>t \<in> set texs. from_node (fst c) = node_name t
              \<and> (node_type t = ''TEX_IMAGE'' \<longrightarrow>
                    from_socket (fst c) = 0 \<or> (from_socket (fst c) = 1 \<and> a)))"
    "\<forall>t \<in> set texs. node_type t = ''TEX_IMAGE'' \<and> \<not> a \<longrightarrow>
        length (filter (\<lambda>c. from_node (fst c) = node_name t) new2) \<le> 1"
    by blast
  have c1: "calls s' = calls s @ (new1 @ new2)" using n1(1) n2(1) by simp
  have c2: "\<forall>c \<in> set (new1 @ new2). to_node (fst c) = node_name sh
        \<and> (\<exists>t \<in> set (tex # texs). from_node (fst c) = node_name t
              \<and> (node_type t = ''TEX_IMAGE'' \<longrightarrow>
                    from_socket (fst c) = 0 \<or> (from_socket (fst c) = 1 \<and> a)))"
  proof
    fix c assume "c \<in> set (new1 @ new2)"
    then consider "c \<in> set new1" | "c \<in> set new2" by auto
    then show "to_node (fst c) = node_name sh
        \<and> (\<exists>t \<in> set (tex # texs). from_node (fst c) = node_name t
              \<and> (node_type t = ''TEX_IMAGE'' \<longrightarrow>
                    from_socket (fst c) = 0 \<or> (from_socket (fst c) = 1 \<and> a)))"
    proof cases
      case 1
      then show ?thesis using n1(2,3) by auto
    next
      case 2
      then show ?thesis using n2(2) by auto
    qed
  qed
  have c3: "\<forall>t \<in> set (tex # texs). node_type t = ''TEX_IMAGE'' \<and> \<not> a \<longrightarrow>
        length (filter (\<lambda>c. from_node (fst c) = node_name t) (new1 @ new2)) \<le> 1"
  proof (intro ballI impI)
    fix t assume t: "t \<in> set (tex # texs)" and ia: "node_type t = ''TEX_IMAGE'' \<and> \<not> a"
    show "length (filter (\<lambda>c. from_node (fst c) = node_name t) (new1 @ new2)) \<le> 1"
    proof (cases "t = tex")
      case True
      have "filter (\<lambda>c. from_node (fst c) = node_name t) new2 = []"
      proof -
        have "\<forall>c \<in> set new2. from_node (fst c) \<noteq> node_name tex"
          using n2(2) nt by (metis imageI)
        then show ?thesis using True by (simp add: filter_empty_conv)
      qed
      moreover have "length new1 \<le> 1" using n1(3) ia True by simp
      then have "length (filter (\<lambda>c. from_node (fst c) = node_name t) new1) \<le> 1"
        using length_filter_le[of "\<lambda>c. from_node (fst c) = node_name t" new1] by linarith
      ultimately show ?thesis by simp
    next
      case False
      then have tt: "t \<in> set texs" using t by simp
      then have "node_name t \<noteq> node_name tex" using nt by (metis imageI)
      then have "filter (\<lambda>c. from_node (fst c) = node_name t) new1 = []"
        using n1(2) by (simp add: filter_empty_conv)
      then show ?thesis using n2(3) tt ia by simp
    qed
  qed
  from c1 c2 c3 show ?case by blast
qed

lemma foldl_textures_to_shader_calls:
  assumes "distinct (map node_name texs)" and "distinct (map node_name shs)"
    and "foldl (textures_to_shader h texs) s shs = s'"
  shows "\<exists>new. calls s' = calls s @ new
           \<and> (\<forall>c \<in> set new. \<exists>sh \<in> set shs. \<exists>t \<in> set texs.
                 to_node (fst c) = node_name sh \<and> from_node (fst c) = node_name t
                 \<and> (node_type t = ''TEX_IMAGE'' \<longrightarrow>
                       from_socket (fst c) = 0
                       \<or> (from_socket (fst c) = 1 \<and> has_alpha_input h (inputs sh))))
           \<and> (\<forall>sh \<in> set shs. \<forall>t \<in> set texs.
                 node_type t = ''TEX_IMAGE'' \<and> \<not> has_alpha_input h (inputs sh) \<longrightarrow>
                 length (filter (\<lambda>c. from_node (fst c) = node_name t
                                      \<and> to_node (fst c) = node_name sh) new) \<le> 1)"
  using assms(2,3)
proof (induction shs arbitrary: s)
  case Nil
  then show ?case by simp
next
  case (Cons sh shs)
  let ?a = "has_alpha_input h (inputs sh)"
  obtain s1 c1 where st: "foldl (connect_texture h sh ?a) (s, []) texs = (s1, c1)"
    by (cases "foldl (connect_texture h sh ?a) (s, []) texs")
  then have ts: "textures_to_shader h texs s sh = s1" by (simp add: textures_to_shader_def)
  from foldl_connect_texture_calls[OF assms(1) st] obtain new1 where n1:
    "calls s1 = calls s @ new1"
    "\<forall>c \<in> set new1. to_node (fst c) = node_name sh
        \<and> (\<exists>t \<in> set texs. from_node (fst c) = node_name t
              \<and> (node_type t = ''TEX_IMAGE'' \<longrightarrow>
                    from_socket (fst c) = 0 \<or> (from_socket (fst c) = 1 \<and> ?a)))"
    "\<forall>t \<in> set texs. node_type t = ''TEX_IMAGE'' \<and> \<not> ?a \<longrightarrow>
        length (filter (\<lambda>c. from_node (fst c) = node_name t) new1) \<le> 1"
    by blast
  have d: "distinct (map node_name shs)" and nt: "node_name sh \<notin> node_name ` set shs"
    using Cons.prems(1) by auto
  have f: "foldl (textures_to_shader h texs) s1 shs = s'"
    using Cons.prems(2) ts by simp
  from Cons.IH[OF d f] obtain new2 where n2:
    "calls s' = calls s1 @ new2"
    "\<forall>c \<in> set new2. \<exists>x \<in> set shs. \<exists>t \<in> set texs.
        to_node (fst c) = node_name x \<and> from_node (fst c) = node_name t
        \<and> (node_type t = ''TEX_IMAGE'' \<longrightarrow>
              from_socket (fst c) = 0 \<or> (from_socket (fst c) = 1 \<and> has_alpha_input h (inputs x)))"
    "\<forall>x \<in> set shs. \<forall>t \<in> set texs.
        node_type t = ''TEX_IMAGE'' \<and> \<not> has_alpha_input h (inputs x) \<longrightarrow>
        length (filter (\<lambda>c. from_node (fst c) = node_name t \<and> to_node (fst c) = node_name x) new2) \<le> 1"
    by blast
  have c1: "calls s' = calls s @ (new1 @ new2)" using n1(1) n2(1) by simp
  have c2: "\<forall>c \<in> set (new1 @ new2). \<exists>x \<in> set (sh # shs). \<exists>t \<in> set texs.
        to_node (fst c) = node_name x \<and> from_node (fst c) = node_name t
        \<and> (node_type t = ''TEX_IMAGE'' \<longrightarrow>
              from_socket (fst c) = 0 \<or> (from_socket (fst c) = 1 \<and> has_alpha_input h (inputs x)))"
  proof
    fix c assume "c \<in> set (new1 @ new2)"
    then consider "c \<in> set new1" | "c \<in> set new2" by auto
    then show "\<exists>x \<in> set (sh # shs). \<exists>t \<in> set texs.
        to_node (fst c) = node_name x \<and> from_node (fst c) = node_name t
        \<and> (node_type t = ''TEX_IMAGE'' \<longrightarrow>
              from_socket (fst c) = 0 \<or> (from_socket (fst c) = 1 \<and> has_alpha_input h (inputs x)))"
    proof cases
      case 1
      with n1(2) obtain t where "t \<in> set texs" "to_node (fst c) = node_name sh"
        "from_node (fst c) = node_name t"
        "node_type t = ''TEX_IMAGE'' \<longrightarrow> from_socket (fst c) = 0 \<or> (from_socket (fst c) = 1 \<and> ?a)"
        by blast
      then show ?thesis by auto
    next
      case 2
      with n2(2) obtain x t where "x \<in> set shs" "t \<in> set texs" "to_node (fst c) = node_name x"
        "from_node (fst c) = node_name t"
        "node_type t = ''TEX_IMAGE'' \<longrightarrow>
           from_socket (fst c) = 0 \<or> (from_socket (fst c) = 1 \<and> has_alpha_input h (inputs x))"
        by blast
      then show ?thesis by auto
    qed
  qed
  have c3: "\<forall>x \<in> set (sh # shs). \<forall>t \<in> set texs.
        node_type t = ''TEX_IMAGE'' \<and> \<not> has_alpha_input h (inputs x) \<longrightarrow>
        length (filter (\<lambda>c. from_node (fst c) = node_name t \<and> to_node (fst c) = node_name x)
                  (new1 @ new2)) \<le> 1"
  proof (intro ballI impI)
    fix x t assume x: "x \<in> set (sh # shs)" and t: "t \<in> set texs"
      and ia: "node_type t = ''TEX_IMAGE'' \<and> \<not> has_alpha_input h (inputs x)"
    let ?P = "\<lambda>c. from_node (fst c) = node_name t \<and> to_node (fst c) = node_name x"
    show "length (filter ?P (new1 @ new2)) \<le> 1"
    proof (cases "x = sh")
      case True
      have "\<forall>c \<in> set new2. to_node (fst c) \<noteq> node_name sh"
        using n2(2) nt by (metis imageI)
      then have e: "filter ?P new2 = []" using True by (simp add: filter_empty_conv)
      have "filter ?P new1 = filter (\<lambda>c. from_node (fst c) = node_name t) new1"
        using n1(2) True by (auto intro: filter_cong)
      moreover have "length (filter (\<lambda>c. from_node (fst c) = node_name t) new1) \<le> 1"
        using n1(3) t ia True by blast
      ultimately show ?thesis using e by simp
    next
      case False
      then have xx: "x \<in> set shs" using x by simp
      then have "node_name x \<noteq> node_name sh" using nt by (metis imageI)
      then have "filter ?P new1 = []" using n1(2) by (simp add: filter_empty_conv)
      then show ?thesis using n2(3) xx t ia by simp
    qed
  qed
  from c1 c2 c3 show ?case by blast
qed

lemma distinct_name_eq:
  "distinct (map node_name ns) \<Longrightarrow> x \<in> set ns \<Longrightarrow> y \<in> set ns \<Longrightarrow> node_name x = node_name y \<Longrightarrow> x = y"
  by (meson distinct_map inj_onD)

lemma texture_pass_calls:
  assumes dn: "distinct (map node_name (nodes g))"
  shows "\<exists>new. calls (texture_pass h g s) = calls s @ new
           \<and> (\<forall>c \<in> set new. \<forall>t \<in> set (nodes g). \<forall>x \<in> set (nodes g).
                 node_type t = ''TEX_IMAGE'' \<and> from_node (fst c) = node_name t
                 \<and> to_node (fst c) = node_name x \<longrightarrow>
                 from_socket (fst c) = 0 \<or> (from_socket (fst c) = 1 \<and> has_alpha_input h (inputs x)))
           \<and> (\<forall>t \<in> set (nodes g). \<forall>x \<in> set (nodes g).
                 node_type t = ''TEX_IMAGE'' \<and> \<not> has_alpha_input h (inputs x) \<longrightarrow>
                 length (filter (\<lambda>c. from_node (fst c) = node_name t
                                      \<and> to_node (fst c) = node_name x) new) \<le> 1)"
proof (cases "auto_shader_nodes h g \<noteq> [] \<and> auto_texture_nodes g \<noteq> []")
  case False
  then have "texture_pass h g s = s" by (auto simp: texture_pass_def)
  then show ?thesis by simp
next
  case True
  let ?shs = "auto_shader_nodes h g" and ?texs = "auto_texture_nodes g"
  have tp: "texture_pass h g s = foldl (textures_to_shader h ?texs) s ?shs"
    using True by (simp add: texture_pass_def)
  have d1: "distinct (map node_name ?texs)" "distinct (map node_name ?shs)"
    using dn by (simp_all add: auto_texture_nodes_def auto_shader_nodes_def distinct_map_filter)
  have sub: "set ?texs \<subseteq> set (nodes g)" "set ?shs \<subseteq> set (nodes g)"
    by (auto simp: auto_texture_nodes_def auto_shader_nodes_def)
  from foldl_textures_to_shader_calls[OF d1 tp[symmetric]] obtain new where n:
    "calls (texture_pass h g s) = calls s @ new"
    "\<forall>c \<in> set new. \<exists>sh \<in> set ?shs. \<exists>t \<in> set ?texs.
        to_node (fst c) = node_name sh \<and> from_node (fst c) = node_name t
        \<and> (node_type t = ''TEX_IMAGE'' \<longrightarrow>
              from_socket (fst c) = 0 \<or> (from_socket (fst c) = 1 \<and> has_alpha_input h (inputs sh)))"
    "\<forall>sh \<in> set ?shs. \<forall>t \<in> set ?texs.
        node_type t = ''TEX_IMAGE'' \<and> \<not> has_alpha_input h (inputs sh) \<longrightarrow>
        length (filter (\<lambda>c. from_node (fst c) = node_name t \<and> to_node (fst c) = node_name sh) new) \<le> 1"
    by blast
  have p2: "\<forall>c \<in> set new. \<forall>t \<in> set (nodes g). \<forall>x \<in> set (nodes g).
                 node_type t = ''TEX_IMAGE'' \<and> from_node (fst c) = node_name t
                 \<and> to_node (fst c) = node_name x \<longrightarrow>
                 from_socket (fst c) = 0 \<or> (from_socket (fst c) = 1 \<and> has_alpha_input h (inputs x))"
  proof (intro ballI impI)
    fix c t x assume c: "c \<in> set new" and t: "t \<in> set (nodes g)" and x: "x \<in> set (nodes g)"
      and a: "node_type t = ''TEX_IMAGE'' \<and> from_node (fst c) = node_name t
                 \<and> to_node (fst c) = node_name x"
    from n(2) c obtain sh t' where st: "sh \<in> set ?shs" "t' \<in> set ?texs"
      "to_node (fst c) = node_name sh" "from_node (fst c) = node_name t'"
      "node_type t' = ''TEX_IMAGE'' \<longrightarrow>
         from_socket (fst c) = 0 \<or> (from_socket (fst c) = 1 \<and> has_alpha_input h (inputs sh))"
      by blast
    have "t' = t" using distinct_name_eq[OF dn _ t] st(2,4) a sub(1) by auto
    moreover have "sh = x" using distinct_name_eq[OF dn _ x] st(1,3) a sub(2) by auto
    ultimately show "from_socket (fst c) = 0 \<or> (from_socket (fst c) = 1 \<and> has_alpha_input h (inputs x))"
      using st(5) a by simp
  qed
  have p3: "\<forall>t \<in> set (nodes g). \<forall>x \<in> set (nodes g).
                 node_type t = ''TEX_IMAGE'' \<and> \<not> has_alpha_input h (inputs x) \<longrightarrow>
                 length (filter (\<lambda>c. from_node (fst c) = node_name t
                                      \<and> to_node (fst c) = node_name x) new) \<le> 1"
  proof (intro ballI impI)
    fix t x assume t: "t \<in> set (nodes g)" and x: "x \<in> set (nodes g)"
      and a: "node_type t = ''TEX_IMAGE'' \<and> \<not> has_alpha_input h (inputs x)"
    let ?P = "\<lambda>c. from_node (fst c) = node_name t \<and> to_node (fst c) = node_name x"
    show "length (filter ?P new) \<le> 1"
    proof (cases "x \<in> set ?shs \<and> t \<in> set ?texs")
      case True
      then show ?thesis using n(3) a by blast
    next
      case False
      have "\<forall>c \<in> set new. \<not> ?P c"
      proof (intro ballI notI)
        fix c assume c: "c \<in> set new" and pc: "?P c"
        from n(2) c obtain sh t' where st: "sh \<in> set ?shs" "t' \<in> set ?texs"
          "to_node (fst c) = node_name sh" "from_node (fst c) = node_name t'"
          by blast
        have "t' = t" using distinct_name_eq[OF dn _ t] st(2,4) pc sub(1) by auto
        moreover have "sh = x" using distinct_name_eq[OF dn _ x] st(1,3) pc sub(2) by auto
        ultimately show False using False st(1,2) by simp
      qed
      then have "filter ?P new = []" by (simp add: filter_empty_conv)
      then show ?thesis by simp
    qed
  qed
  from n(1) p2 p3 show ?thesis by blast
qed

text \<open>
  C5. In the texture-to-shader pass, for an image-texture node and a shader node of a
  graph (node names are unique): when no input of the shader node is classified ALPHA,
  the pass calls \<open>links.new\<close> at most once from that texture to that shader, and only
  from the texture's first output (the colour link), never from its second (alpha)
  output; and whatever the shader node, a call from the texture's second output to it
  is made only when the shader has an input classified ALPHA. This holds for every
  number of outputs of the texture, so for two.
\<close>

theorem texture_pass_alpha_gating:
  assumes "distinct (map node_name (nodes g))"
    and "tex \<in> set (nodes g)" and "node_type tex = ''TEX_IMAGE''"
    and "sh \<in> set (nodes g)"
  shows "\<exists>new. calls (texture_pass h g s) = calls s @ new
     \<and> (\<not> has_alpha_input h (inputs sh) \<longrightarrow>
           length (filter (\<lambda>c. from_node (fst c) = node_name tex
                                \<and> to_node (fst c) = node_name sh) new) \<le> 1
           \<and> (\<forall>c \<in> set new. from_node (fst c) = node_name tex
                   \<and> to_node (fst c) = node_name sh \<longrightarrow> from_socket (fst c) = 0))
     \<and> (\<forall>c \<in> set new. from_node (fst c) = node_name tex \<and> to_node (fst c) = node_name sh
             \<and> from_socket (fst c) = 1 \<longrightarrow> has_alpha_input h (inputs sh))"
proof -
  from texture_pass_calls[OF assms(1), of h s] obtain new where n:
    "calls (texture_pass h g s) = calls s @ new"
    "\<forall>c \<in> set new. \<forall>t \<in> set (nodes g). \<forall>x \<in> set (nodes g).
        node_type t = ''TEX_IMAGE'' \<and> from_node (fst c) = node_name t
        \<and> to_node (fst c) = node_name x \<longrightarrow>
        from_socket (fst c) = 0 \<or> (from_socket (fst c) = 1 \<and> has_alpha_input h (inputs x))"
    "\<forall>t \<in> set (nodes g). \<forall>x \<in> set (nodes g).
        node_type t = ''TEX_IMAGE'' \<and> \<not> has_alpha_input h (inputs x) \<longrightarrow>
        length (filter (\<lambda>c. from_node (fst c) = node_name t
                             \<and> to_node (fst c) = node_name x) new) \<le> 1"
    by blast
  have k: "\<forall>c \<in> set new. from_node (fst c) = node_name tex \<and> to_node (fst c) = node_name sh \<longrightarrow>
        from_socket (fst c) = 0 \<or> (from_socket (fst c) = 1 \<and> has_alpha_input h (inputs sh))"
    using n(2) assms(2,3,4) by blast
  have a: "\<not> has_alpha_input h (inputs sh) \<longrightarrow>
           length (filter (\<lambda>c. from_node (fst c) = node_name tex
                                \<and> to_node (fst c) = node_name sh) new) \<le> 1
           \<and> (\<forall>c \<in> set new. from_node (fst c) = node_name tex
                   \<and> to_node (fst c) = node_name sh \<longrightarrow> from_socket (fst c) = 0)"
    using n(3) assms(2,3,4) k by blast
  have b: "\<forall>c \<in> set new. from_node (fst c) = node_name tex \<and> to_node (fst c) = node_name sh
             \<and> from_socket (fst c) = 1 \<longrightarrow> has_alpha_input h (inputs sh)"
    using k by auto
  from n(1) a b show ?thesis by blast
qed


theorem texture_pass_alpha_gating_witness:
  "distinct (map node_name (nodes m1_graph))
   \<and> ex_image \<in> set (nodes m1_graph) \<and> node_type ex_image = ''TEX_IMAGE''
   \<and> length (outputs ex_image) = 2
   \<and> ex_diffuse \<in> set (nodes m1_graph)
   \<and> \<not> has_alpha_input ascii_env (inputs ex_diffuse)
   \<and> calls (texture_pass ascii_env m1_graph (fresh_state m1_graph))
       = [(mk_link ''Image Texture'' 0 ''Diffuse BSDF'' 0, True)]
   \<and> length (filter (\<lambda>c. from_node (fst c) = node_name ex_image
                          \<and> to_node (fst c) = node_name ex_diffuse)
               (calls (texture_pass ascii_env m1_graph (fresh_state m1_graph)))) \<le> 1"
proof -
  have d: "distinct (map node_name (nodes m1_graph))"
    by (simp add: m1_graph_def ex_node_defs)
  have m: "ex_image \<in> set (nodes m1_graph)" "ex_diffuse \<in> set (nodes m1_graph)"
    by (simp_all add: m1_graph_def)
  have ty: "node_type ex_image = ''TEX_IMAGE''" "length (outputs ex_image) = 2"
    by (simp_all add: ex_node_defs)
  have e1: "auto_shader_nodes ascii_env m1_graph = [ex_diffuse]"
    by (simp add: m1_graph_def auto_shader_nodes_def ex_node_defs table_defs)
  have e2: "auto_texture_nodes m1_graph = [ex_image]"
    by (simp add: m1_graph_def auto_texture_nodes_def is_texture_node_def ex_node_defs table_defs)
  have e3: "\<not> has_alpha_input ascii_env (inputs ex_diffuse)"
    by (simp add: ex_node_defs eval_simps)
  have e4: "color_target_input ascii_env color_keywords [] (inputs ex_diffuse) = Some 0"
    by (simp add: ex_node_defs color_keywords_def lowest_match_def matching_inputs_def eval_simps)
  have e5: "calls (texture_pass ascii_env m1_graph (fresh_state m1_graph))
      = [(mk_link ''Image Texture'' 0 ''Diffuse BSDF'' 0, True)]"
    apply (simp add: texture_pass_def e1 e2 textures_to_shader_def connect_texture_def e3 e4)
    apply (simp add: ex_node_defs try_link_def links_new_def ascii_env_def fresh_state_def)
    done
  have c0: "calls (fresh_state m1_graph) = []" by (simp add: fresh_state_def)
  from texture_pass_alpha_gating[OF d m(1) ty(1) m(2), of ascii_env "fresh_state m1_graph"] e3
  obtain new where "calls (texture_pass ascii_env m1_graph (fresh_state m1_graph))
        = calls (fresh_state m1_graph) @ new"
    "length (filter (\<lambda>c. from_node (fst c) = node_name ex_image
                          \<and> to_node (fst c) = node_name ex_diffuse) new) \<le> 1"
    by blast
  then have "length (filter (\<lambda>c. from_node (fst c) = node_name ex_image
                          \<and> to_node (fst c) = node_name ex_diffuse)
               (calls (texture_pass ascii_env m1_graph (fresh_state m1_graph)))) \<le> 1"
    by (simp add: c0)
  with d m ty e3 e5 show ?thesis by blast
qed

section \<open>The reconnect operator\<close>

lemma reconnect_material_world:
  "fst (reconnect_material h hs ws mat)
     = set_node_tree (fst ws) mat (mat_node_tree (the (materials (fst (reconnect_material h hs ws mat)) (mat_name mat))))"
  by (auto simp: reconnect_material_def set_node_tree_def Let_def split: prod.splits)

lemma reconnect_material_wf:
  assumes "wf_world (fst ws)" "materials (fst ws) nm = Some mat"
  shows "wf_world (fst (reconnect_material h hs ws mat))"
proof -
  have "mat_name mat = nm" using assms by (auto simp: wf_world_def)
  obtain g where "fst (reconnect_material h hs ws mat) = set_node_tree (fst ws) mat g"
    using reconnect_material_world by blast
  then show ?thesis using assms(1) \<open>mat_name mat = nm\<close>
    by (auto simp: wf_world_def set_node_tree_def)
qed

lemma reconnect_slot_cases:
  assumes "wf_world (fst ws)"
  shows "reconnect_slot h hs (ws, pm) slot = (ws, pm)
       \<or> (\<exists>nm mat. slot = Some nm \<and> nm \<notin> set pm \<and> materials (fst ws) nm = Some mat
             \<and> reconnect_slot h hs (ws, pm) slot = (process_named h hs ws nm, pm @ [nm]))"
proof (cases "slot_material (fst ws) slot")
  case None
  then show ?thesis by (simp add: reconnect_slot_def)
next
  case (Some mat)
  then obtain nm where nm: "slot = Some nm" "materials (fst ws) nm = Some mat"
    by (auto simp: slot_material_def split: option.splits)
  then have mn: "mat_name mat = nm" using assms by (auto simp: wf_world_def)
  show ?thesis
    using Some nm mn by (auto simp: reconnect_slot_def process_named_def Let_def)
qed

lemma reconnect_loop:
  assumes "wf_world (fst ws)" "distinct pm"
    and "foldl (reconnect_slot h hs) (ws, pm) slots = (ws', pm')"
  shows "\<exists>new. pm' = pm @ new \<and> distinct (pm @ new)
           \<and> ws' = foldl (process_named h hs) ws new
           \<and> set new \<subseteq> {nm. Some nm \<in> set slots}"
  using assms
proof (induction slots arbitrary: ws pm)
  case Nil
  then show ?case by simp
next
  case (Cons slot slots)
  from reconnect_slot_cases[OF Cons.prems(1), of h hs pm slot]
  consider (skip) "reconnect_slot h hs (ws, pm) slot = (ws, pm)"
    | (run) nm mat where "slot = Some nm" "nm \<notin> set pm" "materials (fst ws) nm = Some mat"
        "reconnect_slot h hs (ws, pm) slot = (process_named h hs ws nm, pm @ [nm])"
    by blast
  then show ?case
  proof cases
    case skip
    then have "foldl (reconnect_slot h hs) (ws, pm) slots = (ws', pm')"
      using Cons.prems(3) by simp
    from Cons.IH[OF Cons.prems(1,2) this] show ?thesis by auto
  next
    case run
    let ?ws1 = "process_named h hs ws nm"
    have w1: "wf_world (fst ?ws1)"
      using run(3) reconnect_material_wf[OF Cons.prems(1) run(3)] by (simp add: process_named_def)
    have d1: "distinct (pm @ [nm])" using Cons.prems(2) run(2) by simp
    have f: "foldl (reconnect_slot h hs) (?ws1, pm @ [nm]) slots = (ws', pm')"
      using Cons.prems(3) run(4) by simp
    from Cons.IH[OF w1 d1 f] obtain new where n:
      "pm' = (pm @ [nm]) @ new" "distinct ((pm @ [nm]) @ new)"
      "ws' = foldl (process_named h hs) ?ws1 new" "set new \<subseteq> {nm. Some nm \<in> set slots}"
      by blast
    have "pm' = pm @ (nm # new)" using n(1) by simp
    moreover have "distinct (pm @ (nm # new))" using n(2) by simp
    moreover have "ws' = foldl (process_named h hs) ws (nm # new)" using n(3) by simp
    moreover have "set (nm # new) \<subseteq> {nm. Some nm \<in> set (slot # slots)}"
      using n(4) run(1) by auto
    ultimately show ?thesis by blast
  qed
qed

text \<open>
  C10. One run of the reconnect operator processes each material at most once: there is
  a list of pairwise different material names, all of them names in slots of the selected
  mesh objects, such that the run's result (the world and the three counts it reports) is
  exactly that of processing the materials of these names one after the other, each once
  (auto-connection when enabled, every rule, the restoration from the snapshot), however
  many objects or slots hold a material.
\<close>

theorem reconnect_processes_each_material_once:
  assumes "wf_world w" and "selected_objects ctx \<noteq> []"
  shows "\<exists>pm w' a c r. distinct pm
           \<and> set pm \<subseteq> {nm. Some nm \<in> set (mesh_slots (selected_objects ctx))}
           \<and> (w', a, c, r) = foldl (process_named h (connection_snapshot (scene_props w) \<noteq> []))
                                (w, 0, 0, 0) pm
           \<and> reconnect_execute h ctx w
               = ((FINISHED, INFO,
                   Reconnected (connection_snapshot (scene_props w) \<noteq> [])
                     (auto_connect (scene_props w)) a c r), w')"
proof -
  let ?hs = "connection_snapshot (scene_props w) \<noteq> []"
  obtain ws' pm where f: "foldl (reconnect_slot h ?hs) ((w, 0, 0, 0), [])
                 (mesh_slots (selected_objects ctx)) = (ws', pm)"
    by (cases "foldl (reconnect_slot h ?hs) ((w, 0, 0, 0), []) (mesh_slots (selected_objects ctx))")
  obtain w' a c r where ws': "ws' = (w', a, c, r)" by (cases ws') auto
  have "wf_world (fst (w, 0::nat, 0::nat, 0::nat))" using assms(1) by simp
  from reconnect_loop[OF this _ f] have
    d: "distinct pm" and e: "ws' = foldl (process_named h ?hs) (w, 0, 0, 0) pm"
    and s: "set pm \<subseteq> {nm. Some nm \<in> set (mesh_slots (selected_objects ctx))}"
    by auto
  have "reconnect_execute h ctx w
               = ((FINISHED, INFO, Reconnected ?hs (auto_connect (scene_props w)) a c r), w')"
    using assms(2) f ws' by (simp add: reconnect_execute_def Let_def)
  with d e s ws' show ?thesis by metis
qed

theorem reconnect_processes_each_material_once_witness:
  "wf_world (m1_world (default_props\<lparr>auto_connect := False\<rparr>))
   \<and> selected_objects shared_context \<noteq> []
   \<and> mesh_slots (selected_objects shared_context) = [Some ''M1'', Some ''M1'', Some ''M1'']
   \<and> snd (foldl (reconnect_slot host_env False)
             ((m1_world (default_props\<lparr>auto_connect := False\<rparr>), 0, 0, 0), [])
             (mesh_slots (selected_objects shared_context))) = [''M1'']
   \<and> (\<exists>pm w' a c r. distinct pm
         \<and> (w', a, c, r) = foldl (process_named host_env False)
                              (m1_world (default_props\<lparr>auto_connect := False\<rparr>), 0, 0, 0) pm
         \<and> reconnect_execute host_env shared_context
               (m1_world (default_props\<lparr>auto_connect := False\<rparr>))
             = ((FINISHED, INFO, Reconnected False False a c r), w'))"
proof -
  let ?w = "m1_world (default_props\<lparr>auto_connect := False\<rparr>)"
  have wf: "wf_world ?w" by (simp add: wf_world_def m1_world_def)
  have so: "selected_objects shared_context \<noteq> []" by (simp add: shared_context_def)
  have ms: "mesh_slots (selected_objects shared_context) = [Some ''M1'', Some ''M1'', Some ''M1'']"
    by (simp add: shared_context_def mesh_slots_def)
  have sp: "connection_snapshot (scene_props ?w) = []" "auto_connect (scene_props ?w) = False"
    "connection_rules (scene_props ?w) = []"
    by (simp_all add: m1_world_def default_props_def)
  have run: "snd (foldl (reconnect_slot host_env False) ((?w, 0, 0, 0), [])
                    (mesh_slots (selected_objects shared_context))) = [''M1'']"
    unfolding ms
    by (simp add: reconnect_slot_def slot_material_def should_process_def reconnect_material_def
        set_node_tree_def m1_world_def default_props_def Let_def)
  from reconnect_processes_each_material_once[OF wf so, of host_env]
  obtain pm w' a c r where "distinct pm"
    "(w', a, c, r) = foldl (process_named host_env (connection_snapshot (scene_props ?w) \<noteq> []))
                       (?w, 0, 0, 0) pm"
    "reconnect_execute host_env shared_context ?w
       = ((FINISHED, INFO, Reconnected (connection_snapshot (scene_props ?w) \<noteq> [])
            (auto_connect (scene_props ?w)) a c r), w')"
    by blast
  then have "\<exists>pm w' a c r. distinct pm
         \<and> (w', a, c, r) = foldl (process_named host_env False) (?w, 0, 0, 0) pm
         \<and> reconnect_execute host_env shared_context ?w
             = ((FINISHED, INFO, Reconnected False False a c r), w')"
    unfolding sp by auto
  with wf so ms run show ?thesis by blast
qed

section \<open>The surface link of a replacement\<close>

lemma drives_surface_iff:
  "drives_surface g nm \<longleftrightarrow>
     (\<exists>l \<in> set (links g). \<exists>out \<in> set (nodes g). from_node l = nm
        \<and> node_type out = ''OUTPUT_MATERIAL'' \<and> to_node l = node_name out
        \<and> surface_input_of (inputs out) = Some (to_socket l))"
  by (auto simp: drives_surface_def list_ex_iff)

lemma links_new_nodes: "links_new h g l = Some g' \<Longrightarrow> nodes g' = nodes g"
  by (auto simp: links_new_def split: if_splits)

lemma links_new_mem: "links_new h g l = Some g' \<Longrightarrow> l \<in> set (links g')"
  by (auto simp: links_new_def split: if_splits)

lemma links_new_keeps:
  "links_new h g l = Some g' \<Longrightarrow> k \<in> set (links g) \<Longrightarrow>
     \<not> (to_node k = to_node l \<and> to_socket k = to_socket l) \<Longrightarrow> k \<in> set (links g')"
  by (auto simp: links_new_def split: if_splits)

lemma links_new_preserves:
  assumes "drives_surface g nm" "links_new h g l = Some g'" "from_node l = nm"
  shows "drives_surface g' nm"
proof -
  from assms(1) obtain k out where k: "k \<in> set (links g)" "out \<in> set (nodes g)"
    "from_node k = nm" "node_type out = ''OUTPUT_MATERIAL''" "to_node k = node_name out"
    "surface_input_of (inputs out) = Some (to_socket k)"
    unfolding drives_surface_iff by blast
  have n: "nodes g' = nodes g" using links_new_nodes[OF assms(2)] .
  show ?thesis
  proof (cases "to_node k = to_node l \<and> to_socket k = to_socket l")
    case True
    have "l \<in> set (links g')" using links_new_mem[OF assms(2)] .
    then show ?thesis unfolding drives_surface_iff n using k True assms(3) by metis
  next
    case False
    have "k \<in> set (links g')" using links_new_keeps[OF assms(2) k(1) False] .
    then show ?thesis unfolding drives_surface_iff n using k by blast
  qed
qed

lemma links_new_creates:
  assumes "links_new h g l = Some g'" "from_node l = nm" "out \<in> set (nodes g)"
    "node_type out = ''OUTPUT_MATERIAL''" "to_node l = node_name out"
    "surface_input_of (inputs out) = Some (to_socket l)"
  shows "drives_surface g' nm"
  unfolding drives_surface_iff links_new_nodes[OF assms(1)]
  using links_new_mem[OF assms(1)] assms(2-6) by blast

lemma safe_link_cases:
  "safe_link h g l = (ok, g') \<Longrightarrow> (ok \<and> links_new h g l = Some g') \<or> (\<not> ok \<and> g' = g)"
  by (auto simp: safe_link_def split: option.splits)

lemma nodes_get_mem: "nodes_get g nm = Some n \<Longrightarrow> n \<in> set (nodes g) \<and> node_name n = nm"
  unfolding nodes_get_def by (metis (mono_tags, lifting) find_Some_iff nth_mem)

lemma mk_link_sel [simp]:
  "from_node (mk_link a b c d) = a" "from_socket (mk_link a b c d) = b"
  "to_node (mk_link a b c d) = c" "to_socket (mk_link a b c d) = d"
  by (simp_all add: mk_link_def)

lemma reconnect_output_inv:
  assumes "reconnect_output h new (g, co, flag) sc = (g', co', flag')"
    and "flag \<longrightarrow> drives_surface g (node_name new)"
  shows "(flag' \<longrightarrow> drives_surface g' (node_name new)) \<and> nodes g' = nodes g"
proof -
  obtain socket_name conn where sc: "sc = (socket_name, conn)" by (cases sc)
  show ?thesis
  proof (cases "nodes_get g (oc_to_node conn)")
    case None
    with assms sc show ?thesis by (simp add: reconnect_output_def)
  next
    case (Some tn)
    then have tn: "tn \<in> set (nodes g)" using nodes_get_mem by blast
    let ?special = "(if node_type tn = ''OUTPUT_MATERIAL'' \<and> \<not> flag
                   then (case find_shader_output (outputs new) of
                           None \<Rightarrow> None
                         | Some source_socket \<Rightarrow>
                           (case surface_input_of (inputs tn) of
                              None \<Rightarrow> None
                            | Some surface_input \<Rightarrow> Some (source_socket, surface_input)))
                   else None)"
    show ?thesis
    proof (cases ?special)
      case (Some pr)
      obtain ss si where pr: "pr = (ss, si)" by (cases pr)
      from Some pr have sp: "node_type tn = ''OUTPUT_MATERIAL''" "\<not> flag"
        "surface_input_of (inputs tn) = Some si"
        by (auto split: if_splits option.splits)
      obtain ok g1 where sl: "safe_link h g (mk_link (node_name new) ss (node_name tn) si) = (ok, g1)"
        by (cases "safe_link h g (mk_link (node_name new) ss (node_name tn) si)")
      have res: "(g', co', flag') = (if ok then (g1, co @ [ss], True) else (g, co, flag))"
        using assms(1) sc \<open>nodes_get g (oc_to_node conn) = Some tn\<close> Some pr sl
        by (simp add: reconnect_output_def Let_def)
      from safe_link_cases[OF sl] show ?thesis
      proof
        assume a: "ok \<and> links_new h g (mk_link (node_name new) ss (node_name tn) si) = Some g1"
        then have ln: "links_new h g (mk_link (node_name new) ss (node_name tn) si) = Some g1"
          by simp
        have "drives_surface g1 (node_name new)"
          by (rule links_new_creates[OF ln _ tn sp(1)]) (simp_all add: sp(3))
        moreover have "nodes g1 = nodes g" using a links_new_nodes by blast
        ultimately show ?thesis using res a by simp
      next
        assume "\<not> ok \<and> g1 = g"
        then show ?thesis using res assms(2) by simp
      qed
    next
      case None
      show ?thesis
      proof (cases "resolve_socket (inputs tn) (oc_to_socket_index conn) (oc_to_socket conn)")
        case n1: None
        then show ?thesis
          using assms sc \<open>nodes_get g (oc_to_node conn) = Some tn\<close> None
          by (simp add: reconnect_output_def Let_def)
      next
        case (Some ts)
        show ?thesis
        proof (cases "find_best_output_socket h (outputs new) socket_name (oc_from_socket_type conn)")
          case n2: None
          then show ?thesis
            using assms sc \<open>nodes_get g (oc_to_node conn) = Some tn\<close> None Some
            by (simp add: reconnect_output_def Let_def)
        next
          case s2: (Some ss)
          obtain ok g1 where sl: "safe_link h g (mk_link (node_name new) ss (node_name tn) ts) = (ok, g1)"
            by (cases "safe_link h g (mk_link (node_name new) ss (node_name tn) ts)")
          have res: "(g', co', flag') = (if ok then (g1, co @ [ss], flag) else (g, co, flag))"
            using assms(1) sc \<open>nodes_get g (oc_to_node conn) = Some tn\<close> None Some s2 sl
            by (simp add: reconnect_output_def Let_def)
          from safe_link_cases[OF sl] show ?thesis
          proof
            assume a: "ok \<and> links_new h g (mk_link (node_name new) ss (node_name tn) ts) = Some g1"
            then have ln: "links_new h g (mk_link (node_name new) ss (node_name tn) ts) = Some g1"
              by simp
            have "flag \<longrightarrow> drives_surface g1 (node_name new)"
            proof
              assume flag
              then have "drives_surface g (node_name new)" using assms(2) by simp
              then show "drives_surface g1 (node_name new)"
                by (rule links_new_preserves[OF _ ln]) simp
            qed
            moreover have "nodes g1 = nodes g" using a links_new_nodes by blast
            ultimately show ?thesis using res a by simp
          next
            assume "\<not> ok \<and> g1 = g"
            then show ?thesis using res assms(2) by simp
          qed
        qed
      qed
    qed
  qed
qed

lemma reconnect_outputs_inv:
  assumes "foldl (reconnect_output h new) (g, co, flag) ps = (g', co', flag')"
    and "flag \<longrightarrow> drives_surface g (node_name new)"
  shows "(flag' \<longrightarrow> drives_surface g' (node_name new)) \<and> nodes g' = nodes g"
  using assms
proof (induction ps arbitrary: g co flag)
  case Nil
  then show ?case by simp
next
  case (Cons sc ps)
  obtain g1 co1 f1 where st: "reconnect_output h new (g, co, flag) sc = (g1, co1, f1)"
    by (cases "reconnect_output h new (g, co, flag) sc") auto
  from reconnect_output_inv[OF st Cons.prems(2)]
  have i: "f1 \<longrightarrow> drives_surface g1 (node_name new)" and n: "nodes g1 = nodes g" by auto
  have "foldl (reconnect_output h new) (g1, co1, f1) ps = (g', co', flag')"
    using Cons.prems(1) st by simp
  from Cons.IH[OF this i] show ?case using n by simp
qed

lemma reconnect_input_nodes:
  "reconnect_input h new (g, ci) sc = (g', ci') \<Longrightarrow> nodes g' = nodes g"
  by (auto simp: reconnect_input_def safe_link_def links_new_def Let_def
           split: option.splits prod.splits if_splits)

lemma foldl_reconnect_input_nodes:
  "foldl (reconnect_input h new) (g, ci) ps = (g', ci') \<Longrightarrow> nodes g' = nodes g"
proof (induction ps arbitrary: g ci)
  case Nil
  then show ?case by simp
next
  case (Cons sc ps)
  obtain g1 c1 where st: "reconnect_input h new (g, ci) sc = (g1, c1)"
    by (cases "reconnect_input h new (g, ci) sc")
  then show ?case using Cons reconnect_input_nodes[OF st] by simp
qed

lemma reconnect_inputs_nodes: "nodes (fst (reconnect_inputs h new g d)) = nodes g"
  unfolding reconnect_inputs_def
  using foldl_reconnect_input_nodes[of h new g "[]" "dict_pairs d"]
  by (metis prod.collapse)

lemma find_snoc:
  "find P (xs @ [y]) = (case find P xs of Some x \<Rightarrow> Some x | None \<Rightarrow> if P y then Some y else None)"
  by (induction xs) auto

lemma find_Some_mem: "find P xs = Some x \<Longrightarrow> x \<in> set xs \<and> P x"
  by (induction xs) (auto split: if_splits)

lemma find_None_none: "find P xs = None \<Longrightarrow> x \<in> set xs \<Longrightarrow> \<not> P x"
  by (induction xs) (auto split: if_splits)

lemma surface_input_of_Some: "ins \<noteq> [] \<Longrightarrow> \<exists>i. surface_input_of ins = Some i"
  by (auto simp: surface_input_of_def split: option.splits)

lemma find_shader_output_Some: "outs \<noteq> [] \<Longrightarrow> \<exists>i. find_shader_output outs = Some i"
  by (auto simp: find_shader_output_def split: option.splits)

lemma fallback_drives:
  assumes "connect_to_material_output h new (g, flag) = (g', flag')"
    and "flag \<longrightarrow> drives_surface g (node_name new)"
    and "outputs new \<noteq> []"
    and "find (\<lambda>n. node_type n = ''OUTPUT_MATERIAL'') (nodes g) = Some outn"
    and "inputs outn \<noteq> []"
    and "\<forall>ls l. to_node l = node_name outn \<longrightarrow> link_ok h ls l"
  shows "drives_surface g' (node_name new) \<and> nodes g' = nodes g"
proof (cases flag)
  case True
  then show ?thesis using assms(1,2) by (simp add: connect_to_material_output_def)
next
  case False
  obtain ss where ss: "find_shader_output (outputs new) = Some ss"
    using find_shader_output_Some[OF assms(3)] by blast
  obtain si where si: "surface_input_of (inputs outn) = Some si"
    using surface_input_of_Some[OF assms(5)] by blast
  let ?l = "mk_link (node_name new) ss (node_name outn) si"
  have "link_ok h (links g) ?l" using assms(6) by simp
  then have ln: "links_new h g ?l = Some (g\<lparr>links :=
       filter (\<lambda>k. \<not> (to_node k = to_node ?l \<and> to_socket k = to_socket ?l)) (links g) @ [?l]\<rparr>)"
    by (simp add: links_new_def)
  then have g': "g' = g\<lparr>links :=
       filter (\<lambda>k. \<not> (to_node k = to_node ?l \<and> to_socket k = to_socket ?l)) (links g) @ [?l]\<rparr>"
    using assms(1,4) False ss si
    by (simp add: connect_to_material_output_def safe_link_def Let_def)
  have om: "outn \<in> set (nodes g)" "node_type outn = ''OUTPUT_MATERIAL''"
    using find_Some_mem[OF assms(4)] by auto
  have "drives_surface g' (node_name new)"
    by (rule links_new_creates[OF ln[folded g'] _ om]) (simp_all add: si)
  moreover have "nodes g' = nodes g" using g' by simp
  ultimately show ?thesis by simp
qed

lemma create_shader_node_new:
  assumes "create_shader_node h groups g target loc = Some (new, g2)"
  shows "nodes g2 = nodes g @ [new]" "links g2 = links g" "node_label new = target"
    "node_name new = unique_name h (map node_name (nodes g)) target"
proof -
  from assms obtain n where
    new: "new = n\<lparr>node_name := unique_name h (map node_name (nodes g)) target,
                    node_label := target, location := loc\<rparr>"
    and g2: "g2 = g\<lparr>nodes := nodes g @ [new]\<rparr>"
    by (auto simp: create_shader_node_def Let_def split: option.splits)
  show "nodes g2 = nodes g @ [new]" "links g2 = links g" using g2 by simp_all
  show "node_label new = target" "node_name new = unique_name h (map node_name (nodes g)) target"
    using new by simp_all
qed

text \<open>
  A round of the replacement loop that raised the count found the node, removed it and
  created the new one; the result is the reconnected graph, or with auto-connect off the
  graph as the creation left it.
\<close>

lemma replace_shader_happened:
  assumes "replace_shader h groups p target (g, k) old_name = (g', Suc k)"
  shows "\<exists>old_shader g1 new g2.
           nodes_get g old_name = Some old_shader
           \<and> nodes g1 = filter (\<lambda>n. node_name n \<noteq> old_name) (nodes g)
           \<and> links g1 = filter (\<lambda>l. from_node l \<noteq> old_name \<and> to_node l \<noteq> old_name) (links g)
           \<and> create_shader_node h groups g1 target (location old_shader) = Some (new, g2)
           \<and> g' = (if auto_connect p
                    then fst (connect_to_material_output h new
                           (let (ga, co, flag) =
                                  reconnect_outputs h new
                                    (fst (reconnect_inputs h new g2
                                            (foldl (capture_input_link g old_shader) [] (links g))))
                                    (foldl (capture_output_link g old_shader) [] (links g))
                            in (ga, flag)))
                    else g2)"
proof -
  from assms obtain old_shader where og: "nodes_get g old_name = Some old_shader"
    by (cases "nodes_get g old_name") (auto simp: replace_shader_def)
  obtain removed g1 where sr: "safe_remove_node h g old_name = (removed, g1)"
    by (cases "safe_remove_node h g old_name")
  have rem: removed using assms og sr by (auto simp: replace_shader_def Let_def split: if_splits)
  then have g1: "nodes g1 = filter (\<lambda>n. node_name n \<noteq> old_name) (nodes g)"
    "links g1 = filter (\<lambda>l. from_node l \<noteq> old_name \<and> to_node l \<noteq> old_name) (links g)"
    using sr by (auto simp: safe_remove_node_def nodes_remove_def split: option.splits if_splits)
  from assms og sr rem obtain new g2 where
    cr: "create_shader_node h groups g1 target (location old_shader) = Some (new, g2)"
    by (cases "create_shader_node h groups g1 target (location old_shader)")
       (auto simp: replace_shader_def Let_def)
  have "g' = (if auto_connect p
                    then fst (connect_to_material_output h new
                           (let (ga, co, flag) =
                                  reconnect_outputs h new
                                    (fst (reconnect_inputs h new g2
                                            (foldl (capture_input_link g old_shader) [] (links g))))
                                    (foldl (capture_output_link g old_shader) [] (links g))
                            in (ga, flag)))
                    else g2)"
    using assms og sr rem cr
    by (auto simp: replace_shader_def Let_def split: prod.splits)
  with og g1 cr show ?thesis by blast
qed

lemma replacement_on:
  assumes ac: "auto_connect p"
    and rs: "replace_shader h groups p target (g, k) old_name = (g', Suc k)"
    and fo: "find (\<lambda>n. node_type n = ''OUTPUT_MATERIAL'')
               (filter (\<lambda>n. node_name n \<noteq> old_name) (nodes g)) = Some out"
    and oi: "inputs out \<noteq> []"
    and no: "outputs (last (nodes g')) \<noteq> []"
    and lo: "\<forall>ls l. to_node l = node_name out \<longrightarrow> link_ok h ls l"
    and un: "\<forall>ns nm. unique_name h ns nm \<notin> set ns"
  shows "\<exists>new. nodes g' = filter (\<lambda>n. node_name n \<noteq> old_name) (nodes g) @ [new]
           \<and> node_label new = target
           \<and> node_name new \<notin> node_name ` set (filter (\<lambda>n. node_name n \<noteq> old_name) (nodes g))
           \<and> drives_surface g' (node_name new)"
proof -
  let ?rest = "filter (\<lambda>n. node_name n \<noteq> old_name) (nodes g)"
  from replace_shader_happened[OF rs] obtain old_shader g1 new g2 where
    g1: "nodes g1 = ?rest"
    and cr: "create_shader_node h groups g1 target (location old_shader) = Some (new, g2)"
    and g': "g' = (if auto_connect p
                    then fst (connect_to_material_output h new
                           (let (ga, co, flag) =
                                  reconnect_outputs h new
                                    (fst (reconnect_inputs h new g2
                                            (foldl (capture_input_link g old_shader) [] (links g))))
                                    (foldl (capture_output_link g old_shader) [] (links g))
                            in (ga, flag)))
                    else g2)"
    by blast
  note cn = create_shader_node_new[OF cr]
  let ?il = "foldl (capture_input_link g old_shader) [] (links g)"
  let ?ol = "foldl (capture_output_link g old_shader) [] (links g)"
  let ?g3 = "fst (reconnect_inputs h new g2 ?il)"
  obtain ga co flag where ro: "reconnect_outputs h new ?g3 ?ol = (ga, co, flag)"
    by (cases "reconnect_outputs h new ?g3 ?ol") auto
  obtain gb fb where fb: "connect_to_material_output h new (ga, flag) = (gb, fb)"
    by (cases "connect_to_material_output h new (ga, flag)")
  have gg: "g' = gb" using g' ac ro fb by simp
  have n3: "nodes ?g3 = ?rest @ [new]" using reconnect_inputs_nodes cn(1) g1 by simp
  have inv: "(flag \<longrightarrow> drives_surface ga (node_name new)) \<and> nodes ga = nodes ?g3"
    using reconnect_outputs_inv[of h new ?g3 "[]" False "dict_pairs ?ol" ga co flag] ro
    by (simp add: reconnect_outputs_def)
  have f2: "find (\<lambda>n. node_type n = ''OUTPUT_MATERIAL'') (nodes ga) = Some out"
    using inv n3 fo by (simp add: find_snoc)
  have nb0: "nodes gb = nodes ga"
    using fb by (auto simp: connect_to_material_output_def safe_link_def links_new_def Let_def
                      split: option.splits if_splits prod.splits)
  then have "last (nodes g') = new" using gg inv n3 by simp
  then have on: "outputs new \<noteq> []" using no by simp
  from fallback_drives[OF fb _ on f2 oi lo] inv
  have d: "drives_surface gb (node_name new)" by auto
  have fresh: "node_name new \<notin> node_name ` set ?rest"
    using cn(4) un g1 by (metis list.set_map)
  show ?thesis using gg d nb0 inv n3 cn(3) fresh by auto
qed

lemma replacement_off:
  assumes "\<not> auto_connect p"
    and "replace_shader h groups p target (g, k) old_name = (g', Suc k)"
  shows "links g' = filter (\<lambda>l. from_node l \<noteq> old_name \<and> to_node l \<noteq> old_name) (links g)"
proof -
  from replace_shader_happened[OF assms(2)] obtain old_shader g1 new g2 where
    g1: "links g1 = filter (\<lambda>l. from_node l \<noteq> old_name \<and> to_node l \<noteq> old_name) (links g)"
    and cr: "create_shader_node h groups g1 target (location old_shader) = Some (new, g2)"
    and g': "g' = (if auto_connect p
                    then fst (connect_to_material_output h new
                           (let (ga, co, flag) =
                                  reconnect_outputs h new
                                    (fst (reconnect_inputs h new g2
                                            (foldl (capture_input_link g old_shader) [] (links g))))
                                    (foldl (capture_output_link g old_shader) [] (links g))
                            in (ga, flag)))
                    else g2)"
    by blast
  have "g' = g2" using g' assms(1) by simp
  then show ?thesis using create_shader_node_new(2)[OF cr] g1 by simp
qed

lemma keep_unique_fresh: "keep_unique ns nm \<notin> set ns"
proof (cases "nm \<in> set ns")
  case False
  then show ?thesis by (simp add: keep_unique_def)
next
  case True
  let ?r = "nm @ ''.'' @ replicate (sum_list (map length ns)) (CHR ''0'') @ ''1''"
  have "\<forall>x \<in> set ns. length x \<le> sum_list (map length ns)"
    by (simp add: member_le_sum_list)
  moreover have "length ?r > sum_list (map length ns)" by simp
  ultimately have "?r \<notin> set ns" by (metis not_less)
  with True show ?thesis by (simp add: keep_unique_def)
qed

text \<open>
  Three runs of one replacement with auto-connect on that end without a surface link: the
  new node is a group node without outputs; the host refuses the links into the material
  output node; the material output node has no input.
\<close>

lemma replacement_needs_output_socket:
  "snd (replace_material_shaders group_env [flat_group] default_props ''Flat'' [] m1_graph) = 1
   \<and> map node_name
       (nodes (fst (replace_material_shaders group_env [flat_group] default_props ''Flat'' []
                      m1_graph)))
       = [''Image Texture'', ''Material Output'', ''Flat'']
   \<and> links (fst (replace_material_shaders group_env [flat_group] default_props ''Flat'' []
                    m1_graph)) = []"
  by code_simp

lemma replacement_needs_accepted_link:
  "snd (replace_material_shaders refusing_env [] default_props ''BSDF_PRINCIPLED'' [] m1_graph) = 1
   \<and> links (fst (replace_material_shaders refusing_env [] default_props ''BSDF_PRINCIPLED'' []
                    m1_graph))
       = [mk_link ''Image Texture'' 0 ''BSDF_PRINCIPLED'' 0]"
  by code_simp

lemma replacement_needs_surface_input:
  "snd (replace_material_shaders host_env [] default_props ''BSDF_PRINCIPLED'' []
          \<lparr>nodes = [ex_diffuse, bare_output], links = []\<rparr>) = 1
   \<and> links (fst (replace_material_shaders host_env [] default_props ''BSDF_PRINCIPLED'' []
                    \<lparr>nodes = [ex_diffuse, bare_output], links = []\<rparr>)) = []"
  by code_simp

text \<open>
  C2 (as amended). Let one round of the replacement loop replace a shader node: the node
  is found and removed and the new node is created. With auto-connect enabled, when the
  first material output node among the remaining nodes has an input, the new node has an
  output, the host accepts links into that output node and keeps node names unique: right
  after that round the graph holds the remaining nodes followed by the new node, whose name
  no remaining node has, and the new node is linked into the surface input, the input
  named Surface or else the first input, of a material output node, whether or not the
  captured links included one to it. With auto-connect disabled the round makes no link:
  the links after it are the links before it that do not touch the replaced node.
\<close>

theorem replacement_links_surface:
  assumes rs: "replace_shader h groups p target (g, k) old_name = (g', Suc k)"
  shows "(auto_connect p
          \<and> find (\<lambda>n. node_type n = ''OUTPUT_MATERIAL'')
               (filter (\<lambda>n. node_name n \<noteq> old_name) (nodes g)) = Some out
          \<and> inputs out \<noteq> []
          \<and> outputs (last (nodes g')) \<noteq> []
          \<and> (\<forall>ls l. to_node l = node_name out \<longrightarrow> link_ok h ls l)
          \<and> (\<forall>ns nm. unique_name h ns nm \<notin> set ns)
          \<longrightarrow> (\<exists>new. nodes g' = filter (\<lambda>n. node_name n \<noteq> old_name) (nodes g) @ [new]
                 \<and> node_label new = target
                 \<and> node_name new
                     \<notin> node_name ` set (filter (\<lambda>n. node_name n \<noteq> old_name) (nodes g))
                 \<and> drives_surface g' (node_name new)))
       \<and> (\<not> auto_connect p
          \<longrightarrow> links g'
               = filter (\<lambda>l. from_node l \<noteq> old_name \<and> to_node l \<noteq> old_name) (links g))"
  using replacement_on[OF _ rs] replacement_off[OF _ rs] by blast

theorem replacement_links_surface_witness:
  "auto_connect default_props
   \<and> replace_shader host_env [] default_props ''BSDF_PRINCIPLED'' (m1_graph, 0) ''Diffuse BSDF''
       = (m1_replaced, Suc 0)
   \<and> find (\<lambda>n. node_type n = ''OUTPUT_MATERIAL'')
        (filter (\<lambda>n. node_name n \<noteq> ''Diffuse BSDF'') (nodes m1_graph)) = Some ex_output
   \<and> inputs ex_output \<noteq> []
   \<and> outputs (last (nodes m1_replaced)) \<noteq> []
   \<and> last (nodes m1_replaced) = ex_principled
   \<and> drives_surface m1_replaced (node_name ex_principled)
   \<and> \<not> auto_connect (default_props\<lparr>auto_connect := False\<rparr>)
   \<and> replace_shader host_env [] (default_props\<lparr>auto_connect := False\<rparr>) ''BSDF_PRINCIPLED''
        (m1_graph, 0) ''Diffuse BSDF''
       = (\<lparr>nodes = [ex_image, ex_output, ex_principled], links = []\<rparr>, Suc 0)
   \<and> filter (\<lambda>l. from_node l \<noteq> ''Diffuse BSDF'' \<and> to_node l \<noteq> ''Diffuse BSDF'') (links m1_graph)
       = []"
proof -
  have ac: "auto_connect default_props" by (simp add: default_props_def)
  have rs: "replace_shader host_env [] default_props ''BSDF_PRINCIPLED'' (m1_graph, 0) ''Diffuse BSDF''
       = (m1_replaced, Suc 0)"
    by code_simp
  have fo: "find (\<lambda>n. node_type n = ''OUTPUT_MATERIAL'')
        (filter (\<lambda>n. node_name n \<noteq> ''Diffuse BSDF'') (nodes m1_graph)) = Some ex_output"
    by (simp add: m1_graph_def ex_output_def ex_image_def ex_diffuse_def)
  have oi: "inputs ex_output \<noteq> []" by (simp add: ex_output_def)
  have l: "last (nodes m1_replaced) = ex_principled" by (simp add: m1_replaced_def)
  have no: "outputs (last (nodes m1_replaced)) \<noteq> []" by (simp add: l ex_principled_def)
  have lo: "\<forall>ls l. to_node l = node_name ex_output \<longrightarrow> link_ok host_env ls l"
    by (simp add: host_env_def ascii_env_def)
  have un: "\<forall>ns nm. unique_name host_env ns nm \<notin> set ns"
    by (simp add: host_env_def ascii_env_def keep_unique_fresh)
  from replacement_links_surface[OF rs, of ex_output, THEN conjunct1] ac fo oi no lo un
  obtain new where n: "nodes m1_replaced
         = filter (\<lambda>n. node_name n \<noteq> ''Diffuse BSDF'') (nodes m1_graph) @ [new]"
    "drives_surface m1_replaced (node_name new)"
    by blast
  have "new = ex_principled" using n(1) l by (metis last_snoc)
  then have d: "drives_surface m1_replaced (node_name ex_principled)" using n(2) by simp
  have off: "\<not> auto_connect (default_props\<lparr>auto_connect := False\<rparr>)" by simp
  have rf: "replace_shader host_env [] (default_props\<lparr>auto_connect := False\<rparr>) ''BSDF_PRINCIPLED''
        (m1_graph, 0) ''Diffuse BSDF''
       = (\<lparr>nodes = [ex_image, ex_output, ex_principled], links = []\<rparr>, Suc 0)"
    by code_simp
  from replacement_links_surface[OF rf, THEN conjunct2] off
  have e: "filter (\<lambda>l. from_node l \<noteq> ''Diffuse BSDF'' \<and> to_node l \<noteq> ''Diffuse BSDF'')
             (links m1_graph) = []"
    by simp
  from ac rs fo oi no l d off rf e show ?thesis by blast
qed

text \<open>
  The claim as stated fails for a batch with auto-connect on: a graph holds a diffuse
  shader linked to the surface input of the material output node and a glossy shader that
  is not linked. Both are replaced by a Principled BSDF. The fallback of the second round
  links the second new node into the same surface input, which takes one link only, so
  after the batch the first new node has no link and only the second drives the surface.
\<close>

theorem batch_replacement_leaves_earlier_node_unlinked:
  "auto_connect default_props
   \<and> snd (replace_material_shaders host_env [] default_props ''BSDF_PRINCIPLED'' [] two_bsdf_graph)
       = 2
   \<and> map node_type
       (nodes (fst (replace_material_shaders host_env [] default_props ''BSDF_PRINCIPLED'' []
                      two_bsdf_graph)))
       = [''OUTPUT_MATERIAL'', ''BSDF_PRINCIPLED'', ''BSDF_PRINCIPLED'']
   \<and> map node_name
       (nodes (fst (replace_material_shaders host_env [] default_props ''BSDF_PRINCIPLED'' []
                      two_bsdf_graph)))
       = [''Material Output'', ''BSDF_PRINCIPLED'',
          keep_unique [''Material Output'', ''BSDF_PRINCIPLED''] ''BSDF_PRINCIPLED'']
   \<and> links (fst (replace_material_shaders host_env [] default_props ''BSDF_PRINCIPLED'' []
                    two_bsdf_graph))
       = [mk_link (keep_unique [''Material Output'', ''BSDF_PRINCIPLED''] ''BSDF_PRINCIPLED'') 0
            ''Material Output'' 0]
   \<and> \<not> drives_surface
          (fst (replace_material_shaders host_env [] default_props ''BSDF_PRINCIPLED'' []
                  two_bsdf_graph))
          ''BSDF_PRINCIPLED''"
  by code_simp

section \<open>Two runs where the code departs from the specification\<close>

text \<open>
  C1. In ALL mode a node whose type is a built-in shader type is selected whatever the
  destination is; only group nodes are compared with the destination. On a material
  whose only shader is a Principled BSDF, with Principled BSDF as the destination, that
  node is selected and replaced, and the operator reports one replaced shader.
\<close>

theorem all_mode_replaces_same_type:
  "shaders_to_replace host_env (default_props\<lparr>builtin_shader := ''BSDF_PRINCIPLED''\<rparr>)
      same_type_graph ''BSDF_PRINCIPLED'' [] = [''BSDF_PRINCIPLED'']
   \<and> snd (replace_material_shaders host_env []
            (default_props\<lparr>builtin_shader := ''BSDF_PRINCIPLED''\<rparr>)
            ''BSDF_PRINCIPLED'' [] same_type_graph) = 1
   \<and> fst (batch_replace_execute host_env m1_context
            (world_of same_type_graph (default_props\<lparr>builtin_shader := ''BSDF_PRINCIPLED''\<rparr>)))
      = (FINISHED, INFO, Replaced_total 1 1 1)"
proof -
  have a: "shaders_to_replace host_env (default_props\<lparr>builtin_shader := ''BSDF_PRINCIPLED''\<rparr>)
      same_type_graph ''BSDF_PRINCIPLED'' [] = [''BSDF_PRINCIPLED'']"
    by code_simp
  have b: "snd (replace_material_shaders host_env []
            (default_props\<lparr>builtin_shader := ''BSDF_PRINCIPLED''\<rparr>)
            ''BSDF_PRINCIPLED'' [] same_type_graph) = 1"
    by code_simp
  have c: "fst (batch_replace_execute host_env m1_context
            (world_of same_type_graph (default_props\<lparr>builtin_shader := ''BSDF_PRINCIPLED''\<rparr>)))
      = (FINISHED, INFO, Replaced_total 1 1 1)"
    by code_simp
  from a b c show ?thesis by blast
qed

text \<open>
  C3. On the material with the Mix Shader, disconnect in ALL mode removes the two links
  and stores two records, but the record of the link into input 2 of the Mix Shader holds
  position 1, the first input of the same name. The reconnect that follows (auto-connect
  off, no rules) reports two restored links and puts that link at input 1, not 2.
\<close>

theorem snapshot_round_trip_moves_link:
  "links mix_graph = [mk_link ''Diffuse BSDF'' 0 ''Mix Shader'' 2,
                      mk_link ''Mix Shader'' 0 ''Material Output'' 0]
   \<and> fst (disconnect_execute m1_context mix_world) = (FINISHED, INFO, Disconnected MODE_ALL 2)
   \<and> map (\<lambda>r. (from_node_name r, from_socket_index r, to_node_name r, to_socket_index r))
        (connection_snapshot (scene_props (snd (disconnect_execute m1_context mix_world))))
      = [(''Diffuse BSDF'', 0, ''Mix Shader'', 1), (''Mix Shader'', 0, ''Material Output'', 0)]
   \<and> material_links (snd (disconnect_execute m1_context mix_world)) ''M1'' = []
   \<and> fst (reconnect_execute host_env m1_context (snd (disconnect_execute m1_context mix_world)))
      = (FINISHED, INFO, Reconnected True False 0 0 2)
   \<and> material_links
        (snd (reconnect_execute host_env m1_context (snd (disconnect_execute m1_context mix_world))))
        ''M1''
      = [mk_link ''Diffuse BSDF'' 0 ''Mix Shader'' 1,
         mk_link ''Mix Shader'' 0 ''Material Output'' 0]"
proof -
  have a: "links mix_graph = [mk_link ''Diffuse BSDF'' 0 ''Mix Shader'' 2,
                      mk_link ''Mix Shader'' 0 ''Material Output'' 0]"
    by (simp add: mix_graph_def)
  have b: "fst (disconnect_execute m1_context mix_world) = (FINISHED, INFO, Disconnected MODE_ALL 2)"
    by code_simp
  have c: "map (\<lambda>r. (from_node_name r, from_socket_index r, to_node_name r, to_socket_index r))
        (connection_snapshot (scene_props (snd (disconnect_execute m1_context mix_world))))
      = [(''Diffuse BSDF'', 0, ''Mix Shader'', 1), (''Mix Shader'', 0, ''Material Output'', 0)]"
    by code_simp
  have d: "material_links (snd (disconnect_execute m1_context mix_world)) ''M1'' = []"
    by code_simp
  have e: "fst (reconnect_execute host_env m1_context (snd (disconnect_execute m1_context mix_world)))
      = (FINISHED, INFO, Reconnected True False 0 0 2)"
    by code_simp
  have f: "material_links
        (snd (reconnect_execute host_env m1_context (snd (disconnect_execute m1_context mix_world))))
        ''M1''
      = [mk_link ''Diffuse BSDF'' 0 ''Mix Shader'' 1,
         mk_link ''Mix Shader'' 0 ''Material Output'' 0]"
    by code_simp
  from a b c d e f show ?thesis by blast
qed

end
